theory Spec2Isabelle
  imports Complex_Main "HOL-Library.List_Lexorder"
begin

section \<open>JavaScript strings\<close>

text \<open>
  A JavaScript string is a sequence of UTF-16 code units; a code unit is modelled as a
  natural number. \<open>js\<close> embeds an ASCII literal. Numbers of the program are IEEE doubles
  obtained from decimal tokens; the model keeps the exact decimal value as a rational
  (comparison, equality and ordering of the program are read on these exact values).
\<close>

type_synonym jstring = "nat list"

definition js :: "string \<Rightarrow> jstring" where
  "js s = map of_char s"

definition isDigit :: "nat \<Rightarrow> bool" where
  "isDigit c \<longleftrightarrow> 48 \<le> c \<and> c \<le> 57"

definition isAsciiLetter :: "nat \<Rightarrow> bool" where
  "isAsciiLetter c \<longleftrightarrow> (65 \<le> c \<and> c \<le> 90) \<or> (97 \<le> c \<and> c \<le> 122)"

text \<open>The class \<open>\w\<close> of a regular expression: letters, digits and the underscore.\<close>

definition isWordUnit :: "nat \<Rightarrow> bool" where
  "isWordUnit c \<longleftrightarrow> isDigit c \<or> isAsciiLetter c \<or> c = 95"

text \<open>White space and line terminators: the class \<open>\s\<close>, and what \<open>trim\<close> removes.\<close>

definition isSpace :: "nat \<Rightarrow> bool" where
  "isSpace c \<longleftrightarrow>
     c \<in> set [9, 10, 11, 12, 13, 32, 160, 5760, 8232, 8233, 8239, 8287, 12288, 65279]
     \<or> (8192 \<le> c \<and> c \<le> 8202)"

text \<open>
  \<open>toLowerCase\<close> is the lower-casing of ECMAScript: the string is read as code points (a high
  surrogate followed by a low surrogate is one code point, every other code unit is one by
  itself), every code point is replaced by its lower-case mapping of the Unicode Character
  Database, and the result is written back as code units. The mappings are those of
  \<open>UnicodeData.txt\<close> and the two language-independent entries of \<open>SpecialCasing.txt\<close>:
  \<open>U+0130\<close> becomes \<open>U+0069 U+0307\<close>, and \<open>U+03A3\<close> becomes the final sigma \<open>U+03C2\<close> when it
  ends a word (a cased letter before it, none after it, case-ignorable code points skipped)
  and \<open>U+03C3\<close> otherwise. The tables are those of Unicode 14.0.

  An entry \<open>(lo, hi, step, lo')\<close> of \<open>lowerRanges\<close> maps the code points \<open>lo, lo + step, ...\<close>
  up to \<open>hi\<close> to \<open>lo', lo' + step, ...\<close>; \<open>casedRanges\<close> and \<open>caseIgnorableRanges\<close> list the
  code points with the properties \<open>Cased\<close> and \<open>Case_Ignorable\<close>.
\<close>

definition lowerRanges :: "(nat \<times> nat \<times> nat \<times> nat) list" where
  "lowerRanges =
    [(65, 90, 1, 97), (192, 214, 1, 224), (216, 222, 1, 248), (256, 302, 2, 257),
     (304, 304, 1, 105), (306, 310, 2, 307), (313, 327, 2, 314), (330, 374, 2, 331),
     (376, 376, 1, 255), (377, 381, 2, 378), (385, 385, 1, 595), (386, 388, 2, 387),
     (390, 390, 1, 596), (391, 391, 1, 392), (393, 394, 1, 598), (395, 395, 1, 396),
     (398, 398, 1, 477), (399, 399, 1, 601), (400, 400, 1, 603), (401, 401, 1, 402),
     (403, 403, 1, 608), (404, 404, 1, 611), (406, 406, 1, 617), (407, 407, 1, 616),
     (408, 408, 1, 409), (412, 412, 1, 623), (413, 413, 1, 626), (415, 415, 1, 629),
     (416, 420, 2, 417), (422, 422, 1, 640), (423, 423, 1, 424), (425, 425, 1, 643),
     (428, 428, 1, 429), (430, 430, 1, 648), (431, 431, 1, 432), (433, 434, 1, 650),
     (435, 437, 2, 436), (439, 439, 1, 658), (440, 440, 1, 441), (444, 444, 1, 445),
     (452, 452, 1, 454), (453, 453, 1, 454), (455, 455, 1, 457), (456, 456, 1, 457),
     (458, 458, 1, 460), (459, 475, 2, 460), (478, 494, 2, 479), (497, 497, 1, 499),
     (498, 500, 2, 499), (502, 502, 1, 405), (503, 503, 1, 447), (504, 542, 2, 505),
     (544, 544, 1, 414), (546, 562, 2, 547), (570, 570, 1, 11365), (571, 571, 1, 572),
     (573, 573, 1, 410), (574, 574, 1, 11366), (577, 577, 1, 578), (579, 579, 1, 384),
     (580, 580, 1, 649), (581, 581, 1, 652), (582, 590, 2, 583), (880, 882, 2, 881),
     (886, 886, 1, 887), (895, 895, 1, 1011), (902, 902, 1, 940), (904, 906, 1, 941),
     (908, 908, 1, 972), (910, 911, 1, 973), (913, 929, 1, 945), (931, 939, 1, 963),
     (975, 975, 1, 983), (984, 1006, 2, 985), (1012, 1012, 1, 952), (1015, 1015, 1, 1016),
     (1017, 1017, 1, 1010), (1018, 1018, 1, 1019), (1021, 1023, 1, 891), (1024, 1039, 1, 1104),
     (1040, 1071, 1, 1072), (1120, 1152, 2, 1121), (1162, 1214, 2, 1163), (1216, 1216, 1, 1231),
     (1217, 1229, 2, 1218), (1232, 1326, 2, 1233), (1329, 1366, 1, 1377), (4256, 4293, 1, 11520),
     (4295, 4295, 1, 11559), (4301, 4301, 1, 11565), (5024, 5103, 1, 43888), (5104, 5109, 1, 5112),
     (7312, 7354, 1, 4304), (7357, 7359, 1, 4349), (7680, 7828, 2, 7681), (7838, 7838, 1, 223),
     (7840, 7934, 2, 7841), (7944, 7951, 1, 7936), (7960, 7965, 1, 7952), (7976, 7983, 1, 7968),
     (7992, 7999, 1, 7984), (8008, 8013, 1, 8000), (8025, 8025, 1, 8017), (8027, 8027, 1, 8019),
     (8029, 8029, 1, 8021), (8031, 8031, 1, 8023), (8040, 8047, 1, 8032), (8072, 8079, 1, 8064),
     (8088, 8095, 1, 8080), (8104, 8111, 1, 8096), (8120, 8121, 1, 8112), (8122, 8123, 1, 8048),
     (8124, 8124, 1, 8115), (8136, 8139, 1, 8050), (8140, 8140, 1, 8131), (8152, 8153, 1, 8144),
     (8154, 8155, 1, 8054), (8168, 8169, 1, 8160), (8170, 8171, 1, 8058), (8172, 8172, 1, 8165),
     (8184, 8185, 1, 8056), (8186, 8187, 1, 8060), (8188, 8188, 1, 8179), (8486, 8486, 1, 969),
     (8490, 8490, 1, 107), (8491, 8491, 1, 229), (8498, 8498, 1, 8526), (8544, 8559, 1, 8560),
     (8579, 8579, 1, 8580), (9398, 9423, 1, 9424), (11264, 11311, 1, 11312),
     (11360, 11360, 1, 11361), (11362, 11362, 1, 619), (11363, 11363, 1, 7549),
     (11364, 11364, 1, 637), (11367, 11371, 2, 11368), (11373, 11373, 1, 593),
     (11374, 11374, 1, 625), (11375, 11375, 1, 592), (11376, 11376, 1, 594),
     (11378, 11378, 1, 11379), (11381, 11381, 1, 11382), (11390, 11391, 1, 575),
     (11392, 11490, 2, 11393), (11499, 11501, 2, 11500), (11506, 11506, 1, 11507),
     (42560, 42604, 2, 42561), (42624, 42650, 2, 42625), (42786, 42798, 2, 42787),
     (42802, 42862, 2, 42803), (42873, 42875, 2, 42874), (42877, 42877, 1, 7545),
     (42878, 42886, 2, 42879), (42891, 42891, 1, 42892), (42893, 42893, 1, 613),
     (42896, 42898, 2, 42897), (42902, 42920, 2, 42903), (42922, 42922, 1, 614),
     (42923, 42923, 1, 604), (42924, 42924, 1, 609), (42925, 42925, 1, 620), (42926, 42926, 1, 618),
     (42928, 42928, 1, 670), (42929, 42929, 1, 647), (42930, 42930, 1, 669),
     (42931, 42931, 1, 43859), (42932, 42946, 2, 42933), (42948, 42948, 1, 42900),
     (42949, 42949, 1, 642), (42950, 42950, 1, 7566), (42951, 42953, 2, 42952),
     (42960, 42960, 1, 42961), (42966, 42968, 2, 42967), (42997, 42997, 1, 42998),
     (65313, 65338, 1, 65345), (66560, 66599, 1, 66600), (66736, 66771, 1, 66776),
     (66928, 66938, 1, 66967), (66940, 66954, 1, 66979), (66956, 66962, 1, 66995),
     (66964, 66965, 1, 67003), (68736, 68786, 1, 68800), (71840, 71871, 1, 71872),
     (93760, 93791, 1, 93792), (125184, 125217, 1, 125218)]"

definition casedRanges :: "(nat \<times> nat) list" where
  "casedRanges =
    [(65, 90), (97, 122), (170, 170), (181, 181), (186, 186), (192, 214), (216, 246), (248, 442),
     (444, 447), (452, 659), (661, 696), (704, 705), (736, 740), (837, 837), (880, 883), (886, 887),
     (890, 893), (895, 895), (902, 902), (904, 906), (908, 908), (910, 929), (931, 1013),
     (1015, 1153), (1162, 1327), (1329, 1366), (1376, 1416), (4256, 4293), (4295, 4295),
     (4301, 4301), (4304, 4346), (4349, 4351), (5024, 5109), (5112, 5117), (7296, 7304),
     (7312, 7354), (7357, 7359), (7424, 7615), (7680, 7957), (7960, 7965), (7968, 8005),
     (8008, 8013), (8016, 8023), (8025, 8025), (8027, 8027), (8029, 8029), (8031, 8061),
     (8064, 8116), (8118, 8124), (8126, 8126), (8130, 8132), (8134, 8140), (8144, 8147),
     (8150, 8155), (8160, 8172), (8178, 8180), (8182, 8188), (8305, 8305), (8319, 8319),
     (8336, 8348), (8450, 8450), (8455, 8455), (8458, 8467), (8469, 8469), (8473, 8477),
     (8484, 8484), (8486, 8486), (8488, 8488), (8490, 8493), (8495, 8500), (8505, 8505),
     (8508, 8511), (8517, 8521), (8526, 8526), (8544, 8575), (8579, 8580), (9398, 9449),
     (11264, 11492), (11499, 11502), (11506, 11507), (11520, 11557), (11559, 11559), (11565, 11565),
     (42560, 42605), (42624, 42653), (42786, 42887), (42891, 42894), (42896, 42954), (42960, 42961),
     (42963, 42963), (42965, 42969), (42997, 42998), (43000, 43002), (43824, 43866), (43868, 43880),
     (43888, 43967), (64256, 64262), (64275, 64279), (65313, 65338), (65345, 65370), (66560, 66639),
     (66736, 66771), (66776, 66811), (66928, 66938), (66940, 66954), (66956, 66962), (66964, 66965),
     (66967, 66977), (66979, 66993), (66995, 67001), (67003, 67004), (67456, 67456), (67459, 67461),
     (67463, 67504), (67506, 67514), (68736, 68786), (68800, 68850), (71840, 71903), (93760, 93823),
     (119808, 119892), (119894, 119964), (119966, 119967), (119970, 119970), (119973, 119974),
     (119977, 119980), (119982, 119993), (119995, 119995), (119997, 120003), (120005, 120069),
     (120071, 120074), (120077, 120084), (120086, 120092), (120094, 120121), (120123, 120126),
     (120128, 120132), (120134, 120134), (120138, 120144), (120146, 120485), (120488, 120512),
     (120514, 120538), (120540, 120570), (120572, 120596), (120598, 120628), (120630, 120654),
     (120656, 120686), (120688, 120712), (120714, 120744), (120746, 120770), (120772, 120779),
     (122624, 122633), (122635, 122654), (125184, 125251), (127280, 127305), (127312, 127337),
     (127344, 127369)]"

definition caseIgnorableRanges :: "(nat \<times> nat) list" where
  "caseIgnorableRanges =
    [(39, 39), (46, 46), (58, 58), (94, 94), (96, 96), (168, 168), (173, 173), (175, 175),
     (180, 180), (183, 184), (688, 879), (884, 885), (890, 890), (900, 901), (903, 903),
     (1155, 1161), (1369, 1369), (1375, 1375), (1425, 1469), (1471, 1471), (1473, 1474),
     (1476, 1477), (1479, 1479), (1524, 1524), (1536, 1541), (1552, 1562), (1564, 1564),
     (1600, 1600), (1611, 1631), (1648, 1648), (1750, 1757), (1759, 1768), (1770, 1773),
     (1807, 1807), (1809, 1809), (1840, 1866), (1958, 1968), (2027, 2037), (2042, 2042),
     (2045, 2045), (2070, 2093), (2137, 2139), (2184, 2184), (2192, 2193), (2200, 2207),
     (2249, 2306), (2362, 2362), (2364, 2364), (2369, 2376), (2381, 2381), (2385, 2391),
     (2402, 2403), (2417, 2417), (2433, 2433), (2492, 2492), (2497, 2500), (2509, 2509),
     (2530, 2531), (2558, 2558), (2561, 2562), (2620, 2620), (2625, 2626), (2631, 2632),
     (2635, 2637), (2641, 2641), (2672, 2673), (2677, 2677), (2689, 2690), (2748, 2748),
     (2753, 2757), (2759, 2760), (2765, 2765), (2786, 2787), (2810, 2815), (2817, 2817),
     (2876, 2876), (2879, 2879), (2881, 2884), (2893, 2893), (2901, 2902), (2914, 2915),
     (2946, 2946), (3008, 3008), (3021, 3021), (3072, 3072), (3076, 3076), (3132, 3132),
     (3134, 3136), (3142, 3144), (3146, 3149), (3157, 3158), (3170, 3171), (3201, 3201),
     (3260, 3260), (3263, 3263), (3270, 3270), (3276, 3277), (3298, 3299), (3328, 3329),
     (3387, 3388), (3393, 3396), (3405, 3405), (3426, 3427), (3457, 3457), (3530, 3530),
     (3538, 3540), (3542, 3542), (3633, 3633), (3636, 3642), (3654, 3662), (3761, 3761),
     (3764, 3772), (3782, 3782), (3784, 3789), (3864, 3865), (3893, 3893), (3895, 3895),
     (3897, 3897), (3953, 3966), (3968, 3972), (3974, 3975), (3981, 3991), (3993, 4028),
     (4038, 4038), (4141, 4144), (4146, 4151), (4153, 4154), (4157, 4158), (4184, 4185),
     (4190, 4192), (4209, 4212), (4226, 4226), (4229, 4230), (4237, 4237), (4253, 4253),
     (4348, 4348), (4957, 4959), (5906, 5908), (5938, 5939), (5970, 5971), (6002, 6003),
     (6068, 6069), (6071, 6077), (6086, 6086), (6089, 6099), (6103, 6103), (6109, 6109),
     (6155, 6159), (6211, 6211), (6277, 6278), (6313, 6313), (6432, 6434), (6439, 6440),
     (6450, 6450), (6457, 6459), (6679, 6680), (6683, 6683), (6742, 6742), (6744, 6750),
     (6752, 6752), (6754, 6754), (6757, 6764), (6771, 6780), (6783, 6783), (6823, 6823),
     (6832, 6862), (6912, 6915), (6964, 6964), (6966, 6970), (6972, 6972), (6978, 6978),
     (7019, 7027), (7040, 7041), (7074, 7077), (7080, 7081), (7083, 7085), (7142, 7142),
     (7144, 7145), (7149, 7149), (7151, 7153), (7212, 7219), (7222, 7223), (7288, 7293),
     (7376, 7378), (7380, 7392), (7394, 7400), (7405, 7405), (7412, 7412), (7416, 7417),
     (7468, 7530), (7544, 7544), (7579, 7679), (8125, 8125), (8127, 8129), (8141, 8143),
     (8157, 8159), (8173, 8175), (8189, 8190), (8203, 8207), (8216, 8217), (8228, 8228),
     (8231, 8231), (8234, 8238), (8288, 8292), (8294, 8303), (8305, 8305), (8319, 8319),
     (8336, 8348), (8400, 8432), (11388, 11389), (11503, 11505), (11631, 11631), (11647, 11647),
     (11744, 11775), (11823, 11823), (12293, 12293), (12330, 12333), (12337, 12341), (12347, 12347),
     (12441, 12446), (12540, 12542), (40981, 40981), (42232, 42237), (42508, 42508), (42607, 42610),
     (42612, 42621), (42623, 42623), (42652, 42655), (42736, 42737), (42752, 42785), (42864, 42864),
     (42888, 42890), (42994, 42996), (43000, 43001), (43010, 43010), (43014, 43014), (43019, 43019),
     (43045, 43046), (43052, 43052), (43204, 43205), (43232, 43249), (43263, 43263), (43302, 43309),
     (43335, 43345), (43392, 43394), (43443, 43443), (43446, 43449), (43452, 43453), (43471, 43471),
     (43493, 43494), (43561, 43566), (43569, 43570), (43573, 43574), (43587, 43587), (43596, 43596),
     (43632, 43632), (43644, 43644), (43696, 43696), (43698, 43700), (43703, 43704), (43710, 43711),
     (43713, 43713), (43741, 43741), (43756, 43757), (43763, 43764), (43766, 43766), (43867, 43871),
     (43881, 43883), (44005, 44005), (44008, 44008), (44013, 44013), (64286, 64286), (64434, 64450),
     (65024, 65039), (65043, 65043), (65056, 65071), (65106, 65106), (65109, 65109), (65279, 65279),
     (65287, 65287), (65294, 65294), (65306, 65306), (65342, 65342), (65344, 65344), (65392, 65392),
     (65438, 65439), (65507, 65507), (65529, 65531), (66045, 66045), (66272, 66272), (66422, 66426),
     (67456, 67461), (67463, 67504), (67506, 67514), (68097, 68099), (68101, 68102), (68108, 68111),
     (68152, 68154), (68159, 68159), (68325, 68326), (68900, 68903), (69291, 69292), (69446, 69456),
     (69506, 69509), (69633, 69633), (69688, 69702), (69744, 69744), (69747, 69748), (69759, 69761),
     (69811, 69814), (69817, 69818), (69821, 69821), (69826, 69826), (69837, 69837), (69888, 69890),
     (69927, 69931), (69933, 69940), (70003, 70003), (70016, 70017), (70070, 70078), (70089, 70092),
     (70095, 70095), (70191, 70193), (70196, 70196), (70198, 70199), (70206, 70206), (70367, 70367),
     (70371, 70378), (70400, 70401), (70459, 70460), (70464, 70464), (70502, 70508), (70512, 70516),
     (70712, 70719), (70722, 70724), (70726, 70726), (70750, 70750), (70835, 70840), (70842, 70842),
     (70847, 70848), (70850, 70851), (71090, 71093), (71100, 71101), (71103, 71104), (71132, 71133),
     (71219, 71226), (71229, 71229), (71231, 71232), (71339, 71339), (71341, 71341), (71344, 71349),
     (71351, 71351), (71453, 71455), (71458, 71461), (71463, 71467), (71727, 71735), (71737, 71738),
     (71995, 71996), (71998, 71998), (72003, 72003), (72148, 72151), (72154, 72155), (72160, 72160),
     (72193, 72202), (72243, 72248), (72251, 72254), (72263, 72263), (72273, 72278), (72281, 72283),
     (72330, 72342), (72344, 72345), (72752, 72758), (72760, 72765), (72767, 72767), (72850, 72871),
     (72874, 72880), (72882, 72883), (72885, 72886), (73009, 73014), (73018, 73018), (73020, 73021),
     (73023, 73029), (73031, 73031), (73104, 73105), (73109, 73109), (73111, 73111), (73459, 73460),
     (78896, 78904), (92912, 92916), (92976, 92982), (92992, 92995), (94031, 94031), (94095, 94111),
     (94176, 94177), (94179, 94180), (110576, 110579), (110581, 110587), (110589, 110590),
     (113821, 113822), (113824, 113827), (118528, 118573), (118576, 118598), (119143, 119145),
     (119155, 119170), (119173, 119179), (119210, 119213), (119362, 119364), (121344, 121398),
     (121403, 121452), (121461, 121461), (121476, 121476), (121499, 121503), (121505, 121519),
     (122880, 122886), (122888, 122904), (122907, 122913), (122915, 122916), (122918, 122922),
     (123184, 123197), (123566, 123566), (123628, 123631), (125136, 125142), (125252, 125259),
     (127995, 127999), (917505, 917505), (917536, 917631), (917760, 917999)]"

fun lowerIn :: "(nat \<times> nat \<times> nat \<times> nat) list \<Rightarrow> nat \<Rightarrow> nat" where
  "lowerIn [] p = p"
| "lowerIn ((lo, hi, step, lo') # rs) p =
     (if lo \<le> p \<and> p \<le> hi \<and> (p - lo) mod step = 0 then lo' + (p - lo) else lowerIn rs p)"

definition lowerPoint :: "nat \<Rightarrow> nat" where
  "lowerPoint p = lowerIn lowerRanges p"

definition inRanges :: "(nat \<times> nat) list \<Rightarrow> nat \<Rightarrow> bool" where
  "inRanges rs p \<longleftrightarrow> list_ex (\<lambda>(lo, hi). lo \<le> p \<and> p \<le> hi) rs"

definition cased :: "nat \<Rightarrow> bool" where
  "cased p \<longleftrightarrow> inRanges casedRanges p"

definition caseIgnorable :: "nat \<Rightarrow> bool" where
  "caseIgnorable p \<longleftrightarrow> inRanges caseIgnorableRanges p"

definition isHighSurrogate :: "nat \<Rightarrow> bool" where
  "isHighSurrogate c \<longleftrightarrow> 55296 \<le> c \<and> c \<le> 56319"

definition isLowSurrogate :: "nat \<Rightarrow> bool" where
  "isLowSurrogate c \<longleftrightarrow> 56320 \<le> c \<and> c \<le> 57343"

definition codePoint :: "nat \<Rightarrow> nat \<Rightarrow> nat" where
  "codePoint h l = 65536 + (h - 55296) * 1024 + (l - 56320)"

fun codePoints :: "jstring \<Rightarrow> nat list" where
  "codePoints (h # l # s) =
     (if isHighSurrogate h \<and> isLowSurrogate l then codePoint h l # codePoints s
      else h # codePoints (l # s))"
| "codePoints [c] = [c]"
| "codePoints [] = []"

definition codeUnits :: "nat \<Rightarrow> jstring" where
  "codeUnits p =
     (if p < 65536 then [p]
      else [55296 + (p - 65536) div 1024, 56320 + (p - 65536) mod 1024])"

text \<open>
  The first code point that is not case-ignorable is cased. With the code points before a
  position, nearest first, this is the test ``a cased letter before it''; with the code
  points after it, ``a cased letter after it''.
\<close>

fun followedByCased :: "nat list \<Rightarrow> bool" where
  "followedByCased [] = False"
| "followedByCased (p # ps) = (if caseIgnorable p then followedByCased ps else cased p)"

definition finalSigma :: "nat list \<Rightarrow> nat list \<Rightarrow> bool" where
  "finalSigma pre post \<longleftrightarrow> followedByCased pre \<and> \<not> followedByCased post"

text \<open>\<open>lowerFrom pre s\<close> lower-cases \<open>s\<close>; \<open>pre\<close> holds the code points before \<open>s\<close>, nearest first.\<close>

fun lowerFrom :: "nat list \<Rightarrow> jstring \<Rightarrow> jstring" where
  "lowerFrom pre (h # l # s) =
     (if isHighSurrogate h \<and> isLowSurrogate l
      then codeUnits (lowerPoint (codePoint h l)) @ lowerFrom (codePoint h l # pre) s
      else (if h = 931 then [if finalSigma pre (codePoints (l # s)) then 962 else 963]
            else if h = 304 then [105, 775]
            else [lowerPoint h]) @ lowerFrom (h # pre) (l # s))"
| "lowerFrom pre [c] =
     (if c = 931 then [if finalSigma pre [] then 962 else 963]
      else if c = 304 then [105, 775]
      else [lowerPoint c])"
| "lowerFrom pre [] = []"

definition toLowerCase :: "jstring \<Rightarrow> jstring" where
  "toLowerCase s = lowerFrom [] s"

text \<open>
  Auxiliary notions for the proofs about \<open>toLowerCase\<close>. Two entries of the table are apart
  when no image of the first is in the domain of the second; an entry is zoned when it maps
  within one of the three zones of code points (below the surrogates, above them in the
  basic plane, beyond the basic plane). A string is \<open>lowered\<close> when no code point of it has a
  lower-case mapping to another code point.
\<close>

fun apart :: "nat \<times> nat \<times> nat \<times> nat \<Rightarrow> nat \<times> nat \<times> nat \<times> nat \<Rightarrow> bool" where
  "apart (lo, hi, st, t) (a, b, s, a') \<longleftrightarrow>
     t + (hi - lo) < a \<or> b < t \<or> (s = 2 \<and> (st = 2 \<or> lo = hi) \<and> a \<le> t \<and> (t - a) mod 2 = 1)"

fun zoned :: "nat \<times> nat \<times> nat \<times> nat \<Rightarrow> bool" where
  "zoned (lo, hi, st, t) \<longleftrightarrow>
     (hi < 55296 \<and> t + (hi - lo) < 55296)
     \<or> (57344 \<le> lo \<and> hi < 65536 \<and> 57344 \<le> t \<and> t + (hi - lo) < 65536)
     \<or> (65536 \<le> lo \<and> hi < 1114112 \<and> 65536 \<le> t \<and> t + (hi - lo) < 1114112)"

definition lowFix :: "nat \<Rightarrow> bool" where
  "lowFix c \<longleftrightarrow> lowerPoint c = c \<and> c \<noteq> 931 \<and> c \<noteq> 304"

fun lowered :: "jstring \<Rightarrow> bool" where
  "lowered (h # l # s) \<longleftrightarrow>
     lowFix h
     \<and> (isHighSurrogate h \<and> isLowSurrogate l \<longrightarrow> lowerPoint (codePoint h l) = codePoint h l)
     \<and> lowered (l # s)"
| "lowered [c] \<longleftrightarrow> lowFix c"
| "lowered [] \<longleftrightarrow> True"

text \<open>
  Lower-casing within Basic Latin, which is how a regular expression with the flag \<open>i\<close>
  compares the letters of an ASCII pattern.
\<close>

definition asciiLower :: "nat \<Rightarrow> nat" where
  "asciiLower c = (if 65 \<le> c \<and> c \<le> 90 then c + 32 else c)"

definition trim :: "jstring \<Rightarrow> jstring" where
  "trim s = rev (dropWhile isSpace (rev (dropWhile isSpace s)))"

text \<open>\<open>s.includes(k)\<close>: \<open>k\<close> occurs in \<open>s\<close> as a contiguous block.\<close>

primrec jsIncludes :: "jstring \<Rightarrow> jstring \<Rightarrow> bool" where
  "jsIncludes [] k = (k = [])"
| "jsIncludes (c # cs) k = (take (length k) (c # cs) = k \<or> jsIncludes cs k)"

text \<open>\<open>s.split(sep)\<close> for a separator of one code unit.\<close>

primrec splitOn :: "nat \<Rightarrow> jstring \<Rightarrow> jstring list" where
  "splitOn sep [] = [[]]"
| "splitOn sep (c # cs) =
     (if c = sep then [] # splitOn sep cs
      else (case splitOn sep cs of [] \<Rightarrow> [[c]] | p # ps \<Rightarrow> (c # p) # ps))"

text \<open>\<open>s.lastIndexOf(c)\<close>, \<open>-1\<close> when \<open>c\<close> does not occur.\<close>

definition lastIndexOf :: "jstring \<Rightarrow> nat \<Rightarrow> int" where
  "lastIndexOf s c =
     (if c \<in> set s then int (length s) - 1 - int (length (takeWhile (\<lambda>x. x \<noteq> c) (rev s)))
      else - 1)"

text \<open>\<open>s.replace(a, b)\<close> with a string pattern replaces the first occurrence only.\<close>

primrec replaceFirst :: "nat \<Rightarrow> nat \<Rightarrow> jstring \<Rightarrow> jstring" where
  "replaceFirst a b [] = []"
| "replaceFirst a b (c # cs) = (if c = a then b # cs else c # replaceFirst a b cs)"

text \<open>\<open>s.replace(/a/g, '')\<close> removes every occurrence.\<close>

definition removeUnit :: "nat \<Rightarrow> jstring \<Rightarrow> jstring" where
  "removeUnit a s = filter (\<lambda>c. c \<noteq> a) s"

definition removeSpaces :: "jstring \<Rightarrow> jstring" where
  "removeSpaces s = filter (\<lambda>c. \<not> isSpace c) s"

text \<open>\<open>[...new Set(xs)]\<close>: the first occurrence of every value, in insertion order.\<close>

definition dedupe :: "'a list \<Rightarrow> 'a list" where
  "dedupe xs = rev (remdups (rev xs))"

section \<open>Numbers read from tokens\<close>

definition digitsVal :: "jstring \<Rightarrow> nat" where
  "digitsVal s = foldl (\<lambda>a c. 10 * a + (c - 48)) 0 s"

text \<open>The value of the decimal numeral \<open>ip.fp\<close>.\<close>

definition decimalOf :: "jstring \<Rightarrow> jstring \<Rightarrow> rat" where
  "decimalOf ip fp = of_nat (digitsVal ip) + of_nat (digitsVal fp) / 10 ^ length fp"

text \<open>
  \<open>parseFloat\<close> on a string over digits, \<open>.\<close> and \<open>,\<close> (all that the amount patterns
  capture once white space is removed): the longest prefix \<open>digits [. digits]\<close>, and
  \<open>NaN\<close> (here \<open>None\<close>) when that prefix holds no digit.
\<close>

definition parseFloat :: "jstring \<Rightarrow> rat option" where
  "parseFloat s =
     (let ip = takeWhile isDigit s; r = dropWhile isDigit s
      in case r of
           [] \<Rightarrow> if ip = [] then None else Some (of_nat (digitsVal ip))
         | c # r' \<Rightarrow>
             if c = 46 then
               (let fp = takeWhile isDigit r'
                in if ip = [] \<and> fp = [] then None
                   else Some (decimalOf ip fp))
             else if ip = [] then None else Some (of_nat (digitsVal ip)))"

text \<open>\<open>parseInt\<close> on a captured group: the leading digits, \<open>NaN\<close> when there is none.\<close>

definition parseInt :: "jstring \<Rightarrow> nat option" where
  "parseInt s = (let ip = takeWhile isDigit s in if ip = [] then None else Some (digitsVal ip))"

text \<open>\<open>xs.sort((a, b) => b - a)\<close>: a stable sort into descending order.\<close>

definition sortDesc :: "rat list \<Rightarrow> rat list" where
  "sortDesc xs = sort_key (\<lambda>x. - x) xs"

section \<open>Regular expressions\<close>

text \<open>
  The patterns of the program are written in a small abstract syntax, and matched by a
  backtracking matcher that lists the possible continuations in the priority order of
  the JavaScript engine (greedy repetition, left alternative first). The head of that list
  is the match the engine reports. A matcher state holds the code units before the
  position (reversed), the code units from the position on, and the captured groups.
\<close>

datatype rx =
    Cls "nat \<Rightarrow> bool"
  | Eps
  | Seq rx rx
  | Alt rx rx
  | Star rx
  | Grp nat rx
  | Bol
  | Eol
  | WordB
  | NotAhead rx

type_synonym mstate = "jstring \<times> jstring \<times> (nat \<times> jstring) list"

text \<open>
  Greedy iteration. An iteration that consumes nothing is discarded, as the engine does,
  so the rest of the input bounds the number of iterations.
\<close>

primrec star_iter :: "nat \<Rightarrow> (mstate \<Rightarrow> mstate list) \<Rightarrow> mstate \<Rightarrow> mstate list" where
  "star_iter 0 f st = [st]"
| "star_iter (Suc n) f st =
     concat (map (star_iter n f)
       (filter (\<lambda>st'. length (fst (snd st')) < length (fst (snd st))) (f st))) @ [st]"

primrec rxm :: "rx \<Rightarrow> mstate \<Rightarrow> mstate list" where
  "rxm (Cls p) st =
     (case fst (snd st) of
        [] \<Rightarrow> []
      | c # cs \<Rightarrow> if p c then [(c # fst st, cs, snd (snd st))] else [])"
| "rxm Eps st = [st]"
| "rxm (Seq r1 r2) st = concat (map (rxm r2) (rxm r1 st))"
| "rxm (Alt r1 r2) st = rxm r1 st @ rxm r2 st"
| "rxm (Star r) st = star_iter (length (fst (snd st))) (rxm r) st"
| "rxm (Grp n r) st =
     map (\<lambda>st'. (fst st', fst (snd st'),
                 (n, rev (take (length (fst st') - length (fst st)) (fst st'))) # snd (snd st')))
       (rxm r st)"
| "rxm Bol st = (if fst st = [] then [st] else [])"
| "rxm Eol st = (if fst (snd st) = [] then [st] else [])"
| "rxm WordB st =
     (if (case fst st of [] \<Rightarrow> False | c # _ \<Rightarrow> isWordUnit c)
         \<noteq> (case fst (snd st) of [] \<Rightarrow> False | c # _ \<Rightarrow> isWordUnit c)
      then [st] else [])"
| "rxm (NotAhead r) st = (if rxm r st = [] then [st] else [])"

text \<open>A match: the matched text and the captured groups.\<close>

type_synonym jsmatch = "jstring \<times> (nat \<times> jstring) list"

definition grp :: "jsmatch \<Rightarrow> nat \<Rightarrow> jstring" where
  "grp m n = (case map_of (snd m) n of None \<Rightarrow> [] | Some s \<Rightarrow> s)"

definition matchAt :: "rx \<Rightarrow> jstring \<Rightarrow> jstring \<Rightarrow> jsmatch option" where
  "matchAt r pre rest =
     (case rxm r (pre, rest, []) of
        [] \<Rightarrow> None
      | st # _ \<Rightarrow> Some (rev (take (length (fst st) - length pre) (fst st)), snd (snd st)))"

text \<open>
  The loop \<open>while ((match = pattern.exec(text)) !== null)\<close> of a global pattern, and
  \<open>text.match(pattern)\<close> of a global pattern: the matches from left to right, each search
  starting where the previous match ended. \<open>skip\<close> counts the code units of the last match
  still to pass. No pattern of the program matches the empty string; after an empty match
  the scan moves one unit on, as \<open>String.prototype.match\<close> does.
\<close>

primrec scan :: "rx \<Rightarrow> jstring \<Rightarrow> jstring \<Rightarrow> nat \<Rightarrow> jsmatch list" where
  "scan r pre [] skip =
     (if skip = 0 then (case matchAt r pre [] of None \<Rightarrow> [] | Some m \<Rightarrow> [m]) else [])"
| "scan r pre (c # cs) skip =
     (if 0 < skip then scan r (c # pre) cs (skip - 1)
      else (case matchAt r pre (c # cs) of
              None \<Rightarrow> scan r (c # pre) cs 0
            | Some m \<Rightarrow> m # scan r (c # pre) cs (length (fst m) - 1)))"

definition execAll :: "rx \<Rightarrow> jstring \<Rightarrow> jsmatch list" where
  "execAll r text = scan r [] text 0"

text \<open>\<open>text.match(pattern)\<close> of a pattern without the global flag: the leftmost match.\<close>

definition execFirst :: "rx \<Rightarrow> jstring \<Rightarrow> jsmatch option" where
  "execFirst r text = (case execAll r text of [] \<Rightarrow> None | m # _ \<Rightarrow> Some m)"

definition rxTest :: "rx \<Rightarrow> jstring \<Rightarrow> bool" where
  "rxTest r text = (execFirst r text \<noteq> None)"

subsection \<open>Pattern notation\<close>

definition lit1 :: "nat \<Rightarrow> rx" where
  "lit1 c = Cls (\<lambda>x. x = c)"

definition oneOf :: "jstring \<Rightarrow> rx" where
  "oneOf cs = Cls (\<lambda>x. x \<in> set cs)"

definition digit :: rx where
  "digit = Cls isDigit"

definition space :: rx where
  "space = Cls isSpace"

definition opt :: "rx \<Rightarrow> rx" where
  "opt r = Alt r Eps"

definition many1 :: "rx \<Rightarrow> rx" where
  "many1 r = Seq r (Star r)"

primrec seqs :: "rx list \<Rightarrow> rx" where
  "seqs [] = Eps"
| "seqs (r # rs) = (if rs = [] then r else Seq r (seqs rs))"

primrec alts :: "rx list \<Rightarrow> rx" where
  "alts [] = Cls (\<lambda>x. False)"
| "alts (r # rs) = (if rs = [] then r else Alt r (alts rs))"

definition lit :: "jstring \<Rightarrow> rx" where
  "lit s = seqs (map lit1 s)"

text \<open>A literal under the flag \<open>i\<close>: each ASCII letter matches in both cases.\<close>

definition litI :: "jstring \<Rightarrow> rx" where
  "litI s = seqs (map (\<lambda>c. Cls (\<lambda>x. asciiLower x = asciiLower c \<and> x < 128)) s)"

text \<open>\<open>\d{1,2}\<close>, \<open>\d{1,3}\<close>, \<open>\d{2}\<close>, \<open>\d{3}\<close>, \<open>\d{4}\<close>.\<close>

definition d12 :: rx where
  "d12 = Seq digit (opt digit)"

definition d13 :: rx where
  "d13 = Seq digit (opt (Seq digit (opt digit)))"

definition d2 :: rx where
  "d2 = Seq digit digit"

definition d3 :: rx where
  "d3 = Seq digit (Seq digit digit)"

definition d4 :: rx where
  "d4 = Seq digit (Seq digit (Seq digit digit))"

section \<open>Amount extraction\<close>

text \<open>The currency signs of the patterns: dollar, euro, pound, yen.\<close>

definition currency :: rx where
  "currency = oneOf [36, 8364, 163, 165]"

text \<open>\<open>num > 0 && num < 100000\<close> guards \<open>amounts.push(num)\<close>; \<open>NaN\<close> fails both tests.\<close>

definition pushAmount :: "rat option \<Rightarrow> rat list" where
  "pushAmount v =
     (case v of None \<Rightarrow> [] | Some num \<Rightarrow> if 0 < num \<and> num < 100000 then [num] else [])"

subsection \<open>Engine v3 (\<open>src/unnamed/part_000\<close>)\<close>

text \<open>
  \<^verbatim>\<open>/(\d{1,3}(?:[,.\s]\d{3})*[.,]\d{2})\b/g\<close>,
  \<^verbatim>\<open>/[$...]\s*(\d+[.,]\d{2})/g\<close> and \<^verbatim>\<open>/(\d+[.,]\d{2})\s*[$...]/g\<close>.
\<close>

definition amountPatterns_v3 :: "rx list" where
  "amountPatterns_v3 =
     [Seq (Grp 1 (seqs [d13, Star (Seq (Cls (\<lambda>c. c = 44 \<or> c = 46 \<or> isSpace c)) d3),
                        oneOf [46, 44], d2])) WordB,
      seqs [currency, Star space, Grp 1 (seqs [many1 digit, oneOf [46, 44], d2])],
      seqs [Grp 1 (seqs [many1 digit, oneOf [46, 44], d2]), Star space, currency]]"

text \<open>The normalisation of a captured token (code unit 46 is \<open>.\<close>, 44 is \<open>,\<close>).\<close>

definition normalizeAmount_v3 :: "jstring \<Rightarrow> jstring" where
  "normalizeAmount_v3 tok =
     (let numStr = removeSpaces tok
      in if 46 \<in> set numStr \<and> 44 \<in> set numStr then
           (if lastIndexOf numStr 46 < lastIndexOf numStr 44
            then replaceFirst 44 46 (removeUnit 46 numStr)
            else removeUnit 44 numStr)
         else if 44 \<in> set numStr then
           (let parts = splitOn 44 numStr
            in if length parts = 2 \<and> length (parts ! 1) = 2
               then replaceFirst 44 46 numStr
               else removeUnit 44 numStr)
         else numStr)"

definition amountValue_v3 :: "jstring \<Rightarrow> rat option" where
  "amountValue_v3 tok = parseFloat (normalizeAmount_v3 tok)"

definition extractAllAmounts_v3 :: "jstring \<Rightarrow> rat list" where
  "extractAllAmounts_v3 text =
     sortDesc (dedupe (concat (map
       (\<lambda>pattern. concat (map (\<lambda>m. pushAmount (amountValue_v3 (grp m 1))) (execAll pattern text)))
       amountPatterns_v3)))"

subsection \<open>Engine v2 (\<open>src/unnamed/part_001\<close>)\<close>

text \<open>\<^verbatim>\<open>/(\d{1,3}(?:[,.\s]\d{3})*(?:[.,]\d{2})?)/g\<close>, also the pattern of the native bridge.\<close>

definition amountPattern_v2 :: rx where
  "amountPattern_v2 =
     Grp 1 (seqs [d13, Star (Seq (Cls (\<lambda>c. c = 44 \<or> c = 46 \<or> isSpace c)) d3),
                  opt (Seq (oneOf [46, 44]) d2)])"

definition normalizeAmount_v2 :: "jstring \<Rightarrow> jstring" where
  "normalizeAmount_v2 tok =
     (let numStr = removeSpaces tok
      in if 46 \<in> set numStr \<and> 44 \<in> set numStr then
           (if lastIndexOf numStr 46 < lastIndexOf numStr 44
            then replaceFirst 44 46 (removeUnit 46 numStr)
            else removeUnit 44 numStr)
         else if 44 \<in> set numStr then
           (let parts = splitOn 44 numStr
            in if length (last parts) = 2
               then replaceFirst 44 46 numStr
               else removeUnit 44 numStr)
         else numStr)"

definition amountValue_v2 :: "jstring \<Rightarrow> rat option" where
  "amountValue_v2 tok = parseFloat (normalizeAmount_v2 tok)"

definition extractAllAmounts_v2 :: "jstring \<Rightarrow> rat list" where
  "extractAllAmounts_v2 text =
     sortDesc (dedupe (concat
       (map (\<lambda>m. pushAmount (amountValue_v2 (grp m 1))) (execAll amountPattern_v2 text))))"

section \<open>Totals, subtotal and tax\<close>

record totals =
  total :: "rat option"
  subtotal :: "rat option"
  tax :: "rat option"

subsection \<open>Engine v3 (\<open>src/unnamed/part_000\<close>)\<close>

definition TOTAL_KEYWORDS :: "jstring list" where
  "TOTAL_KEYWORDS =
     [
      js ''grand total'', js ''total due'', js ''amount due'', js ''balance due'',
      js ''total amount'', js ''total'', js ''amount'', js ''gesamtsumme'', js ''gesamt'',
      js ''summe'', js ''endsumme'', js ''zu zahlen'', js ''betrag'', js ''totale'',
      js ''totale dovuto'', js ''importo'', js ''importo totale'', js ''total'',
      js ''montant'', js ''montant total'', js ''total ttc'', js ''a payer'', js ''total'',
      js ''importe'', js ''importe total'', js ''total a pagar'', js ''totaal'',
      js ''totaalbedrag'', js ''te betalen'', js ''totali'', js ''shuma'', js ''vlera'',
      js ''paguar'', js ''suma'', js ''razem'', js ''do zap'' @ [322] @ js ''aty'',
      js ''total'', js ''valor total'']"

definition SUBTOTAL_KEYWORDS :: "jstring list" where
  "SUBTOTAL_KEYWORDS =
     [
      js ''subtotal'', js ''sub-total'', js ''sub total'', js ''netto'', js ''net'',
      js ''zwischensumme'', js ''nettobetrag'', js ''subtotale'', js ''imponibile'',
      js ''sous-total'', js ''ht'', js ''subtotal'', js ''base imponible'',
      js ''subtotaal'', js ''n'' @ [235] @ js ''ntotali'', js ''nentotali'',
      js ''suma netto'']"

definition TAX_KEYWORDS :: "jstring list" where
  "TAX_KEYWORDS =
     [
      js ''tax'', js ''sales tax'', js ''vat'', js ''gst'', js ''hst'', js ''pst'',
      js ''mwst'', js ''ust'', js ''mehrwertsteuer'', js ''iva'', js ''tva'', js ''iva'',
      js ''igic'', js ''btw'', js ''tvsh'', js ''vat'', js ''podatek'', js ''iva'']"

text \<open>
  \<open>total || allAmounts[0] || 1000\<close>: \<open>null\<close>, \<open>undefined\<close> and \<open>0\<close> are falsy.
\<close>

definition taxBound :: "rat option \<Rightarrow> rat list \<Rightarrow> rat" where
  "taxBound tot allAmounts =
     (case tot of
        Some t \<Rightarrow> if t \<noteq> 0 then t
                  else (case allAmounts of [] \<Rightarrow> 1000 | a # _ \<Rightarrow> if a \<noteq> 0 then a else 1000)
      | None \<Rightarrow> (case allAmounts of [] \<Rightarrow> 1000 | a # _ \<Rightarrow> if a \<noteq> 0 then a else 1000))"

text \<open>
  The body of \<open>for (const line of lines)\<close>: the three keyword loops run one after the
  other on the same line, and the tax test reads the total as the first loop left it.
\<close>

definition totalsStep_v3 :: "rat list \<Rightarrow> totals \<Rightarrow> jstring \<Rightarrow> totals" where
  "totalsStep_v3 allAmounts acc line =
     (case extractAllAmounts_v3 line of
        [] \<Rightarrow> acc
      | amount # _ \<Rightarrow>
          (let total' =
                 (if total acc = None \<and>
                     list_ex (\<lambda>keyword. jsIncludes line keyword \<and> \<not> jsIncludes line (js ''sub''))
                       TOTAL_KEYWORDS
                  then Some amount else total acc);
               subtotal' =
                 (if subtotal acc = None \<and>
                     list_ex (\<lambda>keyword. jsIncludes line keyword) SUBTOTAL_KEYWORDS
                  then Some amount else subtotal acc);
               tax' =
                 (if tax acc = None \<and>
                     list_ex (\<lambda>keyword. jsIncludes line keyword \<and> amount < taxBound total' allAmounts)
                       TAX_KEYWORDS
                  then Some amount else tax acc)
           in \<lparr>total = total', subtotal = subtotal', tax = tax'\<rparr>))"

text \<open>The keyword loop over the lines, then the fallback to the largest amount.\<close>

definition keywordTotals_v3 :: "jstring \<Rightarrow> rat list \<Rightarrow> totals" where
  "keywordTotals_v3 text allAmounts =
     (let found = foldl (totalsStep_v3 allAmounts)
                    \<lparr>total = None, subtotal = None, tax = None\<rparr>
                    (splitOn 10 (toLowerCase text))
      in case (total found, allAmounts) of
           (None, a # _) \<Rightarrow> found\<lparr>total := Some a\<rparr>
         | _ \<Rightarrow> found)"

text \<open>\<open>if (total !== null && subtotal !== null && subtotal > total)\<close> swaps the two.\<close>

definition swapTotals :: "totals \<Rightarrow> totals" where
  "swapTotals r =
     (case (total r, subtotal r) of
        (Some t, Some s) \<Rightarrow> if t < s then r\<lparr>total := Some s, subtotal := Some t\<rparr> else r
      | _ \<Rightarrow> r)"

definition extractTotals_v3 :: "jstring \<Rightarrow> rat list \<Rightarrow> totals" where
  "extractTotals_v3 text allAmounts = swapTotals (keywordTotals_v3 text allAmounts)"

subsection \<open>Native bridge (\<open>src/services/nativeOCR.ts\<close>)\<close>

text \<open>
  A region of the recognised image, and the result of the region recognition; the text
  blocks of a region are not read by the extraction and are left out.
\<close>

record RegionResult =
  regionText :: jstring
  regionConfidence :: rat

record RegionOCRResult =
  ocrText :: jstring
  ocrConfidence :: rat
  top :: RegionResult
  middle :: RegionResult
  bottom :: RegionResult

definition totalKeywords :: "jstring list" where
  "totalKeywords =
     [
      js ''grand total'', js ''total due'', js ''amount due'', js ''balance due'',
      js ''total'', js ''totale'', js ''totali'', js ''gesamt'', js ''summe'',
      js ''total a pagar'', js ''montant'', js ''totaal'', js ''suma'',
      [1080, 1090, 1086, 1075, 1086], js ''razem'', js ''celkem'']"

definition subtotalKeywords :: "jstring list" where
  "subtotalKeywords =
     [
      js ''subtotal'', js ''sub-total'', js ''sub total'', js ''netto'',
      js ''n'' @ [235] @ js ''ntotali'', js ''sottototal'', js ''zwischensumme'',
      js ''subtotaal'', js ''podzbi'' @ [243] @ js ''r'']"

definition taxKeywords :: "jstring list" where
  "taxKeywords =
     [
      js ''tax'', js ''vat'', js ''gst'', js ''hst'', js ''pst'', js ''mwst'', js ''iva'',
      js ''tva'', js ''tvsh'', js ''imposto'', js ''mehrwertsteuer'', js ''btw'',
      js ''podatek'']"

text \<open>\<open>Math.max(...xs)\<close> on a list that is not empty.\<close>

definition maxOf :: "rat list \<Rightarrow> rat" where
  "maxOf xs = foldl max (hd xs) (tl xs)"

text \<open>\<open>.filter(n => !isNaN(n) && n > 0)\<close>.\<close>

definition positive :: "rat option list \<Rightarrow> rat list" where
  "positive vs = concat (map (\<lambda>v. case v of None \<Rightarrow> [] | Some n \<Rightarrow> if 0 < n then [n] else []) vs)"

text \<open>
  The amounts of one line: \<open>line.match(amountPattern)\<close> with the global flag gives the
  matched texts, each normalised as in engine v2.
\<close>

definition lineAmounts_native :: "jstring \<Rightarrow> rat list" where
  "lineAmounts_native line =
     positive (map (\<lambda>m. amountValue_v2 (fst m)) (execAll amountPattern_v2 line))"

text \<open>The loop body; every assignment is followed by \<open>continue\<close>.\<close>

definition totalsStep_native :: "totals \<Rightarrow> jstring \<Rightarrow> totals" where
  "totalsStep_native acc line =
     (let parsedAmounts = lineAmounts_native line
      in if parsedAmounts = [] then acc
         else if total acc = None \<and> list_ex (\<lambda>k. jsIncludes line k) totalKeywords
           then acc\<lparr>total := Some (maxOf parsedAmounts)\<rparr>
         else if subtotal acc = None \<and> list_ex (\<lambda>k. jsIncludes line k) subtotalKeywords
           then acc\<lparr>subtotal := Some (maxOf parsedAmounts)\<rparr>
         else if tax acc = None \<and> list_ex (\<lambda>k. jsIncludes line k) taxKeywords
           then acc\<lparr>tax := Some (maxOf parsedAmounts)\<rparr>
         else acc)"

text \<open>
  The fallback normalisation: every comma becomes a dot, and when more than one dot
  results, all but the last are dropped.
\<close>

definition joinParts :: "jstring list \<Rightarrow> jstring" where
  "joinParts ps = concat ps"

definition fallbackValue_native :: "jstring \<Rightarrow> rat option" where
  "fallbackValue_native a =
     (let n = map (\<lambda>c. if c = 44 then 46 else c) (removeSpaces a);
          parts = splitOn 46 n
      in if 2 < length parts then parseFloat (joinParts (butlast parts) @ 46 # last parts)
         else parseFloat n)"

definition extractTotals_native :: "RegionResult \<Rightarrow> jstring \<Rightarrow> totals" where
  "extractTotals_native bottomRegion fullText =
     (let found = foldl totalsStep_native
                    \<lparr>total = None, subtotal = None, tax = None\<rparr>
                    (splitOn 10 (toLowerCase (regionText bottomRegion @ 10 # fullText)))
      in if total found = None then
           (let parsed = positive (map (\<lambda>m. fallbackValue_native (fst m))
                                    (execAll amountPattern_v2 (regionText bottomRegion)))
            in if parsed = [] then found else found\<lparr>total := Some (maxOf parsed)\<rparr>)
         else found)"

section \<open>Dates\<close>

text \<open>\<open>n.toString()\<close> of a natural number, and \<open>s.padStart(2, '0')\<close>.\<close>

fun natToString :: "nat \<Rightarrow> jstring" where
  "natToString n = (if n < 10 then [48 + n] else natToString (n div 10) @ [48 + n mod 10])"

declare natToString.simps [simp del]

definition padStart2 :: "jstring \<Rightarrow> jstring" where
  "padStart2 s = replicate (2 - length s) 48 @ s"

text \<open>The template \<^verbatim>\<open>`${year}-${month...padStart(2,'0')}-${day...padStart(2,'0')}`\<close>.\<close>

definition isoDate :: "nat \<Rightarrow> nat \<Rightarrow> nat \<Rightarrow> jstring" where
  "isoDate year month day =
     natToString year @ 45 # padStart2 (natToString month) @ 45 # padStart2 (natToString day)"

text \<open>
  The validity test shared by all engines. A field that is \<open>NaN\<close> fails every comparison,
  so a date with such a field is dropped.
\<close>

definition validDate :: "nat option \<Rightarrow> nat option \<Rightarrow> nat option \<Rightarrow> jstring list" where
  "validDate year month day =
     (case (year, month, day) of
        (Some y, Some m, Some d) \<Rightarrow>
          if 1 \<le> m \<and> m \<le> 12 \<and> 1 \<le> d \<and> d \<le> 31 \<and> 2020 \<le> y \<and> y \<le> 2030
          then [isoDate y m d] else []
      | _ \<Rightarrow> [])"

text \<open>A string is the ISO form of a date inside the validity window.\<close>

definition inWindow :: "jstring \<Rightarrow> bool" where
  "inWindow s \<longleftrightarrow>
     (\<exists>y m d. s = isoDate y m d \<and> 1 \<le> m \<and> m \<le> 12 \<and> 1 \<le> d \<and> d \<le> 31 \<and> 2020 \<le> y \<and> y \<le> 2030)"

definition monthMap :: "(jstring \<times> nat) list" where
  "monthMap =
     [(js ''jan'', 1), (js ''feb'', 2), (js ''mar'', 3), (js ''apr'', 4), (js ''may'', 5),
      (js ''jun'', 6), (js ''jul'', 7), (js ''aug'', 8), (js ''sep'', 9), (js ''oct'', 10),
      (js ''nov'', 11), (js ''dec'', 12)]"

definition monthNames :: rx where
  "monthNames =
     alts (map litI [js ''jan'', js ''feb'', js ''mar'', js ''apr'', js ''may'', js ''jun'',
                     js ''jul'', js ''aug'', js ''sep'', js ''oct'', js ''nov'', js ''dec''])"

text \<open>
  The numeric branch: a two-digit year above 50 is read in the 1900s, else in the 2000s;
  day and month are exchanged when the month exceeds 12 and the day does not.
\<close>

definition numericDate :: "nat \<Rightarrow> nat \<Rightarrow> nat \<Rightarrow> jstring list" where
  "numericDate day month year =
     (let year' = (if year < 100 then (if 50 < year then 1900 + year else 2000 + year) else year)
      in if 12 < day \<and> month \<le> 12 then validDate (Some year') (Some month) (Some day)
         else if 12 < month \<and> day \<le> 12 then validDate (Some year') (Some day) (Some month)
         else validDate (Some year') (Some month) (Some day))"

subsection \<open>Engine v3 (\<open>src/unnamed/part_000\<close>)\<close>

text \<open>
  \<^verbatim>\<open>/\b(\d{1,2})[\.\/\-](\d{1,2})[\.\/\-](\d{4})\b/g\<close>,
  \<^verbatim>\<open>/\b(\d{1,2})[\.\/\-](\d{1,2})[\.\/\-](\d{2})\b/g\<close>,
  \<^verbatim>\<open>/\b(\d{4})-(\d{2})-(\d{2})\b/g\<close> and
  \<^verbatim>\<open>/\b(jan|...|dec)[a-z]*\.?\s+(\d{1,2}),?\s+(\d{4})/gi\<close>
  (code unit 46 is \<open>.\<close>, 47 is \<open>/\<close>, 45 is \<open>-\<close>, 44 is \<open>,\<close>).
\<close>

definition datePatterns_v3 :: "rx list" where
  "datePatterns_v3 =
     [seqs [WordB, Grp 1 d12, oneOf [46, 47, 45], Grp 2 d12, oneOf [46, 47, 45], Grp 3 d4, WordB],
      seqs [WordB, Grp 1 d12, oneOf [46, 47, 45], Grp 2 d12, oneOf [46, 47, 45], Grp 3 d2, WordB],
      seqs [WordB, Grp 1 d4, lit1 45, Grp 2 d2, lit1 45, Grp 3 d2, WordB],
      seqs [WordB, Grp 1 monthNames, Star (Cls isAsciiLetter), opt (lit1 46), many1 space,
            Grp 2 d12, opt (lit1 44), many1 space, Grp 3 d4]]"

text \<open>
  The branch is chosen from the first group: four characters for the ISO layout, no
  leading digit for a month name (\<open>monthMap[...] || 1\<close>), else the numeric layout.
\<close>

definition dateOfMatch_v3 :: "jsmatch \<Rightarrow> jstring list" where
  "dateOfMatch_v3 m =
     (if length (grp m 1) = 4
      then validDate (parseInt (grp m 1)) (parseInt (grp m 2)) (parseInt (grp m 3))
      else if parseInt (grp m 1) = None
      then validDate (parseInt (grp m 3))
             (case map_of monthMap (take 3 (toLowerCase (grp m 1))) of
                None \<Rightarrow> Some 1 | Some k \<Rightarrow> Some (if k = 0 then 1 else k))
             (parseInt (grp m 2))
      else (case (parseInt (grp m 1), parseInt (grp m 2), parseInt (grp m 3)) of
              (Some day, Some month, Some year) \<Rightarrow> numericDate day month year
            | _ \<Rightarrow> []))"

definition extractAllDates_v3 :: "jstring \<Rightarrow> jstring list" where
  "extractAllDates_v3 text =
     dedupe (concat (map (\<lambda>pattern. concat (map dateOfMatch_v3 (execAll pattern text)))
                      datePatterns_v3))"

subsection \<open>Engine v2 (\<open>src/unnamed/part_001\<close>)\<close>

text \<open>
  \<^verbatim>\<open>/(\d{1,2})[\.\/](\d{1,2})[\.\/](\d{4})/g\<close>,
  \<^verbatim>\<open>/(\d{1,2})[\.\/](\d{1,2})[\.\/](\d{2})(?!\d)/g\<close> and
  \<^verbatim>\<open>/(\d{4})-(\d{2})-(\d{2})/g\<close>.
\<close>

definition datePatterns_v2 :: "rx list" where
  "datePatterns_v2 =
     [seqs [Grp 1 d12, oneOf [46, 47], Grp 2 d12, oneOf [46, 47], Grp 3 d4],
      seqs [Grp 1 d12, oneOf [46, 47], Grp 2 d12, oneOf [46, 47], Grp 3 d2, NotAhead digit],
      seqs [Grp 1 d4, lit1 45, Grp 2 d2, lit1 45, Grp 3 d2]]"

definition dateOfMatch_v2 :: "jsmatch \<Rightarrow> jstring list" where
  "dateOfMatch_v2 m =
     (if length (grp m 1) = 4
      then validDate (parseInt (grp m 1)) (parseInt (grp m 2)) (parseInt (grp m 3))
      else validDate
             (case parseInt (grp m 3) of
                None \<Rightarrow> None | Some year \<Rightarrow> Some (if year < 100 then 2000 + year else year))
             (parseInt (grp m 2)) (parseInt (grp m 1)))"

definition extractAllDates_v2 :: "jstring \<Rightarrow> jstring list" where
  "extractAllDates_v2 text =
     dedupe (concat (map (\<lambda>pattern. concat (map dateOfMatch_v2 (execAll pattern text)))
                      datePatterns_v2))"

subsection \<open>Native bridge (\<open>src/services/nativeOCR.ts\<close>)\<close>

text \<open>
  The five patterns, each with the branch that the tests on \<open>pattern.source\<close> select:
  text month for the pattern holding \<open>Jan|Feb\<close>, ISO for the one that starts with
  \<^verbatim>\<open>(\d{4})\<close>, numeric for the others. Each pattern is tried once, on its leftmost match.
\<close>

datatype dateKind = Numeric | Iso | TextMonth

definition datePatterns_native :: "(dateKind \<times> rx) list" where
  "datePatterns_native =
     [(Numeric, seqs [Grp 1 d12, oneOf [46, 47], Grp 2 d12, oneOf [46, 47], Grp 3 d4]),
      (Numeric, seqs [Grp 1 d12, oneOf [46, 47], Grp 2 d12, oneOf [46, 47], Grp 3 d2,
                      NotAhead digit]),
      (Iso, seqs [Grp 1 d4, lit1 45, Grp 2 d2, lit1 45, Grp 3 d2]),
      (Numeric, seqs [Grp 1 d12, lit1 47, Grp 2 d12, lit1 47, Grp 3 d4]),
      (TextMonth, seqs [Grp 1 monthNames, Star (Cls isAsciiLetter), opt (lit1 46), many1 space,
                        Grp 2 d12, opt (lit1 44), many1 space, Grp 3 d4])]"

definition dateOfMatch_native :: "dateKind \<Rightarrow> jsmatch \<Rightarrow> jstring list" where
  "dateOfMatch_native kind m =
     (case kind of
        TextMonth \<Rightarrow>
          validDate (parseInt (grp m 3))
            (map_of monthMap (take 3 (toLowerCase (grp m 1)))) (parseInt (grp m 2))
      | Iso \<Rightarrow> validDate (parseInt (grp m 1)) (parseInt (grp m 2)) (parseInt (grp m 3))
      | Numeric \<Rightarrow>
          (case (parseInt (grp m 1), parseInt (grp m 2), parseInt (grp m 3)) of
             (Some day, Some month, Some year) \<Rightarrow> numericDate day month year
           | _ \<Rightarrow> []))"

primrec firstDate_native :: "(dateKind \<times> rx) list \<Rightarrow> jstring \<Rightarrow> jstring option" where
  "firstDate_native [] text = None"
| "firstDate_native (p # ps) text =
     (case execFirst (snd p) text of
        None \<Rightarrow> firstDate_native ps text
      | Some m \<Rightarrow>
          (case dateOfMatch_native (fst p) m of
             [] \<Rightarrow> firstDate_native ps text
           | d # _ \<Rightarrow> Some d))"

definition extractDate_native :: "jstring \<Rightarrow> jstring option" where
  "extractDate_native text = firstDate_native datePatterns_native text"

subsection \<open>Engine v1 (\<open>src/services/offlineOCR.ts\<close>)\<close>

text \<open>
  \<open>extractBestDate\<close>: the most recent date that is not after today, the first date when
  all are later. Strings are compared as JavaScript compares them, code unit by code
  unit; \<open>today\<close> is the ISO date of the clock.
\<close>

definition extractBestDate :: "jstring \<Rightarrow> jstring list \<Rightarrow> jstring option" where
  "extractBestDate today dates =
     (case dates of
        [] \<Rightarrow> None
      | [d] \<Rightarrow> Some d
      | d # _ \<Rightarrow>
          (case rev (sort (filter (\<lambda>x. x \<le> today) dates)) of
             [] \<Rightarrow> Some d
           | best # _ \<Rightarrow> Some best))"

section \<open>Merchant name and the scan of the native bridge\<close>

text \<open>
  The skip patterns of \<open>extractMerchant\<close>. In the last two the anchor binds to the first
  alternative only, as the source writes them.
\<close>

definition skipPatterns_native :: "rx list" where
  "skipPatterns_native =
     [Seq Bol (alts (map litI [js ''receipt'', js ''invoice'', js ''bill'', js ''ticket'',
                               js ''bon'', js ''factura'', js ''rechnung'', js ''ricevuta'',
                               js ''fatura''])),
      seqs [Bol, many1 digit, oneOf [47, 45, 46], many1 digit, oneOf [47, 45, 46], many1 digit],
      seqs [Bol, d2, lit1 58, d2],
      alts [Seq Bol (litI (js ''tel'')), litI (js ''phone''), litI (js ''fax''),
            litI (js ''www.''), litI (js ''http'')],
      alts [Seq Bol (litI (js ''address'')), litI (js ''adresse''), litI (js ''indirizzo''),
            litI (js ''adresa'')]]"

text \<open>The first of the candidate lines that passes the three filters.\<close>

primrec firstMerchant_native :: "jstring list \<Rightarrow> jstring option" where
  "firstMerchant_native [] = None"
| "firstMerchant_native (line # rest) =
     (let cleaned = trim line
      in if list_ex (\<lambda>p. rxTest p cleaned) skipPatterns_native then firstMerchant_native rest
         else if length cleaned < 2 \<or> 50 < length cleaned then firstMerchant_native rest
         else if of_nat (length (filter isAsciiLetter cleaned)) / of_nat (length cleaned)
                 < (3 / 10 :: rat)
           then firstMerchant_native rest
         else Some cleaned)"

definition extractMerchant_native :: "RegionResult \<Rightarrow> jstring option" where
  "extractMerchant_native topRegion =
     firstMerchant_native
       (take 5 (filter (\<lambda>l. 0 < length (trim l)) (splitOn 10 (regionText topRegion))))"

text \<open>
  The fields that \<open>ParsedReceiptData\<close> and \<open>ExtractedReceiptData\<close> have in common are kept
  in one record, which the two extend.
\<close>

record receiptFields = totals +
  merchantName :: "jstring option"
  date :: "jstring option"
  rawText :: jstring
  usedNativeOCR :: bool

record ParsedReceiptData = receiptFields +
  merchantConfidence :: rat
  overallConfidence :: rat

text \<open>
  \<open>scanReceipt\<close> once the region recognition has returned \<open>ocrResult\<close>; \<open>usedNative\<close> is the
  platform test made on entry. The progress callback has no part in the result.
\<close>

definition scanReceipt :: "bool \<Rightarrow> RegionOCRResult \<Rightarrow> ParsedReceiptData" where
  "scanReceipt usedNative ocrResult =
     (let merchant = extractMerchant_native (top ocrResult);
          tots = extractTotals_native (bottom ocrResult) (ocrText ocrResult);
          dat = extractDate_native (ocrText ocrResult);
          conf = regionConfidence (top ocrResult);
          finalMerchant = (if 60 \<le> conf then merchant else None)
      in \<lparr>total = total tots, subtotal = subtotal tots, tax = tax tots,
          merchantName = finalMerchant, date = dat, rawText = ocrText ocrResult,
          usedNativeOCR = usedNative,
          merchantConfidence = conf, overallConfidence = ocrConfidence ocrResult\<rparr>)"

section \<open>Merchant tables and the learning store\<close>

record MerchantMapping =
  patterns :: "jstring list"
  category :: jstring
  displayName :: jstring

record LearnedMerchant =
  name :: jstring
  category :: jstring
  timesUsed :: int
  lastUsed :: jstring

subsection \<open>The tables of engine v3 (\<open>src/unnamed/part_000\<close>)\<close>

definition BUILT_IN_MERCHANTS_v3 :: "MerchantMapping list" where
  "BUILT_IN_MERCHANTS_v3 =
     [
      \<lparr>patterns = [js ''spar'', js ''eurospar'', js ''interspar'', js ''spar albania'', js ''spar express''],
       category = js ''Office Supplies'', displayName = js ''SPAR''\<rparr>,
      \<lparr>patterns = [js ''lidl'', js ''lidl stiftung''],
       category = js ''Office Supplies'', displayName = js ''Lidl''\<rparr>,
      \<lparr>patterns = [js ''aldi'', js ''aldi nord'', js ''aldi sud'', js ''aldi s'' @ [252] @ js ''d''],
       category = js ''Office Supplies'', displayName = js ''Aldi''\<rparr>,
      \<lparr>patterns = [js ''kaufland''],
       category = js ''Office Supplies'', displayName = js ''Kaufland''\<rparr>,
      \<lparr>patterns = [js ''rewe'', js ''rewe city'', js ''rewe center''],
       category = js ''Office Supplies'', displayName = js ''REWE''\<rparr>,
      \<lparr>patterns = [js ''edeka'', js ''e center'', js ''marktkauf''],
       category = js ''Office Supplies'', displayName = js ''Edeka''\<rparr>,
      \<lparr>patterns = [js ''penny'', js ''penny markt'', js ''penny market''],
       category = js ''Office Supplies'', displayName = js ''Penny''\<rparr>,
      \<lparr>patterns = [js ''netto'', js ''netto marken''],
       category = js ''Office Supplies'', displayName = js ''Netto''\<rparr>,
      \<lparr>patterns = [js ''dm'', js ''dm drogerie'', js ''dm-drogerie''],
       category = js ''Office Supplies'', displayName = js ''dm''\<rparr>,
      \<lparr>patterns = [js ''rossmann''],
       category = js ''Office Supplies'', displayName = js ''Rossmann''\<rparr>,
      \<lparr>patterns = [js ''muller'', js ''m'' @ [252] @ js ''ller'', js ''mueller''],
       category = js ''Office Supplies'', displayName = js ''M'' @ [252] @ js ''ller''\<rparr>,
      \<lparr>patterns = [js ''billa'', js ''billa plus''],
       category = js ''Office Supplies'', displayName = js ''Billa''\<rparr>,
      \<lparr>patterns = [js ''hofer''],
       category = js ''Office Supplies'', displayName = js ''Hofer''\<rparr>,
      \<lparr>patterns = [js ''mercator''],
       category = js ''Office Supplies'', displayName = js ''Mercator''\<rparr>,
      \<lparr>patterns = [js ''konzum''],
       category = js ''Office Supplies'', displayName = js ''Konzum''\<rparr>,
      \<lparr>patterns = [js ''carrefour'', js ''carrefour express'', js ''carrefour market''],
       category = js ''Office Supplies'', displayName = js ''Carrefour''\<rparr>,
      \<lparr>patterns = [js ''tesco'', js ''tesco express'', js ''tesco metro''],
       category = js ''Office Supplies'', displayName = js ''Tesco''\<rparr>,
      \<lparr>patterns = [js ''sainsbury'', js ''sainsbury'' @ [39] @ js ''s''],
       category = js ''Office Supplies'', displayName = js ''Sainsbury'' @ [39] @ js ''s''\<rparr>,
      \<lparr>patterns = [js ''asda''],
       category = js ''Office Supplies'', displayName = js ''ASDA''\<rparr>,
      \<lparr>patterns = [js ''morrisons''],
       category = js ''Office Supplies'', displayName = js ''Morrisons''\<rparr>,
      \<lparr>patterns = [js ''waitrose''],
       category = js ''Office Supplies'', displayName = js ''Waitrose''\<rparr>,
      \<lparr>patterns = [js ''migros''],
       category = js ''Office Supplies'', displayName = js ''Migros''\<rparr>,
      \<lparr>patterns = [js ''coop'', js ''coop city'', js ''coop pronto''],
       category = js ''Office Supplies'', displayName = js ''Coop''\<rparr>,
      \<lparr>patterns = [js ''denner''],
       category = js ''Office Supplies'', displayName = js ''Denner''\<rparr>,
      \<lparr>patterns = [js ''albert heijn'', js ''ah'', js ''albert''],
       category = js ''Office Supplies'', displayName = js ''Albert Heijn''\<rparr>,
      \<lparr>patterns = [js ''jumbo''],
       category = js ''Office Supplies'', displayName = js ''Jumbo''\<rparr>,
      \<lparr>patterns = [js ''delhaize'', js ''ad delhaize''],
       category = js ''Office Supplies'', displayName = js ''Delhaize''\<rparr>,
      \<lparr>patterns = [js ''colruyt''],
       category = js ''Office Supplies'', displayName = js ''Colruyt''\<rparr>,
      \<lparr>patterns = [js ''auchan''],
       category = js ''Office Supplies'', displayName = js ''Auchan''\<rparr>,
      \<lparr>patterns = [js ''leclerc'', js ''e.leclerc''],
       category = js ''Office Supplies'', displayName = js ''E.Leclerc''\<rparr>,
      \<lparr>patterns = [js ''intermarche'', js ''intermarch''],
       category = js ''Office Supplies'', displayName = js ''Intermarch'' @ [233]\<rparr>,
      \<lparr>patterns = [js ''monoprix''],
       category = js ''Office Supplies'', displayName = js ''Monoprix''\<rparr>,
      \<lparr>patterns = [js ''mercadona''],
       category = js ''Office Supplies'', displayName = js ''Mercadona''\<rparr>,
      \<lparr>patterns = [js ''eroski''],
       category = js ''Office Supplies'', displayName = js ''Eroski''\<rparr>,
      \<lparr>patterns = [js ''dia'', js ''dia %''],
       category = js ''Office Supplies'', displayName = js ''DIA''\<rparr>,
      \<lparr>patterns = [js ''pingo doce''],
       category = js ''Office Supplies'', displayName = js ''Pingo Doce''\<rparr>,
      \<lparr>patterns = [js ''continente''],
       category = js ''Office Supplies'', displayName = js ''Continente''\<rparr>,
      \<lparr>patterns = [js ''esselunga''],
       category = js ''Office Supplies'', displayName = js ''Esselunga''\<rparr>,
      \<lparr>patterns = [js ''conad''],
       category = js ''Office Supplies'', displayName = js ''Conad''\<rparr>,
      \<lparr>patterns = [js ''eurospin''],
       category = js ''Office Supplies'', displayName = js ''Eurospin''\<rparr>,
      \<lparr>patterns = [js ''despar''],
       category = js ''Office Supplies'', displayName = js ''Despar''\<rparr>,
      \<lparr>patterns = [js ''biedronka''],
       category = js ''Office Supplies'', displayName = js ''Biedronka''\<rparr>,
      \<lparr>patterns = [js ''zabka'', [380] @ js ''abka''],
       category = js ''Office Supplies'', displayName = [379] @ js ''abka''\<rparr>,
      \<lparr>patterns = [js ''walmart'', js ''wal-mart'', js ''wal mart''],
       category = js ''Office Supplies'', displayName = js ''Walmart''\<rparr>,
      \<lparr>patterns = [js ''target''],
       category = js ''Office Supplies'', displayName = js ''Target''\<rparr>,
      \<lparr>patterns = [js ''costco'', js ''costco wholesale''],
       category = js ''Office Supplies'', displayName = js ''Costco''\<rparr>,
      \<lparr>patterns = [js ''kroger''],
       category = js ''Office Supplies'', displayName = js ''Kroger''\<rparr>,
      \<lparr>patterns = [js ''safeway''],
       category = js ''Office Supplies'', displayName = js ''Safeway''\<rparr>,
      \<lparr>patterns = [js ''publix''],
       category = js ''Office Supplies'', displayName = js ''Publix''\<rparr>,
      \<lparr>patterns = [js ''whole foods'', js ''wholefoods''],
       category = js ''Office Supplies'', displayName = js ''Whole Foods''\<rparr>,
      \<lparr>patterns = [js ''trader joe'', js ''trader joe'' @ [39] @ js ''s''],
       category = js ''Office Supplies'', displayName = js ''Trader Joe'' @ [39] @ js ''s''\<rparr>,
      \<lparr>patterns = [js ''cvs'', js ''cvs pharmacy''],
       category = js ''Office Supplies'', displayName = js ''CVS''\<rparr>,
      \<lparr>patterns = [js ''walgreens''],
       category = js ''Office Supplies'', displayName = js ''Walgreens''\<rparr>,
      \<lparr>patterns = [js ''rite aid''],
       category = js ''Office Supplies'', displayName = js ''Rite Aid''\<rparr>,
      \<lparr>patterns = [js ''dollar general''],
       category = js ''Office Supplies'', displayName = js ''Dollar General''\<rparr>,
      \<lparr>patterns = [js ''dollar tree''],
       category = js ''Office Supplies'', displayName = js ''Dollar Tree''\<rparr>,
      \<lparr>patterns = [js ''family dollar''],
       category = js ''Office Supplies'', displayName = js ''Family Dollar''\<rparr>,
      \<lparr>patterns = [js ''starbucks'', js ''sbux''],
       category = js ''Meals (Business)'', displayName = js ''Starbucks''\<rparr>,
      \<lparr>patterns = [js ''mcdonalds'', js ''mcdonald'' @ [39] @ js ''s'', js ''mcd'', js ''mc donalds''],
       category = js ''Meals (Business)'', displayName = js ''McDonald'' @ [39] @ js ''s''\<rparr>,
      \<lparr>patterns = [js ''burger king'', js ''bk''],
       category = js ''Meals (Business)'', displayName = js ''Burger King''\<rparr>,
      \<lparr>patterns = [js ''wendys'', js ''wendy'' @ [39] @ js ''s''],
       category = js ''Meals (Business)'', displayName = js ''Wendy'' @ [39] @ js ''s''\<rparr>,
      \<lparr>patterns = [js ''subway''],
       category = js ''Meals (Business)'', displayName = js ''Subway''\<rparr>,
      \<lparr>patterns = [js ''chipotle''],
       category = js ''Meals (Business)'', displayName = js ''Chipotle''\<rparr>,
      \<lparr>patterns = [js ''taco bell''],
       category = js ''Meals (Business)'', displayName = js ''Taco Bell''\<rparr>,
      \<lparr>patterns = [js ''kfc'', js ''kentucky fried''],
       category = js ''Meals (Business)'', displayName = js ''KFC''\<rparr>,
      \<lparr>patterns = [js ''pizza hut''],
       category = js ''Meals (Business)'', displayName = js ''Pizza Hut''\<rparr>,
      \<lparr>patterns = [js ''dominos'', js ''domino'' @ [39] @ js ''s''],
       category = js ''Meals (Business)'', displayName = js ''Domino'' @ [39] @ js ''s''\<rparr>,
      \<lparr>patterns = [js ''papa john'', js ''papa john'' @ [39] @ js ''s''],
       category = js ''Meals (Business)'', displayName = js ''Papa John'' @ [39] @ js ''s''\<rparr>,
      \<lparr>patterns = [js ''panera'', js ''panera bread''],
       category = js ''Meals (Business)'', displayName = js ''Panera Bread''\<rparr>,
      \<lparr>patterns = [js ''dunkin'', js ''dunkin donuts''],
       category = js ''Meals (Business)'', displayName = js ''Dunkin''\<rparr>,
      \<lparr>patterns = [js ''chick-fil-a'', js ''chick fil a'', js ''chickfila''],
       category = js ''Meals (Business)'', displayName = js ''Chick-fil-A''\<rparr>,
      \<lparr>patterns = [js ''popeyes''],
       category = js ''Meals (Business)'', displayName = js ''Popeyes''\<rparr>,
      \<lparr>patterns = [js ''five guys''],
       category = js ''Meals (Business)'', displayName = js ''Five Guys''\<rparr>,
      \<lparr>patterns = [js ''shake shack''],
       category = js ''Meals (Business)'', displayName = js ''Shake Shack''\<rparr>,
      \<lparr>patterns = [js ''in-n-out'', js ''in n out''],
       category = js ''Meals (Business)'', displayName = js ''In-N-Out''\<rparr>,
      \<lparr>patterns = [js ''uber eats'', js ''ubereats''],
       category = js ''Meals (Business)'', displayName = js ''Uber Eats''\<rparr>,
      \<lparr>patterns = [js ''doordash'', js ''door dash''],
       category = js ''Meals (Business)'', displayName = js ''DoorDash''\<rparr>,
      \<lparr>patterns = [js ''grubhub''],
       category = js ''Meals (Business)'', displayName = js ''Grubhub''\<rparr>,
      \<lparr>patterns = [js ''deliveroo''],
       category = js ''Meals (Business)'', displayName = js ''Deliveroo''\<rparr>,
      \<lparr>patterns = [js ''just eat'', js ''justeat''],
       category = js ''Meals (Business)'', displayName = js ''Just Eat''\<rparr>,
      \<lparr>patterns = [js ''lieferando''],
       category = js ''Meals (Business)'', displayName = js ''Lieferando''\<rparr>,
      \<lparr>patterns = [js ''shell''],
       category = js ''Travel'', displayName = js ''Shell''\<rparr>,
      \<lparr>patterns = [js ''chevron''],
       category = js ''Travel'', displayName = js ''Chevron''\<rparr>,
      \<lparr>patterns = [js ''exxon'', js ''exxonmobil''],
       category = js ''Travel'', displayName = js ''ExxonMobil''\<rparr>,
      \<lparr>patterns = [js ''mobil''],
       category = js ''Travel'', displayName = js ''Mobil''\<rparr>,
      \<lparr>patterns = [js ''bp'', js ''british petroleum''],
       category = js ''Travel'', displayName = js ''BP''\<rparr>,
      \<lparr>patterns = [js ''esso''],
       category = js ''Travel'', displayName = js ''Esso''\<rparr>,
      \<lparr>patterns = [js ''total'', js ''totalenergies''],
       category = js ''Travel'', displayName = js ''TotalEnergies''\<rparr>,
      \<lparr>patterns = [js ''aral''],
       category = js ''Travel'', displayName = js ''Aral''\<rparr>,
      \<lparr>patterns = [js ''eni'', js ''agip''],
       category = js ''Travel'', displayName = js ''Eni''\<rparr>,
      \<lparr>patterns = [js ''omv''],
       category = js ''Travel'', displayName = js ''OMV''\<rparr>,
      \<lparr>patterns = [js ''mol''],
       category = js ''Travel'', displayName = js ''MOL''\<rparr>,
      \<lparr>patterns = [js ''petrol''],
       category = js ''Travel'', displayName = js ''Petrol''\<rparr>,
      \<lparr>patterns = [js ''ina''],
       category = js ''Travel'', displayName = js ''INA''\<rparr>,
      \<lparr>patterns = [js ''lukoil''],
       category = js ''Travel'', displayName = js ''Lukoil''\<rparr>,
      \<lparr>patterns = [js ''repsol''],
       category = js ''Travel'', displayName = js ''Repsol''\<rparr>,
      \<lparr>patterns = [js ''cepsa''],
       category = js ''Travel'', displayName = js ''Cepsa''\<rparr>,
      \<lparr>patterns = [js ''galp''],
       category = js ''Travel'', displayName = js ''Galp''\<rparr>,
      \<lparr>patterns = [js ''q8'', js ''kuwait petroleum''],
       category = js ''Travel'', displayName = js ''Q8''\<rparr>,
      \<lparr>patterns = [js ''arco''],
       category = js ''Travel'', displayName = js ''ARCO''\<rparr>,
      \<lparr>patterns = [js ''76'', js ''seventy six''],
       category = js ''Travel'', displayName = js ''76''\<rparr>,
      \<lparr>patterns = [js ''speedway''],
       category = js ''Travel'', displayName = js ''Speedway''\<rparr>,
      \<lparr>patterns = [js ''circle k''],
       category = js ''Travel'', displayName = js ''Circle K''\<rparr>,
      \<lparr>patterns = [js ''wawa''],
       category = js ''Travel'', displayName = js ''Wawa''\<rparr>,
      \<lparr>patterns = [js ''sheetz''],
       category = js ''Travel'', displayName = js ''Sheetz''\<rparr>,
      \<lparr>patterns = [js ''racetrac''],
       category = js ''Travel'', displayName = js ''RaceTrac''\<rparr>,
      \<lparr>patterns = [js ''quiktrip'', js ''qt''],
       category = js ''Travel'', displayName = js ''QuikTrip''\<rparr>,
      \<lparr>patterns = [js ''best buy'', js ''bestbuy''],
       category = js ''Equipment'', displayName = js ''Best Buy''\<rparr>,
      \<lparr>patterns = [js ''apple store'', js ''apple.com''],
       category = js ''Equipment'', displayName = js ''Apple''\<rparr>,
      \<lparr>patterns = [js ''media markt'', js ''mediamarkt''],
       category = js ''Equipment'', displayName = js ''MediaMarkt''\<rparr>,
      \<lparr>patterns = [js ''saturn''],
       category = js ''Equipment'', displayName = js ''Saturn''\<rparr>,
      \<lparr>patterns = [js ''euronics''],
       category = js ''Equipment'', displayName = js ''Euronics''\<rparr>,
      \<lparr>patterns = [js ''expert''],
       category = js ''Equipment'', displayName = js ''Expert''\<rparr>,
      \<lparr>patterns = [js ''conrad''],
       category = js ''Equipment'', displayName = js ''Conrad''\<rparr>,
      \<lparr>patterns = [js ''currys'', js ''pc world''],
       category = js ''Equipment'', displayName = js ''Currys''\<rparr>,
      \<lparr>patterns = [js ''staples''],
       category = js ''Office Supplies'', displayName = js ''Staples''\<rparr>,
      \<lparr>patterns = [js ''office depot'', js ''officemax''],
       category = js ''Office Supplies'', displayName = js ''Office Depot''\<rparr>,
      \<lparr>patterns = [js ''amazon'', js ''amzn'', js ''amazon.com'', js ''amazon.de'', js ''amazon.co.uk''],
       category = js ''Office Supplies'', displayName = js ''Amazon''\<rparr>,
      \<lparr>patterns = [js ''home depot''],
       category = js ''Equipment'', displayName = js ''Home Depot''\<rparr>,
      \<lparr>patterns = [js ''lowes'', js ''lowe'' @ [39] @ js ''s''],
       category = js ''Equipment'', displayName = js ''Lowe'' @ [39] @ js ''s''\<rparr>,
      \<lparr>patterns = [js ''ikea''],
       category = js ''Equipment'', displayName = js ''IKEA''\<rparr>,
      \<lparr>patterns = [js ''hornbach''],
       category = js ''Equipment'', displayName = js ''Hornbach''\<rparr>,
      \<lparr>patterns = [js ''obi''],
       category = js ''Equipment'', displayName = js ''OBI''\<rparr>,
      \<lparr>patterns = [js ''bauhaus''],
       category = js ''Equipment'', displayName = js ''Bauhaus''\<rparr>,
      \<lparr>patterns = [js ''leroy merlin''],
       category = js ''Equipment'', displayName = js ''Leroy Merlin''\<rparr>,
      \<lparr>patterns = [js ''adobe'', js ''creative cloud''],
       category = js ''Software / SaaS'', displayName = js ''Adobe''\<rparr>,
      \<lparr>patterns = [js ''microsoft'', js ''msft'', js ''office 365'', js ''microsoft 365''],
       category = js ''Software / SaaS'', displayName = js ''Microsoft''\<rparr>,
      \<lparr>patterns = [js ''google'', js ''google cloud'', js ''google workspace''],
       category = js ''Software / SaaS'', displayName = js ''Google''\<rparr>,
      \<lparr>patterns = [js ''apple'', js ''icloud'', js ''apple one''],
       category = js ''Software / SaaS'', displayName = js ''Apple''\<rparr>,
      \<lparr>patterns = [js ''dropbox''],
       category = js ''Software / SaaS'', displayName = js ''Dropbox''\<rparr>,
      \<lparr>patterns = [js ''slack''],
       category = js ''Software / SaaS'', displayName = js ''Slack''\<rparr>,
      \<lparr>patterns = [js ''zoom''],
       category = js ''Software / SaaS'', displayName = js ''Zoom''\<rparr>,
      \<lparr>patterns = [js ''notion''],
       category = js ''Software / SaaS'', displayName = js ''Notion''\<rparr>,
      \<lparr>patterns = [js ''figma''],
       category = js ''Software / SaaS'', displayName = js ''Figma''\<rparr>,
      \<lparr>patterns = [js ''canva''],
       category = js ''Software / SaaS'', displayName = js ''Canva''\<rparr>,
      \<lparr>patterns = [js ''github''],
       category = js ''Software / SaaS'', displayName = js ''GitHub''\<rparr>,
      \<lparr>patterns = [js ''atlassian'', js ''jira'', js ''confluence''],
       category = js ''Software / SaaS'', displayName = js ''Atlassian''\<rparr>,
      \<lparr>patterns = [js ''salesforce''],
       category = js ''Software / SaaS'', displayName = js ''Salesforce''\<rparr>,
      \<lparr>patterns = [js ''hubspot''],
       category = js ''Software / SaaS'', displayName = js ''HubSpot''\<rparr>,
      \<lparr>patterns = [js ''mailchimp''],
       category = js ''Software / SaaS'', displayName = js ''Mailchimp''\<rparr>,
      \<lparr>patterns = [js ''quickbooks'', js ''intuit''],
       category = js ''Software / SaaS'', displayName = js ''QuickBooks''\<rparr>,
      \<lparr>patterns = [js ''xero''],
       category = js ''Software / SaaS'', displayName = js ''Xero''\<rparr>,
      \<lparr>patterns = [js ''freshbooks''],
       category = js ''Software / SaaS'', displayName = js ''FreshBooks''\<rparr>,
      \<lparr>patterns = [js ''shopify''],
       category = js ''Software / SaaS'', displayName = js ''Shopify''\<rparr>,
      \<lparr>patterns = [js ''squarespace''],
       category = js ''Software / SaaS'', displayName = js ''Squarespace''\<rparr>,
      \<lparr>patterns = [js ''wix''],
       category = js ''Software / SaaS'', displayName = js ''Wix''\<rparr>,
      \<lparr>patterns = [js ''godaddy''],
       category = js ''Software / SaaS'', displayName = js ''GoDaddy''\<rparr>,
      \<lparr>patterns = [js ''namecheap''],
       category = js ''Software / SaaS'', displayName = js ''Namecheap''\<rparr>,
      \<lparr>patterns = [js ''cloudflare''],
       category = js ''Software / SaaS'', displayName = js ''Cloudflare''\<rparr>,
      \<lparr>patterns = [js ''aws'', js ''amazon web services''],
       category = js ''Software / SaaS'', displayName = js ''AWS''\<rparr>,
      \<lparr>patterns = [js ''digitalocean''],
       category = js ''Software / SaaS'', displayName = js ''DigitalOcean''\<rparr>,
      \<lparr>patterns = [js ''heroku''],
       category = js ''Software / SaaS'', displayName = js ''Heroku''\<rparr>,
      \<lparr>patterns = [js ''vercel''],
       category = js ''Software / SaaS'', displayName = js ''Vercel''\<rparr>,
      \<lparr>patterns = [js ''netlify''],
       category = js ''Software / SaaS'', displayName = js ''Netlify''\<rparr>,
      \<lparr>patterns = [js ''verizon'', js ''vzw''],
       category = js ''Phone / Internet'', displayName = js ''Verizon''\<rparr>,
      \<lparr>patterns = [js ''at&t'', js ''att''],
       category = js ''Phone / Internet'', displayName = js ''AT&T''\<rparr>,
      \<lparr>patterns = [js ''t-mobile'', js ''tmobile''],
       category = js ''Phone / Internet'', displayName = js ''T-Mobile''\<rparr>,
      \<lparr>patterns = [js ''sprint''],
       category = js ''Phone / Internet'', displayName = js ''Sprint''\<rparr>,
      \<lparr>patterns = [js ''comcast'', js ''xfinity''],
       category = js ''Phone / Internet'', displayName = js ''Comcast/Xfinity''\<rparr>,
      \<lparr>patterns = [js ''spectrum''],
       category = js ''Phone / Internet'', displayName = js ''Spectrum''\<rparr>,
      \<lparr>patterns = [js ''vodafone''],
       category = js ''Phone / Internet'', displayName = js ''Vodafone''\<rparr>,
      \<lparr>patterns = [js ''orange''],
       category = js ''Phone / Internet'', displayName = js ''Orange''\<rparr>,
      \<lparr>patterns = [js ''telekom'', js ''deutsche telekom'', js ''dt''],
       category = js ''Phone / Internet'', displayName = js ''Telekom''\<rparr>,
      \<lparr>patterns = [js ''o2''],
       category = js ''Phone / Internet'', displayName = js ''O2''\<rparr>,
      \<lparr>patterns = [js ''ee''],
       category = js ''Phone / Internet'', displayName = js ''EE''\<rparr>,
      \<lparr>patterns = [js ''three'', js ''3 mobile''],
       category = js ''Phone / Internet'', displayName = js ''Three''\<rparr>,
      \<lparr>patterns = [js ''tim'', js ''telecom italia''],
       category = js ''Phone / Internet'', displayName = js ''TIM''\<rparr>,
      \<lparr>patterns = [js ''wind'', js ''wind tre''],
       category = js ''Phone / Internet'', displayName = js ''Wind Tre''\<rparr>,
      \<lparr>patterns = [js ''iliad''],
       category = js ''Phone / Internet'', displayName = js ''Iliad''\<rparr>,
      \<lparr>patterns = [js ''swisscom''],
       category = js ''Phone / Internet'', displayName = js ''Swisscom''\<rparr>,
      \<lparr>patterns = [js ''sunrise''],
       category = js ''Phone / Internet'', displayName = js ''Sunrise''\<rparr>,
      \<lparr>patterns = [js ''salt''],
       category = js ''Phone / Internet'', displayName = js ''Salt''\<rparr>,
      \<lparr>patterns = [js ''kpn''],
       category = js ''Phone / Internet'', displayName = js ''KPN''\<rparr>,
      \<lparr>patterns = [js ''proximus''],
       category = js ''Phone / Internet'', displayName = js ''Proximus''\<rparr>,
      \<lparr>patterns = [js ''telenet''],
       category = js ''Phone / Internet'', displayName = js ''Telenet''\<rparr>,
      \<lparr>patterns = [js ''movistar''],
       category = js ''Phone / Internet'', displayName = js ''Movistar''\<rparr>,
      \<lparr>patterns = [js ''meo''],
       category = js ''Phone / Internet'', displayName = js ''MEO''\<rparr>,
      \<lparr>patterns = [js ''nos''],
       category = js ''Phone / Internet'', displayName = js ''NOS''\<rparr>,
      \<lparr>patterns = [js ''uber'', js ''uber trip'', js ''uber ride''],
       category = js ''Travel'', displayName = js ''Uber''\<rparr>,
      \<lparr>patterns = [js ''lyft''],
       category = js ''Travel'', displayName = js ''Lyft''\<rparr>,
      \<lparr>patterns = [js ''bolt'', js ''bolt ride''],
       category = js ''Travel'', displayName = js ''Bolt''\<rparr>,
      \<lparr>patterns = [js ''grab''],
       category = js ''Travel'', displayName = js ''Grab''\<rparr>,
      \<lparr>patterns = [js ''freenow'', js ''free now'', js ''mytaxi''],
       category = js ''Travel'', displayName = js ''FREE NOW''\<rparr>,
      \<lparr>patterns = [js ''airbnb''],
       category = js ''Travel'', displayName = js ''Airbnb''\<rparr>,
      \<lparr>patterns = [js ''booking.com'', js ''booking''],
       category = js ''Travel'', displayName = js ''Booking.com''\<rparr>,
      \<lparr>patterns = [js ''expedia''],
       category = js ''Travel'', displayName = js ''Expedia''\<rparr>,
      \<lparr>patterns = [js ''hotels.com''],
       category = js ''Travel'', displayName = js ''Hotels.com''\<rparr>,
      \<lparr>patterns = [js ''kayak''],
       category = js ''Travel'', displayName = js ''Kayak''\<rparr>,
      \<lparr>patterns = [js ''tripadvisor''],
       category = js ''Travel'', displayName = js ''TripAdvisor''\<rparr>,
      \<lparr>patterns = [js ''delta'', js ''delta air''],
       category = js ''Travel'', displayName = js ''Delta Airlines''\<rparr>,
      \<lparr>patterns = [js ''united'', js ''united air''],
       category = js ''Travel'', displayName = js ''United Airlines''\<rparr>,
      \<lparr>patterns = [js ''american air'', js ''american airlines'', js ''aa''],
       category = js ''Travel'', displayName = js ''American Airlines''\<rparr>,
      \<lparr>patterns = [js ''southwest'', js ''swa''],
       category = js ''Travel'', displayName = js ''Southwest''\<rparr>,
      \<lparr>patterns = [js ''jetblue''],
       category = js ''Travel'', displayName = js ''JetBlue''\<rparr>,
      \<lparr>patterns = [js ''lufthansa'', js ''lh''],
       category = js ''Travel'', displayName = js ''Lufthansa''\<rparr>,
      \<lparr>patterns = [js ''british airways'', js ''ba''],
       category = js ''Travel'', displayName = js ''British Airways''\<rparr>,
      \<lparr>patterns = [js ''air france'', js ''af''],
       category = js ''Travel'', displayName = js ''Air France''\<rparr>,
      \<lparr>patterns = [js ''klm''],
       category = js ''Travel'', displayName = js ''KLM''\<rparr>,
      \<lparr>patterns = [js ''ryanair''],
       category = js ''Travel'', displayName = js ''Ryanair''\<rparr>,
      \<lparr>patterns = [js ''easyjet''],
       category = js ''Travel'', displayName = js ''easyJet''\<rparr>,
      \<lparr>patterns = [js ''wizzair'', js ''wizz air''],
       category = js ''Travel'', displayName = js ''Wizz Air''\<rparr>,
      \<lparr>patterns = [js ''vueling''],
       category = js ''Travel'', displayName = js ''Vueling''\<rparr>,
      \<lparr>patterns = [js ''eurowings''],
       category = js ''Travel'', displayName = js ''Eurowings''\<rparr>,
      \<lparr>patterns = [js ''hilton''],
       category = js ''Travel'', displayName = js ''Hilton''\<rparr>,
      \<lparr>patterns = [js ''marriott''],
       category = js ''Travel'', displayName = js ''Marriott''\<rparr>,
      \<lparr>patterns = [js ''hyatt''],
       category = js ''Travel'', displayName = js ''Hyatt''\<rparr>,
      \<lparr>patterns = [js ''ihg'', js ''intercontinental''],
       category = js ''Travel'', displayName = js ''IHG''\<rparr>,
      \<lparr>patterns = [js ''accor'', js ''novotel'', js ''ibis'', js ''mercure''],
       category = js ''Travel'', displayName = js ''Accor''\<rparr>,
      \<lparr>patterns = [js ''hertz''],
       category = js ''Travel'', displayName = js ''Hertz''\<rparr>,
      \<lparr>patterns = [js ''avis''],
       category = js ''Travel'', displayName = js ''Avis''\<rparr>,
      \<lparr>patterns = [js ''enterprise''],
       category = js ''Travel'', displayName = js ''Enterprise''\<rparr>,
      \<lparr>patterns = [js ''sixt''],
       category = js ''Travel'', displayName = js ''Sixt''\<rparr>,
      \<lparr>patterns = [js ''europcar''],
       category = js ''Travel'', displayName = js ''Europcar''\<rparr>,
      \<lparr>patterns = [js ''usps'', js ''us postal'', js ''postal service''],
       category = js ''Shipping / Delivery'', displayName = js ''USPS''\<rparr>,
      \<lparr>patterns = [js ''fedex'', js ''federal express''],
       category = js ''Shipping / Delivery'', displayName = js ''FedEx''\<rparr>,
      \<lparr>patterns = [js ''ups'', js ''united parcel''],
       category = js ''Shipping / Delivery'', displayName = js ''UPS''\<rparr>,
      \<lparr>patterns = [js ''dhl''],
       category = js ''Shipping / Delivery'', displayName = js ''DHL''\<rparr>,
      \<lparr>patterns = [js ''dpd''],
       category = js ''Shipping / Delivery'', displayName = js ''DPD''\<rparr>,
      \<lparr>patterns = [js ''gls''],
       category = js ''Shipping / Delivery'', displayName = js ''GLS''\<rparr>,
      \<lparr>patterns = [js ''hermes''],
       category = js ''Shipping / Delivery'', displayName = js ''Hermes''\<rparr>,
      \<lparr>patterns = [js ''royal mail''],
       category = js ''Shipping / Delivery'', displayName = js ''Royal Mail''\<rparr>,
      \<lparr>patterns = [js ''la poste''],
       category = js ''Shipping / Delivery'', displayName = js ''La Poste''\<rparr>,
      \<lparr>patterns = [js ''deutsche post''],
       category = js ''Shipping / Delivery'', displayName = js ''Deutsche Post''\<rparr>,
      \<lparr>patterns = [js ''poste italiane''],
       category = js ''Shipping / Delivery'', displayName = js ''Poste Italiane''\<rparr>,
      \<lparr>patterns = [js ''correos''],
       category = js ''Shipping / Delivery'', displayName = js ''Correos''\<rparr>,
      \<lparr>patterns = [js ''postnl''],
       category = js ''Shipping / Delivery'', displayName = js ''PostNL''\<rparr>,
      \<lparr>patterns = [js ''bpost''],
       category = js ''Shipping / Delivery'', displayName = js ''bpost''\<rparr>,
      \<lparr>patterns = [js ''paypal''],
       category = js ''Bank Fees'', displayName = js ''PayPal''\<rparr>,
      \<lparr>patterns = [js ''stripe''],
       category = js ''Bank Fees'', displayName = js ''Stripe''\<rparr>,
      \<lparr>patterns = [js ''square''],
       category = js ''Bank Fees'', displayName = js ''Square''\<rparr>,
      \<lparr>patterns = [js ''wise'', js ''transferwise''],
       category = js ''Bank Fees'', displayName = js ''Wise''\<rparr>,
      \<lparr>patterns = [js ''revolut''],
       category = js ''Bank Fees'', displayName = js ''Revolut''\<rparr>,
      \<lparr>patterns = [js ''n26''],
       category = js ''Bank Fees'', displayName = js ''N26''\<rparr>,
      \<lparr>patterns = [js ''monzo''],
       category = js ''Bank Fees'', displayName = js ''Monzo''\<rparr>,
      \<lparr>patterns = [js ''chase'', js ''jpmorgan''],
       category = js ''Bank Fees'', displayName = js ''Chase''\<rparr>,
      \<lparr>patterns = [js ''bank of america'', js ''bofa''],
       category = js ''Bank Fees'', displayName = js ''Bank of America''\<rparr>,
      \<lparr>patterns = [js ''wells fargo''],
       category = js ''Bank Fees'', displayName = js ''Wells Fargo''\<rparr>,
      \<lparr>patterns = [js ''citi'', js ''citibank''],
       category = js ''Bank Fees'', displayName = js ''Citibank''\<rparr>,
      \<lparr>patterns = [js ''barclays''],
       category = js ''Bank Fees'', displayName = js ''Barclays''\<rparr>,
      \<lparr>patterns = [js ''hsbc''],
       category = js ''Bank Fees'', displayName = js ''HSBC''\<rparr>,
      \<lparr>patterns = [js ''santander''],
       category = js ''Bank Fees'', displayName = js ''Santander''\<rparr>,
      \<lparr>patterns = [js ''ing''],
       category = js ''Bank Fees'', displayName = js ''ING''\<rparr>,
      \<lparr>patterns = [js ''deutsche bank''],
       category = js ''Bank Fees'', displayName = js ''Deutsche Bank''\<rparr>,
      \<lparr>patterns = [js ''commerzbank''],
       category = js ''Bank Fees'', displayName = js ''Commerzbank''\<rparr>,
      \<lparr>patterns = [js ''ubs''],
       category = js ''Bank Fees'', displayName = js ''UBS''\<rparr>,
      \<lparr>patterns = [js ''credit suisse''],
       category = js ''Bank Fees'', displayName = js ''Credit Suisse''\<rparr>,
      \<lparr>patterns = [js ''bnp paribas'', js ''bnp''],
       category = js ''Bank Fees'', displayName = js ''BNP Paribas''\<rparr>,
      \<lparr>patterns = [js ''societe generale''],
       category = js ''Bank Fees'', displayName = js ''Soci'' @ [233] @ js ''t'' @ [233] @ js '' G'' @ [233] @ js ''n'' @ [233] @ js ''rale''\<rparr>,
      \<lparr>patterns = [js ''unicredit''],
       category = js ''Bank Fees'', displayName = js ''UniCredit''\<rparr>,
      \<lparr>patterns = [js ''intesa''],
       category = js ''Bank Fees'', displayName = js ''Intesa Sanpaolo''\<rparr>]"

text \<open>\<open>Object.entries(CATEGORY_KEYWORDS)\<close> lists the keys in the order of declaration.\<close>

definition CATEGORY_KEYWORDS_v3 :: "(jstring \<times> jstring list) list" where
  "CATEGORY_KEYWORDS_v3 =
     [
      (js ''Meals (Business)'',
       [
         js ''restaurant'', js ''cafe'', js ''coffee'', js ''food'', js ''diner'',
         js ''grill'', js ''bistro'', js ''kitchen'', js ''pizzeria'', js ''bakery'',
         js ''deli'', js ''bar'', js ''pub'', js ''tavern'', js ''ristorante'',
         js ''trattoria'', js ''osteria'', js ''pasticceria'', js ''gelateria'',
         js ''gasthaus'', js ''gastst'' @ [228] @ js ''tte'',
         js ''b'' @ [228] @ js ''ckerei'', js ''konditorei'', js ''metzgerei'',
         js ''imbiss'', js ''brasserie'', js ''boulangerie'', js ''patisserie'',
         js ''creperie'', js ''restorant'', js ''kafe'', js ''piceri'', js ''byrek'',
         js ''restauracja'', js ''kawiarnia'', js ''piekarnia'']),
      (js ''Travel'',
       [
         js ''gas'', js ''fuel'', js ''petroleum'', js ''petrol'', js ''diesel'',
         js ''benzin'', js ''tankstelle'', js ''airline'', js ''flight'', js ''airport'',
         js ''flughafen'', js ''aeroporto'', js ''aeroport'', js ''hotel'', js ''motel'',
         js ''hostel'', js ''inn'', js ''lodge'', js ''rental car'', js ''car hire'',
         js ''autovermietung'', js ''parking'', js ''toll'', js ''maut'', js ''pedaggio'',
         js ''taxi'', js ''cab'', js ''rideshare'', js ''train'', js ''railway'',
         js ''bahn'', js ''sncf'', js ''trenitalia'', js ''bus'', js ''coach'',
         js ''flixbus'']),
      (js ''Office Supplies'',
       [
         js ''office'', js ''supplies'', js ''paper'', js ''ink'', js ''toner'',
         js ''stationery'', js ''b'' @ [252] @ js ''robedarf'',
         js ''b'' @ [252] @ js ''romaterial'', js ''papier'', js ''cancelleria'',
         js ''cartoleria'', js ''fournitures'', js ''papeterie'']),
      (js ''Equipment'',
       [
         js ''computer'', js ''laptop'', js ''notebook'', js ''tablet'', js ''phone'',
         js ''monitor'', js ''display'', js ''screen'', js ''printer'', js ''scanner'',
         js ''drucker'', js ''electronics'', js ''elektronik'', js ''elettronica'',
         js ''hardware'', js ''device'', js ''ger'' @ [228] @ js ''t'', js ''camera'',
         js ''kamera'']),
      (js ''Software / SaaS'',
       [
         js ''software'', js ''subscription'', js ''cloud'', js ''saas'', js ''app'',
         js ''license'', js ''lizenz'', js ''licenza'', js ''hosting'', js ''domain'',
         js ''server'', js ''abonnement'', js ''abbonamento'']),
      (js ''Shipping / Delivery'',
       [
         js ''shipping'', js ''postage'', js ''courier'', js ''freight'', js ''delivery'',
         js ''versand'', js ''porto'', js ''paket'', js ''spedizione'', js ''posta'',
         js ''livraison'', js ''envoi'', js ''colis'']),
      (js ''Phone / Internet'',
       [
         js ''mobile'', js ''cellular'', js ''wireless'', js ''telefon'', js ''handy'',
         js ''internet'', js ''broadband'', js ''wifi'', js ''fiber'', js ''telecom'',
         js ''telco'']),
      (js ''Utilities'',
       [
         js ''electric'', js ''electricity'', js ''strom'', js ''elettricit'' @ [224],
         js ''gas'', js ''heating'', js ''heizung'', js ''water'', js ''wasser'',
         js ''acqua'', js ''eau'', js ''utility'', js ''utilities'']),
      (js ''Professional Services'',
       [
         js ''legal'', js ''attorney'', js ''lawyer'', js ''rechtsanwalt'',
         js ''avvocato'', js ''accounting'', js ''accountant'', js ''cpa'',
         js ''steuerberater'', js ''commercialista'', js ''consulting'', js ''consultant'',
         js ''beratung'']),
      (js ''Insurance'',
       [
         js ''insurance'', js ''versicherung'', js ''assicurazione'', js ''assurance'',
         js ''policy'', js ''premium'', js ''coverage'']),
      (js ''Advertising / Marketing'',
       [
         js ''advertising'', js ''ads'', js ''ad spend'', js ''werbung'',
         js ''pubblicit'' @ [224], js ''marketing'', js ''promotion'', js ''campaign'',
         js ''social media'', js ''facebook ads'', js ''google ads''])]"

subsection \<open>The tables of engine v2 (\<open>src/unnamed/part_001\<close>)\<close>

definition BUILT_IN_MERCHANTS_v2 :: "MerchantMapping list" where
  "BUILT_IN_MERCHANTS_v2 =
     [
      \<lparr>patterns = [js ''spar'', js ''spar albania'', js ''eurospar'', js ''interspar''],
       category = js ''Office Supplies'', displayName = js ''SPAR''\<rparr>,
      \<lparr>patterns = [js ''lidl''],
       category = js ''Office Supplies'', displayName = js ''Lidl''\<rparr>,
      \<lparr>patterns = [js ''aldi'', js ''aldi nord'', js ''aldi sud''],
       category = js ''Office Supplies'', displayName = js ''Aldi''\<rparr>,
      \<lparr>patterns = [js ''carrefour''],
       category = js ''Office Supplies'', displayName = js ''Carrefour''\<rparr>,
      \<lparr>patterns = [js ''tesco''],
       category = js ''Office Supplies'', displayName = js ''Tesco''\<rparr>,
      \<lparr>patterns = [js ''rewe''],
       category = js ''Office Supplies'', displayName = js ''REWE''\<rparr>,
      \<lparr>patterns = [js ''edeka''],
       category = js ''Office Supplies'', displayName = js ''Edeka''\<rparr>,
      \<lparr>patterns = [js ''kaufland''],
       category = js ''Office Supplies'', displayName = js ''Kaufland''\<rparr>,
      \<lparr>patterns = [js ''billa''],
       category = js ''Office Supplies'', displayName = js ''Billa''\<rparr>,
      \<lparr>patterns = [js ''penny''],
       category = js ''Office Supplies'', displayName = js ''Penny''\<rparr>,
      \<lparr>patterns = [js ''migros''],
       category = js ''Office Supplies'', displayName = js ''Migros''\<rparr>,
      \<lparr>patterns = [js ''mercadona''],
       category = js ''Office Supplies'', displayName = js ''Mercadona''\<rparr>,
      \<lparr>patterns = [js ''starbucks'', js ''sbux''],
       category = js ''Meals (Business)'', displayName = js ''Starbucks''\<rparr>,
      \<lparr>patterns = [js ''mcdonalds'', js ''mcdonald'' @ [39] @ js ''s''],
       category = js ''Meals (Business)'', displayName = js ''McDonald'' @ [39] @ js ''s''\<rparr>,
      \<lparr>patterns = [js ''subway''],
       category = js ''Meals (Business)'', displayName = js ''Subway''\<rparr>,
      \<lparr>patterns = [js ''chipotle''],
       category = js ''Meals (Business)'', displayName = js ''Chipotle''\<rparr>,
      \<lparr>patterns = [js ''uber eats''],
       category = js ''Meals (Business)'', displayName = js ''Uber Eats''\<rparr>,
      \<lparr>patterns = [js ''doordash''],
       category = js ''Meals (Business)'', displayName = js ''DoorDash''\<rparr>,
      \<lparr>patterns = [js ''shell''],
       category = js ''Travel'', displayName = js ''Shell''\<rparr>,
      \<lparr>patterns = [js ''chevron''],
       category = js ''Travel'', displayName = js ''Chevron''\<rparr>,
      \<lparr>patterns = [js ''exxon'', js ''mobil'', js ''esso''],
       category = js ''Travel'', displayName = js ''Exxon''\<rparr>,
      \<lparr>patterns = [js ''bp''],
       category = js ''Travel'', displayName = js ''BP''\<rparr>,
      \<lparr>patterns = [js ''total energies''],
       category = js ''Travel'', displayName = js ''TotalEnergies''\<rparr>,
      \<lparr>patterns = [js ''omv''],
       category = js ''Travel'', displayName = js ''OMV''\<rparr>,
      \<lparr>patterns = [js ''staples''],
       category = js ''Office Supplies'', displayName = js ''Staples''\<rparr>,
      \<lparr>patterns = [js ''amazon'', js ''amzn''],
       category = js ''Office Supplies'', displayName = js ''Amazon''\<rparr>,
      \<lparr>patterns = [js ''best buy''],
       category = js ''Equipment'', displayName = js ''Best Buy''\<rparr>,
      \<lparr>patterns = [js ''apple store'', js ''apple.com''],
       category = js ''Equipment'', displayName = js ''Apple''\<rparr>,
      \<lparr>patterns = [js ''media markt''],
       category = js ''Equipment'', displayName = js ''MediaMarkt''\<rparr>,
      \<lparr>patterns = [js ''adobe'', js ''creative cloud''],
       category = js ''Software / SaaS'', displayName = js ''Adobe''\<rparr>,
      \<lparr>patterns = [js ''microsoft'', js ''office 365''],
       category = js ''Software / SaaS'', displayName = js ''Microsoft''\<rparr>,
      \<lparr>patterns = [js ''google''],
       category = js ''Software / SaaS'', displayName = js ''Google''\<rparr>,
      \<lparr>patterns = [js ''dropbox''],
       category = js ''Software / SaaS'', displayName = js ''Dropbox''\<rparr>,
      \<lparr>patterns = [js ''slack''],
       category = js ''Software / SaaS'', displayName = js ''Slack''\<rparr>,
      \<lparr>patterns = [js ''zoom''],
       category = js ''Software / SaaS'', displayName = js ''Zoom''\<rparr>,
      \<lparr>patterns = [js ''uber'', js ''uber trip''],
       category = js ''Travel'', displayName = js ''Uber''\<rparr>,
      \<lparr>patterns = [js ''lyft''],
       category = js ''Travel'', displayName = js ''Lyft''\<rparr>,
      \<lparr>patterns = [js ''bolt''],
       category = js ''Travel'', displayName = js ''Bolt''\<rparr>,
      \<lparr>patterns = [js ''airbnb''],
       category = js ''Travel'', displayName = js ''Airbnb''\<rparr>,
      \<lparr>patterns = [js ''booking.com''],
       category = js ''Travel'', displayName = js ''Booking.com''\<rparr>,
      \<lparr>patterns = [js ''ryanair''],
       category = js ''Travel'', displayName = js ''Ryanair''\<rparr>,
      \<lparr>patterns = [js ''wizzair'', js ''wizz air''],
       category = js ''Travel'', displayName = js ''Wizz Air''\<rparr>,
      \<lparr>patterns = [js ''walmart''],
       category = js ''Office Supplies'', displayName = js ''Walmart''\<rparr>,
      \<lparr>patterns = [js ''target''],
       category = js ''Office Supplies'', displayName = js ''Target''\<rparr>,
      \<lparr>patterns = [js ''costco''],
       category = js ''Office Supplies'', displayName = js ''Costco''\<rparr>,
      \<lparr>patterns = [js ''home depot''],
       category = js ''Equipment'', displayName = js ''Home Depot''\<rparr>,
      \<lparr>patterns = [js ''usps'', js ''postal service''],
       category = js ''Shipping / Delivery'', displayName = js ''USPS''\<rparr>,
      \<lparr>patterns = [js ''fedex''],
       category = js ''Shipping / Delivery'', displayName = js ''FedEx''\<rparr>,
      \<lparr>patterns = [js ''ups''],
       category = js ''Shipping / Delivery'', displayName = js ''UPS''\<rparr>,
      \<lparr>patterns = [js ''dhl''],
       category = js ''Shipping / Delivery'', displayName = js ''DHL''\<rparr>,
      \<lparr>patterns = [js ''paypal''],
       category = js ''Bank Fees'', displayName = js ''PayPal''\<rparr>,
      \<lparr>patterns = [js ''stripe''],
       category = js ''Bank Fees'', displayName = js ''Stripe''\<rparr>,
      \<lparr>patterns = [js ''wise'', js ''transferwise''],
       category = js ''Bank Fees'', displayName = js ''Wise''\<rparr>,
      \<lparr>patterns = [js ''revolut''],
       category = js ''Bank Fees'', displayName = js ''Revolut''\<rparr>]"

definition CATEGORY_KEYWORDS_v2 :: "(jstring \<times> jstring list) list" where
  "CATEGORY_KEYWORDS_v2 =
     [
      (js ''Meals (Business)'',
       [
         js ''restaurant'', js ''cafe'', js ''coffee'', js ''food'', js ''diner'',
         js ''grill'', js ''bistro'', js ''pizzeria'', js ''bakery'', js ''deli'',
         js ''bar'', js ''ristorante'', js ''trattoria'', js ''gasthaus'',
         js ''b'' @ [195, 164] @ js ''ckerei'', js ''brasserie'', js ''boulangerie'',
         js ''restorant'', js ''kafe'']),
      (js ''Travel'',
       [
         js ''gas'', js ''fuel'', js ''petroleum'', js ''airline'', js ''hotel'',
         js ''motel'', js ''parking'', js ''toll'', js ''transit'', js ''taxi'',
         js ''airport'', js ''benzin'', js ''tankstelle'', js ''aeroporto'',
         js ''flughafen'', js ''aeroport'']),
      (js ''Office Supplies'',
       [
         js ''office'', js ''supplies'', js ''paper'', js ''ink'', js ''stationery'']),
      (js ''Equipment'',
       [
         js ''computer'', js ''laptop'', js ''monitor'', js ''printer'',
         js ''electronics'', js ''hardware'']),
      (js ''Software / SaaS'',
       [
         js ''software'', js ''subscription'', js ''cloud'', js ''app'', js ''license'',
         js ''saas'']),
      (js ''Shipping / Delivery'',
       [
         js ''shipping'', js ''postage'', js ''courier'', js ''freight'', js ''delivery''])]"

subsection \<open>Local storage\<close>

text \<open>
  The value kept under the key \<open>moniezi_learned_merchants\<close> is a JSON text. It is
  modelled by what \<open>JSON.parse\<close> makes of it: a list of well-formed entries (what
  \<open>JSON.stringify\<close> wrote), a text that is empty or that \<open>JSON.parse\<close> rejects, or a JSON
  value that is no array (a number, a boolean, \<open>null\<close>, an object), on which \<open>find\<close> and
  \<open>for ... of\<close> raise a \<open>TypeError\<close>. Each storage operation may throw.
\<close>

datatype stored = Merchants "LearnedMerchant list" | Unparsable | NotAList

datatype error = StorageError | TypeError

record storage =
  item :: "stored option"
  getThrows :: bool
  setThrows :: bool
  removeThrows :: bool

datatype parsed = Arr "LearnedMerchant list" | NonArr

text \<open>\<open>getLearnedMerchants\<close>: any exception of \<open>getItem\<close> or \<open>JSON.parse\<close> gives \<open>[]\<close>.\<close>

definition getLearnedMerchants :: "storage \<Rightarrow> parsed" where
  "getLearnedMerchants st =
     (if getThrows st then Arr []
      else (case item st of
              None \<Rightarrow> Arr []
            | Some (Merchants ms) \<Rightarrow> Arr ms
            | Some Unparsable \<Rightarrow> Arr []
            | Some NotAList \<Rightarrow> NonArr))"

text \<open>The entry found by \<open>merchants.find(...)\<close> is updated in place.\<close>

primrec bumpExisting :: "jstring \<Rightarrow> jstring \<Rightarrow> jstring \<Rightarrow> LearnedMerchant list \<Rightarrow> LearnedMerchant list" where
  "bumpExisting normalized cat now [] = []"
| "bumpExisting normalized cat now (m # ms) =
     (if toLowerCase (name m) = normalized
      then m\<lparr>category := cat, timesUsed := timesUsed m + 1, lastUsed := now\<rparr> # ms
      else m # bumpExisting normalized cat now ms)"

definition recordMerchant :: "jstring \<Rightarrow> jstring \<Rightarrow> jstring \<Rightarrow> LearnedMerchant list \<Rightarrow> LearnedMerchant list" where
  "recordMerchant normalized cat now merchants =
     (case find (\<lambda>m. toLowerCase (name m) = normalized) merchants of
        Some existing \<Rightarrow> bumpExisting normalized cat now merchants
      | None \<Rightarrow> merchants @ [\<lparr>name = normalized, category = cat, timesUsed = 1, lastUsed = now\<rparr>])"

text \<open>\<open>merchants.sort((a, b) => b.timesUsed - a.timesUsed)\<close>, a stable sort.\<close>

definition sortByUse :: "LearnedMerchant list \<Rightarrow> LearnedMerchant list" where
  "sortByUse ms = sort_key (\<lambda>m. - timesUsed m) ms"

text \<open>
  The body of the \<open>try\<close> block of \<open>saveLearnedMerchant\<close>; \<open>now\<close> is
  \<open>new Date().toISOString()\<close>.
\<close>

definition saveBody :: "storage \<Rightarrow> jstring \<Rightarrow> jstring \<Rightarrow> jstring \<Rightarrow> error + storage" where
  "saveBody st now nam cat =
     (case getLearnedMerchants st of
        NonArr \<Rightarrow> Inl TypeError
      | Arr merchants \<Rightarrow>
          (let normalized = trim (toLowerCase nam);
               sorted = sortByUse (recordMerchant normalized cat now merchants)
           in if setThrows st then Inl StorageError
              else Inr (st\<lparr>item := Some (Merchants (take 500 sorted))\<rparr>)))"

text \<open>\<open>catch (e) { console.warn(...) }\<close>: the storage is left as it was.\<close>

definition saveLearnedMerchant :: "storage \<Rightarrow> jstring \<Rightarrow> jstring \<Rightarrow> jstring \<Rightarrow> error + storage" where
  "saveLearnedMerchant st now nam cat =
     (case saveBody st now nam cat of Inl e \<Rightarrow> Inr st | Inr st' \<Rightarrow> Inr st')"

text \<open>Engine v3 calls \<open>localStorage.removeItem\<close> with no \<open>try\<close> around it.\<close>

definition clearLearnedMerchants_v3 :: "storage \<Rightarrow> error + storage" where
  "clearLearnedMerchants_v3 st =
     (if removeThrows st then Inl StorageError else Inr (st\<lparr>item := None\<rparr>))"

text \<open>Engines v1 and v2 catch the exception and log it.\<close>

definition clearLearnedMerchants_v2 :: "storage \<Rightarrow> error + storage" where
  "clearLearnedMerchants_v2 st =
     (case (if removeThrows st then Inl StorageError else Inr (st\<lparr>item := None\<rparr>)) of
        Inl e \<Rightarrow> Inr st
      | Inr st' \<Rightarrow> Inr st')"

text \<open>A run of corrections, each recorded at its own time.\<close>

primrec saveAll :: "storage \<Rightarrow> (jstring \<times> jstring \<times> jstring) list \<Rightarrow> error + storage" where
  "saveAll st [] = Inr st"
| "saveAll st (c # cs) =
     (case saveLearnedMerchant st (fst c) (fst (snd c)) (snd (snd c)) of
        Inl e \<Rightarrow> Inl e
      | Inr st' \<Rightarrow> saveAll st' cs)"

section \<open>Category suggestion\<close>

datatype confidenceLevel = high | medium | low

text \<open>The two fallbacks after the learned merchants, over a given pair of tables.\<close>

definition builtInCategory ::
  "MerchantMapping list \<Rightarrow> (jstring \<times> jstring list) list \<Rightarrow> jstring \<Rightarrow> jstring
     \<Rightarrow> jstring option \<times> confidenceLevel" where
  "builtInCategory merchants keywords textLower merchantLower =
     (case find (\<lambda>merchant. list_ex (\<lambda>pattern. jsIncludes textLower pattern
                                                 \<or> jsIncludes merchantLower pattern)
                               (patterns merchant)) merchants of
        Some merchant \<Rightarrow> (Some (MerchantMapping.category merchant), high)
      | None \<Rightarrow>
          (case find (\<lambda>entry. list_ex (\<lambda>keyword. jsIncludes textLower keyword) (snd entry))
                  keywords of
             Some entry \<Rightarrow> (Some (fst entry), medium)
           | None \<Rightarrow> (None, low)))"

text \<open>\<open>(merchantName || '').toLowerCase()\<close>.\<close>

definition merchantLowerOf :: "jstring option \<Rightarrow> jstring" where
  "merchantLowerOf mName =
     toLowerCase (case mName of None \<Rightarrow> [] | Some n \<Rightarrow> n)"

subsection \<open>Engine v3 (\<open>src/unnamed/part_000\<close>)\<close>

definition learnedMatch_v3 :: "jstring \<Rightarrow> jstring \<Rightarrow> LearnedMerchant \<Rightarrow> bool" where
  "learnedMatch_v3 textLower merchantLower learned \<longleftrightarrow>
     jsIncludes merchantLower (name learned) \<or> jsIncludes (name learned) merchantLower
     \<or> jsIncludes textLower (name learned)"

definition suggestCategory_v3 ::
  "storage \<Rightarrow> jstring \<Rightarrow> jstring option \<Rightarrow> error + (jstring option \<times> confidenceLevel)" where
  "suggestCategory_v3 st text mName =
     (let textLower = toLowerCase text; merchantLower = merchantLowerOf mName
      in case getLearnedMerchants st of
           NonArr \<Rightarrow> Inl TypeError
         | Arr learnedMerchants \<Rightarrow>
             (case find (learnedMatch_v3 textLower merchantLower) learnedMerchants of
                Some learned \<Rightarrow> Inr (Some (category learned), high)
              | None \<Rightarrow>
                  Inr (builtInCategory BUILT_IN_MERCHANTS_v3 CATEGORY_KEYWORDS_v3
                         textLower merchantLower)))"

subsection \<open>Engine v2 (\<open>src/unnamed/part_001\<close>)\<close>

definition learnedMatch_v2 :: "jstring \<Rightarrow> jstring \<Rightarrow> LearnedMerchant \<Rightarrow> bool" where
  "learnedMatch_v2 textLower merchantLower learned \<longleftrightarrow>
     jsIncludes merchantLower (name learned) \<or> jsIncludes textLower (name learned)"

definition suggestCategory_v2 ::
  "storage \<Rightarrow> jstring \<Rightarrow> jstring option \<Rightarrow> error + (jstring option \<times> confidenceLevel)" where
  "suggestCategory_v2 st text mName =
     (let textLower = toLowerCase text; merchantLower = merchantLowerOf mName
      in case getLearnedMerchants st of
           NonArr \<Rightarrow> Inl TypeError
         | Arr learnedMerchants \<Rightarrow>
             (case find (learnedMatch_v2 textLower merchantLower) learnedMerchants of
                Some learned \<Rightarrow> Inr (Some (category learned), high)
              | None \<Rightarrow>
                  Inr (builtInCategory BUILT_IN_MERCHANTS_v2 CATEGORY_KEYWORDS_v2
                         textLower merchantLower)))"

section \<open>The pipelines of the offline engines\<close>

record ExtractedReceiptData = receiptFields +
  suggestedCategory :: "jstring option"
  categoryConfidence :: confidenceLevel
  allAmounts :: "rat list"
  allDates :: "jstring list"
  confidence :: rat

subsection \<open>Engine v3 (\<open>src/unnamed/part_000\<close>)\<close>

text \<open>
  The skip patterns of \<open>extractMerchant\<close>, all anchored at the start of the line. Under the
  flag \<open>i\<close> the letter \<open>U+00DF\<close> of \<open>stra\<dots>e\<close> matches itself only.
\<close>

definition skipPatterns_v3 :: "rx list" where
  "skipPatterns_v3 =
     [Seq Bol (alts (map litI [js ''receipt'', js ''invoice'', js ''bill'', js ''ticket'',
                               js ''bon'', js ''factura'', js ''rechnung'', js ''ricevuta'',
                               js ''fatura'', js ''kassenbon''])),
      seqs [Bol, many1 digit, oneOf [47, 45, 46], many1 digit, oneOf [47, 45, 46], many1 digit],
      seqs [Bol, d2, lit1 58, d2],
      Seq Bol (alts (map litI [js ''tel'', js ''phone'', js ''fax'', js ''www.'', js ''http'',
                               js ''email''])),
      Seq Bol (alts [litI (js ''address''), litI (js ''adresse''), litI (js ''indirizzo''),
                     litI (js ''adresa''), seqs [litI (js ''stra''), lit1 223, litI (js ''e'')],
                     litI (js ''str.''), litI (js ''via'')]),
      Seq Bol (alts (map litI [js ''thank'', js ''danke'', js ''grazie'', js ''merci'',
                               js ''gracias''])),
      seqs [Bol, many1 digit, Eol],
      seqs [Bol, many1 (oneOf [35, 42, 45, 61]), Eol]]"

text \<open>The letters counted for the ratio: \<open>a-z\<close>, \<open>A-Z\<close> and seventeen accented letters.\<close>

definition isLetter_v3 :: "nat \<Rightarrow> bool" where
  "isLetter_v3 c \<longleftrightarrow>
     isAsciiLetter c
     \<or> c \<in> set [228, 246, 252, 223, 224, 232, 233, 236, 242, 249, 241, 231, 259, 238, 226,
                   537, 539]"

text \<open>\<^verbatim>\<open>cleaned.replace(/[^\w\s&'.-]/g, '').trim()\<close>.\<close>

definition cleanMerchant :: "jstring \<Rightarrow> jstring" where
  "cleanMerchant cleaned =
     trim (filter (\<lambda>c. isWordUnit c \<or> isSpace c \<or> c \<in> set [38, 39, 46, 45]) cleaned)"

primrec firstMerchant_v3 :: "jstring list \<Rightarrow> jstring option" where
  "firstMerchant_v3 [] = None"
| "firstMerchant_v3 (line # rest) =
     (let cleaned = trim line
      in if list_ex (\<lambda>p. rxTest p cleaned) skipPatterns_v3 then firstMerchant_v3 rest
         else if length cleaned < 2 \<or> 50 < length cleaned then firstMerchant_v3 rest
         else if of_nat (length (filter isLetter_v3 cleaned)) / of_nat (length cleaned)
                 < (4 / 10 :: rat)
           then firstMerchant_v3 rest
         else (case find (\<lambda>merchant. list_ex (\<lambda>pattern. jsIncludes (toLowerCase cleaned) pattern)
                                     (patterns merchant)) BUILT_IN_MERCHANTS_v3 of
                 Some merchant \<Rightarrow> Some (displayName merchant)
               | None \<Rightarrow> Some (cleanMerchant cleaned)))"

definition extractMerchant_v3 :: "jstring \<Rightarrow> jstring option" where
  "extractMerchant_v3 text =
     firstMerchant_v3
       (take 7 (filter (\<lambda>l. 0 < length l) (map trim (splitOn 10 text))))"

text \<open>
  \<open>processReceiptImage\<close> from the text and the confidence that the recognition returned;
  the processing time is left out. The date is \<open>allDates[0]\<close>, or \<open>null\<close>.
\<close>

definition processReceiptImage_v3 ::
  "storage \<Rightarrow> jstring \<Rightarrow> rat \<Rightarrow> error + ExtractedReceiptData" where
  "processReceiptImage_v3 st recognized conf =
     (let amounts = extractAllAmounts_v3 recognized;
          dates = extractAllDates_v3 recognized;
          tots = extractTotals_v3 recognized amounts;
          dat = (case dates of [] \<Rightarrow> None | d # _ \<Rightarrow> Some d);
          merchant = extractMerchant_v3 recognized
      in case suggestCategory_v3 st recognized merchant of
           Inl e \<Rightarrow> Inl e
         | Inr suggestion \<Rightarrow>
             Inr \<lparr>total = total tots, subtotal = subtotal tots, tax = tax tots,
                  merchantName = merchant, date = dat, rawText = recognized,
                  usedNativeOCR = False,
                  suggestedCategory = fst suggestion, categoryConfidence = snd suggestion,
                  allAmounts = amounts, allDates = dates, confidence = conf\<rparr>)"

subsection \<open>Engine v2 (\<open>src/unnamed/part_001\<close>)\<close>

text \<open>\<open>processReceiptImage\<close> on top of \<open>scanReceipt\<close> of the native bridge.\<close>

definition processReceiptImage_v2 ::
  "storage \<Rightarrow> bool \<Rightarrow> RegionOCRResult \<Rightarrow> error + ExtractedReceiptData" where
  "processReceiptImage_v2 st usedNative ocrResult =
     (let nativeResult = scanReceipt usedNative ocrResult
      in case suggestCategory_v2 st (rawText nativeResult) (merchantName nativeResult) of
           Inl e \<Rightarrow> Inl e
         | Inr suggestion \<Rightarrow>
             Inr \<lparr>total = total nativeResult, subtotal = subtotal nativeResult,
                  tax = tax nativeResult, merchantName = merchantName nativeResult,
                  date = date nativeResult, rawText = rawText nativeResult,
                  usedNativeOCR = usedNativeOCR nativeResult,
                  suggestedCategory = fst suggestion, categoryConfidence = snd suggestion,
                  allAmounts = extractAllAmounts_v2 (rawText nativeResult),
                  allDates = extractAllDates_v2 (rawText nativeResult),
                  confidence = overallConfidence nativeResult\<rparr>)"

section \<open>Lower-casing\<close>

text \<open>On a string of Basic Latin, \<open>toLowerCase\<close> lower-cases the letters \<open>A-Z\<close> one by one.\<close>

lemma lowerPoint_ascii: "p < 128 \<Longrightarrow> lowerPoint p = asciiLower p"
  by (auto simp: lowerPoint_def lowerRanges_def asciiLower_def)

lemma lowerFrom_ascii: "list_all (\<lambda>c. c < 128) s \<Longrightarrow> lowerFrom pre s = map asciiLower s"
  by (induction pre s rule: lowerFrom.induct)
     (auto simp: lowerPoint_ascii isHighSurrogate_def)

lemma toLowerCase_ascii: "list_all (\<lambda>c. c < 128) s \<Longrightarrow> toLowerCase s = map asciiLower s"
  by (simp add: toLowerCase_def lowerFrom_ascii)

text \<open>
  Beyond Basic Latin: \<open>U+017B ABKA\<close>, a Cyrillic letter, the final and the non-final
  sigma, the dotted capital \<open>I\<close>, and a letter of the Deseret block (a surrogate pair).
\<close>

lemma lowerPoint_some:
  "lowerPoint 379 = 380" "lowerPoint 380 = 380" "lowerPoint 321 = 322" "lowerPoint 322 = 322"
  "lowerPoint 65 = 97" "lowerPoint 66 = 98" "lowerPoint 75 = 107" "lowerPoint 97 = 97"
  "lowerPoint 1046 = 1078" "lowerPoint 927 = 959" "lowerPoint 916 = 948"
  "lowerPoint 66560 = 66600"
  by (simp_all add: lowerPoint_def lowerRanges_def)

lemma cased_some:
  "cased 927" "\<not> caseIgnorable 927"
  by (simp_all add: cased_def caseIgnorable_def inRanges_def casedRanges_def caseIgnorableRanges_def)

lemma toLowerCase_examples:
  "toLowerCase [379, 65, 66, 75, 65] = [380, 97, 98, 107, 97]"
  "toLowerCase [1046] = [1078]"
  "toLowerCase [927, 916, 927, 931] = [959, 948, 959, 962]"
  "toLowerCase [931, 927] = [963, 959]"
  "toLowerCase [304] = [105, 775]"
  "toLowerCase [55297, 56320] = [55297, 56360]"
  by (simp_all add: toLowerCase_def lowerPoint_some cased_some finalSigma_def isHighSurrogate_def
      isLowSurrogate_def codePoint_def codeUnits_def)

text \<open>
  Lower-casing twice is lower-casing once, also with a \<open>trim\<close> in between: the table maps no
  code point to a code point that it maps further.
\<close>

lemma lowerIn_fix:
  "list_all (\<lambda>(a, b, s, a'). \<not> (a \<le> q \<and> q \<le> b \<and> (q - a) mod s = 0)) rs \<Longrightarrow> lowerIn rs q = q"
  by (induction rs) auto

lemma lowerIn_image:
  "lowerIn rs p = p \<or>
   (\<exists>lo hi st t. (lo, hi, st, t) \<in> set rs \<and> lo \<le> p \<and> p \<le> hi \<and> (p - lo) mod st = 0
      \<and> lowerIn rs p = t + (p - lo))"
proof (induction rs)
  case Nil
  then show ?case by simp
next
  case (Cons e rs)
  obtain lo hi st t where e: "e = (lo, hi, st, t)" by (cases e) auto
  show ?case
  proof (cases "lo \<le> p \<and> p \<le> hi \<and> (p - lo) mod st = 0")
    case True
    then have "(lo, hi, st, t) \<in> set (e # rs) \<and> lo \<le> p \<and> p \<le> hi \<and> (p - lo) mod st = 0
      \<and> lowerIn (e # rs) p = t + (p - lo)" using e by simp
    then show ?thesis
      by (intro disjI2 exI [of _ lo] exI [of _ hi] exI [of _ st] exI [of _ t])
  next
    case False
    then have eq: "lowerIn (e # rs) p = lowerIn rs p"
      unfolding e by (simp only: lowerIn.simps if_False)
    from Cons.IH show ?thesis
    proof
      assume "lowerIn rs p = p"
      then show ?thesis using eq by simp
    next
      assume "\<exists>lo hi st t. (lo, hi, st, t) \<in> set rs \<and> lo \<le> p \<and> p \<le> hi \<and> (p - lo) mod st = 0
        \<and> lowerIn rs p = t + (p - lo)"
      then obtain lo' hi' st' t' where "(lo', hi', st', t') \<in> set rs" "lo' \<le> p" "p \<le> hi'"
        "(p - lo') mod st' = 0" "lowerIn rs p = t' + (p - lo')" by (elim exE conjE) (rule that)
      then have "(lo', hi', st', t') \<in> set (e # rs) \<and> lo' \<le> p \<and> p \<le> hi' \<and> (p - lo') mod st' = 0
        \<and> lowerIn (e # rs) p = t' + (p - lo')" using eq by simp
      then show ?thesis
        by (intro disjI2 exI [of _ lo'] exI [of _ hi'] exI [of _ st'] exI [of _ t'])
    qed
  qed
qed

lemma apart_sound:
  assumes "apart (lo, hi, st, t) (a, b, s, a')" "lo \<le> p" "p \<le> hi" "(p - lo) mod st = 0"
  shows "\<not> (a \<le> t + (p - lo) \<and> t + (p - lo) \<le> b \<and> (t + (p - lo) - a) mod s = 0)"
proof -
  consider "t + (hi - lo) < a" | "b < t" | "s = 2 \<and> (st = 2 \<or> lo = hi) \<and> a \<le> t \<and> (t - a) mod 2 = 1"
    using assms(1) by auto
  then show ?thesis
  proof cases
    case 1 then show ?thesis using assms(2,3) by simp
  next
    case 2 then show ?thesis by simp
  next
    case 3
    then have "(p - lo) mod 2 = 0" using assms(2,3,4) by auto
    then have "(t + (p - lo) - a) mod 2 = 1" using 3 by presburger
    then show ?thesis using 3 by simp
  qed
qed


lemma table_zoned: "list_all zoned lowerRanges"
  by (simp add: lowerRanges_def)

lemma apart_if:
  "apart (lo, hi, st, t) (a, b, s, a') =
     (if t + (hi - lo) < a then True else if b < t then True
      else (s = 2 \<and> (st = 2 \<or> lo = hi) \<and> a \<le> t \<and> (t - a) mod 2 = 1))"
  by simp

lemma table_apart: "list_all (\<lambda>e. list_all (apart e) lowerRanges) lowerRanges"
  by (simp add: lowerRanges_def apart_if del: apart.simps)

lemma lowerPoint_idem: "lowerPoint (lowerPoint p) = lowerPoint p"
proof -
  from lowerIn_image [of lowerRanges p] show ?thesis
  proof
    assume "lowerIn lowerRanges p = p"
    then show ?thesis by (simp add: lowerPoint_def)
  next
    assume "\<exists>lo hi st t. (lo, hi, st, t) \<in> set lowerRanges \<and> lo \<le> p \<and> p \<le> hi \<and> (p - lo) mod st = 0
        \<and> lowerIn lowerRanges p = t + (p - lo)"
    then obtain lo hi st t where e: "(lo, hi, st, t) \<in> set lowerRanges" "lo \<le> p" "p \<le> hi"
        "(p - lo) mod st = 0" and q: "lowerIn lowerRanges p = t + (p - lo)"
      by (elim exE conjE) (rule that)
    have "list_all (apart (lo, hi, st, t)) lowerRanges"
      using table_apart e(1) unfolding list_all_iff by blast
    then have ap: "\<forall>d \<in> set lowerRanges. apart (lo, hi, st, t) d" by (simp add: list_all_iff)
    have "\<forall>d \<in> set lowerRanges. case d of (a, b, s, a') \<Rightarrow>
        \<not> (a \<le> t + (p - lo) \<and> t + (p - lo) \<le> b \<and> (t + (p - lo) - a) mod s = 0)"
    proof
      fix d assume d: "d \<in> set lowerRanges"
      obtain a b s a' where d': "d = (a, b, s, a')" by (cases d) auto
      have "apart (lo, hi, st, t) (a, b, s, a')" using ap d d' by blast
      from apart_sound [OF this e(2,3,4)]
      show "case d of (a, b, s, a') \<Rightarrow>
        \<not> (a \<le> t + (p - lo) \<and> t + (p - lo) \<le> b \<and> (t + (p - lo) - a) mod s = 0)"
        unfolding d' by simp
    qed
    then have "list_all (\<lambda>(a, b, s, a'). \<not> (a \<le> t + (p - lo) \<and> t + (p - lo) \<le> b
        \<and> (t + (p - lo) - a) mod s = 0)) lowerRanges"
      by (simp add: list_all_iff)
    then have "lowerIn lowerRanges (t + (p - lo)) = t + (p - lo)" by (rule lowerIn_fix)
    then show ?thesis using q by (simp add: lowerPoint_def)
  qed
qed

lemma lowerPoint_zone:
  "(p < 55296 \<longrightarrow> lowerPoint p < 55296)
   \<and> (55296 \<le> p \<and> p < 57344 \<longrightarrow> lowerPoint p = p)
   \<and> (57344 \<le> p \<and> p < 65536 \<longrightarrow> 57344 \<le> lowerPoint p \<and> lowerPoint p < 65536)
   \<and> (65536 \<le> p \<and> p < 1114112 \<longrightarrow> 65536 \<le> lowerPoint p \<and> lowerPoint p < 1114112)
   \<and> (1114112 \<le> p \<longrightarrow> lowerPoint p = p)"
proof -
  from lowerIn_image [of lowerRanges p] show ?thesis
  proof
    assume "lowerIn lowerRanges p = p"
    then show ?thesis by (simp add: lowerPoint_def)
  next
    assume "\<exists>lo hi st t. (lo, hi, st, t) \<in> set lowerRanges \<and> lo \<le> p \<and> p \<le> hi \<and> (p - lo) mod st = 0
        \<and> lowerIn lowerRanges p = t + (p - lo)"
    then obtain lo hi st t where e: "(lo, hi, st, t) \<in> set lowerRanges" "lo \<le> p" "p \<le> hi"
        and q: "lowerIn lowerRanges p = t + (p - lo)" by (elim exE conjE) (rule that)
    have "zoned (lo, hi, st, t)" using table_zoned e(1) unfolding list_all_iff by blast
    then show ?thesis using e(2,3) q by (auto simp: lowerPoint_def)
  qed
qed

lemma surrogate_lower:
  "isHighSurrogate (lowerPoint c) = isHighSurrogate c"
  "isLowSurrogate (lowerPoint c) = isLowSurrogate c"
  using lowerPoint_zone [of c] by (auto simp: isHighSurrogate_def isLowSurrogate_def)

lemma lowerPoint_values:
  "lowerPoint 931 = 963" "lowerPoint 304 = 105" "lowerPoint 962 = 962" "lowerPoint 963 = 963"
  "lowerPoint 105 = 105" "lowerPoint 775 = 775"
  by (simp_all add: lowerPoint_def lowerRanges_def)

lemma lowFix_lowerPoint: "lowFix (lowerPoint c)"
  unfolding lowFix_def using lowerPoint_idem [of c] lowerPoint_values(1,2) by auto

lemma lowFix_values: "lowFix 962" "lowFix 963" "lowFix 105" "lowFix 775"
  by (simp_all add: lowFix_def lowerPoint_values)

lemma lowFix_surrogate: "isHighSurrogate c \<or> isLowSurrogate c \<Longrightarrow> lowFix c"
  using lowerPoint_zone [of c] by (auto simp: lowFix_def isHighSurrogate_def isLowSurrogate_def)

lemma codePoint_range:
  "isHighSurrogate h \<Longrightarrow> isLowSurrogate l \<Longrightarrow> 65536 \<le> codePoint h l \<and> codePoint h l < 1114112"
  by (auto simp: isHighSurrogate_def isLowSurrogate_def codePoint_def)

lemma codeUnits_codePoint:
  assumes "isHighSurrogate h" "isLowSurrogate l"
  shows "codeUnits (codePoint h l) = [h, l]"
proof -
  let ?a = "h - 55296" and ?b = "l - 56320"
  have b: "?b < 1024" using assms(2) by (auto simp: isLowSurrogate_def)
  have c: "codePoint h l - 65536 = ?a * 1024 + ?b" by (simp add: codePoint_def)
  have "(?a * 1024 + ?b) div 1024 = ?a" using b by simp
  moreover have "(?a * 1024 + ?b) mod 1024 = ?b" using b by simp
  moreover have "55296 + ?a = h" "56320 + ?b = l"
    using assms by (auto simp: isHighSurrogate_def isLowSurrogate_def)
  moreover have "\<not> codePoint h l < 65536" by (simp add: codePoint_def)
  ultimately show ?thesis unfolding codeUnits_def c by (simp only: if_False)
qed

lemma not_surrogate_values:
  "\<not> isHighSurrogate 962" "\<not> isHighSurrogate 963" "\<not> isHighSurrogate 105" "\<not> isHighSurrogate 775"
  "\<not> isLowSurrogate 962" "\<not> isLowSurrogate 963" "\<not> isLowSurrogate 105" "\<not> isLowSurrogate 775"
  by (simp_all add: isHighSurrogate_def isLowSurrogate_def)

lemma not_both_surrogate: "isHighSurrogate c \<Longrightarrow> \<not> isLowSurrogate c"
  by (simp add: isHighSurrogate_def isLowSurrogate_def)

lemma codeUnits_pair:
  assumes "65536 \<le> q" "q < 1114112"
  shows "\<exists>h l. codeUnits q = [h, l] \<and> isHighSurrogate h \<and> isLowSurrogate l \<and> codePoint h l = q"
proof -
  let ?h = "55296 + (q - 65536) div 1024" and ?l = "56320 + (q - 65536) mod 1024"
  have "codeUnits q = [?h, ?l]" using assms by (simp add: codeUnits_def)
  moreover have "isHighSurrogate ?h" using assms by (simp add: isHighSurrogate_def)
  moreover have "isLowSurrogate ?l" by (simp add: isLowSurrogate_def)
  moreover have "codePoint ?h ?l = q" using assms by (simp add: codePoint_def)
  ultimately show ?thesis by blast
qed

lemma lowered_tl: "lowered (c # s) \<Longrightarrow> lowered s"
  by (cases s) auto

lemma lowered_Cons:
  "lowFix c \<Longrightarrow> lowered r \<Longrightarrow> (isHighSurrogate c \<longrightarrow> r = [] \<or> \<not> isLowSurrogate (hd r)) \<Longrightarrow> lowered (c # r)"
  by (cases r) auto

lemma lowerFrom_pair:
  "isHighSurrogate h \<Longrightarrow> isLowSurrogate l \<Longrightarrow>
   lowerFrom pre (h # l # s) = codeUnits (lowerPoint (codePoint h l)) @ lowerFrom (codePoint h l # pre) s"
  by simp

lemma lowerFrom_single:
  "\<not> (isHighSurrogate h \<and> isLowSurrogate l) \<Longrightarrow>
   lowerFrom pre (h # l # s) =
     (if h = 931 then [if finalSigma pre (codePoints (l # s)) then 962 else 963]
      else if h = 304 then [105, 775] else [lowerPoint h]) @ lowerFrom (h # pre) (l # s)"
  by (simp only: lowerFrom.simps if_False)

lemma lowered_fixed: "lowered s \<Longrightarrow> lowerFrom pre s = s"
proof (induction pre s rule: lowerFrom.induct)
  case (1 pre h l s)
  show ?case
  proof (cases "isHighSurrogate h \<and> isLowSurrogate l")
    case True
    have "lowered s" using 1(3) lowered_tl [of l s] by simp
    then have "lowerFrom (codePoint h l # pre) s = s" using 1(1) True by simp
    moreover have "lowerPoint (codePoint h l) = codePoint h l" using 1(3) True by simp
    ultimately show ?thesis using True by (simp add: codeUnits_codePoint)
  next
    case False
    have "lowerFrom (h # pre) (l # s) = l # s" using 1(2) [OF False] 1(3) by simp
    moreover have "lowFix h" using 1(3) by simp
    ultimately show ?thesis using False by (auto simp: lowFix_def)
  qed
next
  case (2 pre c)
  then show ?case by (auto simp: lowFix_def)
next
  case (3 pre)
  then show ?case by simp
qed

lemma lowerFrom_hd:
  "lowerFrom pre (l # s) \<noteq> [] \<and> (isLowSurrogate (hd (lowerFrom pre (l # s))) \<longrightarrow> isLowSurrogate l)"
proof (cases s)
  case Nil
  then show ?thesis by (simp add: surrogate_lower not_surrogate_values)
next
  case (Cons l' s')
  show ?thesis
  proof (cases "isHighSurrogate l \<and> isLowSurrogate l'")
    case True
    have "65536 \<le> lowerPoint (codePoint l l') \<and> lowerPoint (codePoint l l') < 1114112"
      using codePoint_range [of l l'] True lowerPoint_zone [of "codePoint l l'"] by auto
    then obtain h2 l2 where "codeUnits (lowerPoint (codePoint l l')) = [h2, l2]" "isHighSurrogate h2"
      using codeUnits_pair [of "lowerPoint (codePoint l l')"] by auto
    then show ?thesis unfolding Cons using True
      by (simp add: lowerFrom_pair not_both_surrogate del: lowerFrom.simps)
  next
    case False
    show ?thesis unfolding Cons lowerFrom_single [OF False]
      by (simp add: surrogate_lower not_surrogate_values del: lowerFrom.simps)
  qed
qed

lemma lowered_lowerFrom: "lowered (lowerFrom pre s)"
proof (induction pre s rule: lowerFrom.induct)
  case (1 pre h l s)
  show ?case
  proof (cases "isHighSurrogate h \<and> isLowSurrogate l")
    case True
    let ?q = "lowerPoint (codePoint h l)"
    have r: "65536 \<le> ?q \<and> ?q < 1114112"
      using codePoint_range [of h l] True lowerPoint_zone [of "codePoint h l"] by auto
    then obtain h2 l2 where u: "codeUnits ?q = [h2, l2]" "isHighSurrogate h2" "isLowSurrogate l2"
      "codePoint h2 l2 = ?q" using codeUnits_pair [of ?q] by auto
    have rest: "lowered (lowerFrom (codePoint h l # pre) s)" using 1(1) True by simp
    have "\<not> isHighSurrogate l2" using u(3) not_both_surrogate [of l2] by blast
    then have "lowered (l2 # lowerFrom (codePoint h l # pre) s)"
      using rest u(3) by (intro lowered_Cons lowFix_surrogate) auto
    then have "lowered (h2 # l2 # lowerFrom (codePoint h l # pre) s)"
      using u(2,4) lowerPoint_idem [of "codePoint h l"] by (simp add: lowFix_surrogate)
    then show ?thesis using True u(1) by (simp add: lowerFrom_pair del: lowerFrom.simps)
  next
    case False
    let ?r = "lowerFrom (h # pre) (l # s)"
    have rest: "lowered ?r" using 1(2) [OF False] .
    have hd: "?r \<noteq> [] \<and> (isLowSurrogate (hd ?r) \<longrightarrow> isLowSurrogate l)" by (rule lowerFrom_hd)
    have a: "\<And>c. lowFix c \<Longrightarrow> \<not> isHighSurrogate c \<Longrightarrow> lowered (c # ?r)"
      using rest by (intro lowered_Cons) auto
    have b: "lowered (lowerPoint h # ?r)"
      using rest hd False by (intro lowered_Cons lowFix_lowerPoint) (auto simp: surrogate_lower)
    have c: "lowered (105 # 775 # ?r)"
      using a [of 775] by (simp add: lowFix_values not_surrogate_values)
    show ?thesis unfolding lowerFrom_single [OF False] using a [of 962] a [of 963] b c
      by (auto simp: lowFix_values not_surrogate_values simp del: lowerFrom.simps)
  qed
next
  case (2 pre c)
  then show ?case by (simp add: lowFix_values lowFix_lowerPoint not_surrogate_values)
next
  case (3 pre)
  then show ?case by simp
qed

lemma lowered_dropWhile: "lowered s \<Longrightarrow> lowered (dropWhile P s)"
  by (induction s) (auto dest: lowered_tl)

lemma lowered_prefix: "lowered (a @ b) \<Longrightarrow> lowered a"
proof (induction a rule: lowered.induct)
  case (1 h l s)
  then show ?case by simp
next
  case (2 c)
  then show ?case by (cases b) auto
next
  case 3
  then show ?case by simp
qed

lemma lowered_trim: "lowered s \<Longrightarrow> lowered (trim s)"
proof -
  assume s: "lowered s"
  let ?d = "dropWhile isSpace s"
  have "rev ?d = takeWhile isSpace (rev ?d) @ dropWhile isSpace (rev ?d)" by simp
  then have "rev (rev ?d) = rev (takeWhile isSpace (rev ?d) @ dropWhile isSpace (rev ?d))" by simp
  then have "?d = rev (dropWhile isSpace (rev ?d)) @ rev (takeWhile isSpace (rev ?d))"
    by (simp only: rev_rev_ident rev_append)
  then have "lowered (rev (dropWhile isSpace (rev ?d)) @ rev (takeWhile isSpace (rev ?d)))"
    using lowered_dropWhile [OF s, of isSpace] by simp
  then show ?thesis unfolding trim_def by (rule lowered_prefix)
qed

lemma normalized_lower: "toLowerCase (trim (toLowerCase s)) = trim (toLowerCase s)"
  unfolding toLowerCase_def [of "trim _"]
  by (rule lowered_fixed) (simp add: toLowerCase_def lowered_trim lowered_lowerFrom)

lemma toLowerCase_Nil: "toLowerCase [] = []"
  by (simp add: toLowerCase_def)

section \<open>Evaluation rules\<close>

text \<open>The definitions that the simplifier unfolds to run the model on a concrete text.\<close>

lemmas rx_defs = d12_def d13_def d2_def d3_def d4_def digit_def space_def opt_def many1_def
  oneOf_def lit1_def lit_def litI_def currency_def monthNames_def

lemmas cls_defs = isDigit_def isSpace_def isWordUnit_def isAsciiLetter_def asciiLower_def

lemmas str_defs = js_def removeSpaces_def removeUnit_def lastIndexOf_def toLowerCase_ascii
  trim_def dedupe_def

lemmas num_defs = parseFloat_def parseInt_def decimalOf_def digitsVal_def sortDesc_def
  pushAmount_def positive_def maxOf_def Let_def

lemmas scan_defs = execAll_def execFirst_def rxTest_def matchAt_def grp_def

lemmas amt_defs = extractAllAmounts_v3_def amountValue_v3_def normalizeAmount_v3_def
  amountPatterns_v3_def extractAllAmounts_v2_def amountValue_v2_def normalizeAmount_v2_def
  amountPattern_v2_def

section \<open>The amounts of a text\<close>

lemma sortDesc_dedupe:
  "distinct (sortDesc (dedupe xs))"
  "sorted_wrt (\<lambda>a b. b \<le> a) (sortDesc (dedupe xs))"
  "set (sortDesc (dedupe xs)) = set xs"
proof -
  show "distinct (sortDesc (dedupe xs))" by (simp add: sortDesc_def dedupe_def)
  have "sorted (map (\<lambda>x. - x) (sortDesc (dedupe xs)))" unfolding sortDesc_def by (rule sorted_sort_key)
  then show "sorted_wrt (\<lambda>a b. b \<le> a) (sortDesc (dedupe xs))" by (simp add: sorted_wrt_map)
  show "set (sortDesc (dedupe xs)) = set xs" by (simp add: sortDesc_def dedupe_def)
qed

lemma pushAmount_range: "v \<in> set (pushAmount x) \<Longrightarrow> 0 < v \<and> v < 100000"
  by (auto simp: pushAmount_def split: option.splits if_splits)

text \<open>
  Claim C6. For every text, the amounts returned by \<open>extractAllAmounts\<close> (engines v3 and
  v2) hold no value twice, are in descending order, and every one of them is greater
  than 0 and less than 100000.
\<close>

theorem allAmounts_distinct_sorted_bounded:
  "distinct (extractAllAmounts_v3 text)
   \<and> sorted_wrt (\<lambda>a b. b \<le> a) (extractAllAmounts_v3 text)
   \<and> (\<forall>v \<in> set (extractAllAmounts_v3 text). 0 < v \<and> v < 100000)
   \<and> distinct (extractAllAmounts_v2 text)
   \<and> sorted_wrt (\<lambda>a b. b \<le> a) (extractAllAmounts_v2 text)
   \<and> (\<forall>v \<in> set (extractAllAmounts_v2 text). 0 < v \<and> v < 100000)"
  unfolding extractAllAmounts_v3_def extractAllAmounts_v2_def
  by (auto simp: sortDesc_dedupe dest: pushAmount_range)

text \<open>
  On the text \<open>3,99 12.50 12,50 123,456.00\<close> both engines keep the value read twice
  once and leave out the one beyond the range.
\<close>

lemma allAmounts_example:
  "extractAllAmounts_v3 (js ''3,99 12.50 12,50 123,456.00'') = [25 / 2, 399 / 100]"
  "extractAllAmounts_v2 (js ''3,99 12.50 12,50 123,456.00'') = [25 / 2, 399 / 100]"
  by (simp_all add: amt_defs scan_defs num_defs str_defs rx_defs cls_defs)

theorem allAmounts_distinct_sorted_bounded_witness:
  "extractAllAmounts_v3 (js ''3,99 12.50 12,50 123,456.00'') = [25 / 2, 399 / 100]
   \<and> distinct (extractAllAmounts_v3 (js ''3,99 12.50 12,50 123,456.00''))
   \<and> sorted_wrt (\<lambda>a b. b \<le> a) (extractAllAmounts_v3 (js ''3,99 12.50 12,50 123,456.00''))
   \<and> list_all (\<lambda>v. 0 < v \<and> v < 100000) (extractAllAmounts_v3 (js ''3,99 12.50 12,50 123,456.00''))
   \<and> extractAllAmounts_v2 (js ''3,99 12.50 12,50 123,456.00'') = [25 / 2, 399 / 100]
   \<and> list_all (\<lambda>v. 0 < v \<and> v < 100000) (extractAllAmounts_v2 (js ''3,99 12.50 12,50 123,456.00''))"
  using allAmounts_distinct_sorted_bounded [of "js ''3,99 12.50 12,50 123,456.00''"]
    allAmounts_example
  by (simp add: list_all_iff)

section \<open>The normalisation of an amount token\<close>

lemma takeWhile_neq_rev:
  "c \<notin> set b \<Longrightarrow> takeWhile (\<lambda>x. x \<noteq> c) (rev b @ ys) = rev b @ takeWhile (\<lambda>x. x \<noteq> c) ys"
  by (rule takeWhile_append2) auto

lemma lastIndexOf_last: "c \<notin> set f \<Longrightarrow> lastIndexOf (a @ c # f) c = int (length a)"
  by (simp add: lastIndexOf_def takeWhile_neq_rev)

lemma lastIndexOf_less: "c \<in> set a \<Longrightarrow> c \<notin> set b \<Longrightarrow> lastIndexOf (a @ b) c < int (length a)"
proof -
  assume a: "c \<in> set a" and b: "c \<notin> set b"
  have "length (takeWhile (\<lambda>x. x \<noteq> c) (rev a)) \<le> length a"
    using length_takeWhile_le [of "\<lambda>x. x \<noteq> c" "rev a"] by simp
  then show ?thesis using a b by (simp add: lastIndexOf_def takeWhile_neq_rev)
qed

lemma replaceFirst_append: "a \<notin> set xs \<Longrightarrow> replaceFirst a b (xs @ a # ys) = xs @ b # ys"
  by (induction xs) auto

lemma splitOn_none: "sep \<notin> set a \<Longrightarrow> splitOn sep a = [a]"
  by (induction a) auto

lemma splitOn_append: "sep \<notin> set a \<Longrightarrow> splitOn sep (a @ sep # f) = a # splitOn sep f"
  by (induction a) auto

lemma splitOn_nonempty: "splitOn sep s \<noteq> []"
  by (induction s) (auto split: list.splits)

lemma splitOn_two: "\<exists>p q qs. splitOn sep (a @ sep # f) = p # q # qs"
proof (induction a)
  case Nil
  then show ?case using splitOn_nonempty [of sep f] by (cases "splitOn sep f") auto
next
  case (Cons c a)
  then show ?case by auto
qed

lemma last_splitOn: "sep \<notin> set f \<Longrightarrow> last (splitOn sep (a @ sep # f)) = f"
proof (induction a)
  case Nil
  then show ?case by (simp add: splitOn_none)
next
  case (Cons c a)
  obtain p q qs where e: "splitOn sep (a @ sep # f) = p # q # qs" using splitOn_two by blast
  with Cons show ?case by auto
qed

lemma parseFloat_decimal:
  assumes "\<forall>c \<in> set ip. isDigit c" "\<forall>c \<in> set fp. isDigit c" "fp \<noteq> []"
  shows "parseFloat (ip @ 46 # fp) = Some (decimalOf ip fp)"
proof -
  have nd: "\<not> isDigit 46" by (simp add: isDigit_def)
  have t: "takeWhile isDigit (ip @ 46 # fp) = ip" using assms(1) nd by (simp add: takeWhile_append2)
  have d: "dropWhile isDigit (ip @ 46 # fp) = 46 # fp" using assms(1) nd by (simp add: dropWhile_append2)
  have f: "takeWhile isDigit fp = fp" using assms(2) by (simp add: takeWhile_eq_all_conv)
  show ?thesis unfolding parseFloat_def by (simp add: t d f assms(3) Let_def)
qed

lemma parseFloat_integer:
  assumes "\<forall>c \<in> set ip. isDigit c" "ip \<noteq> []"
  shows "parseFloat ip = Some (of_nat (digitsVal ip))"
proof -
  have t: "takeWhile isDigit ip = ip" using assms(1) by (simp add: takeWhile_eq_all_conv)
  have d: "dropWhile isDigit ip = []" using assms(1) by simp
  show ?thesis unfolding parseFloat_def by (simp add: t d assms(2) Let_def)
qed

lemma digit_not_space: "isDigit c \<Longrightarrow> \<not> isSpace c"
  by (auto simp: isDigit_def isSpace_def)

lemma filter_digits_sep:
  assumes "\<forall>c \<in> set a. isDigit c \<or> c = s \<or> isSpace c" "\<not> isDigit s" "\<not> isSpace s"
  shows "removeUnit s (removeSpaces a) = filter isDigit a"
  unfolding removeUnit_def removeSpaces_def filter_filter
  by (rule filter_cong) (use assms digit_not_space in auto)

lemma sep_facts:
  "\<not> isDigit 44" "\<not> isDigit 46" "\<not> isSpace 44" "\<not> isSpace 46"
  by (simp_all add: isDigit_def isSpace_def)

lemma removeSpaces_token:
  assumes "\<forall>c \<in> set f. isDigit c" "\<not> isSpace s"
  shows "removeSpaces (a @ s # f) = removeSpaces a @ s # f"
  using assms by (auto simp: removeSpaces_def digit_not_space intro: filter_True [symmetric])

lemma removeSpaces_digits:
  assumes "\<forall>c \<in> set a. isDigit c \<or> isSpace c"
  shows "removeSpaces a = filter isDigit a"
  unfolding removeSpaces_def
  by (rule filter_cong) (use assms digit_not_space in auto)

lemma removeUnit_digits: "\<forall>c \<in> set f. isDigit c \<Longrightarrow> \<not> isDigit s \<Longrightarrow> removeUnit s f = f"
  unfolding removeUnit_def by (rule filter_True) auto

text \<open>The normalised string in the four layouts.\<close>

lemma normalize_both_last:
  assumes f: "\<forall>c \<in> set f. isDigit c"
    and a: "\<forall>c \<in> set a. isDigit c \<or> c = t \<or> isSpace c" "t \<in> set a"
    and so: "(s = 44 \<and> t = 46) \<or> (s = 46 \<and> t = 44)"
  shows "normalizeAmount_v3 (a @ s # f) = filter isDigit a @ 46 # f"
    and "normalizeAmount_v2 (a @ s # f) = filter isDigit a @ 46 # f"
proof -
  let ?n = "removeSpaces a @ s # f"
  have ns: "\<not> isSpace s" "\<not> isDigit s" "\<not> isSpace t" "\<not> isDigit t" "s \<noteq> t"
    using so sep_facts by auto
  have rs: "removeSpaces (a @ s # f) = ?n" using f ns by (simp add: removeSpaces_token)
  have sf: "s \<notin> set f" "t \<notin> set f" using f ns by auto
  have sa: "s \<notin> set (removeSpaces a)" using a ns by (auto simp: removeSpaces_def)
  have oa: "t \<in> set (removeSpaces a)" using a ns by (auto simp: removeSpaces_def)
  have li_s: "lastIndexOf ?n s = int (length (removeSpaces a))" using sf by (simp add: lastIndexOf_last)
  have li_o: "lastIndexOf ?n t < int (length (removeSpaces a))"
    using lastIndexOf_less [OF oa, of "s # f"] sf ns by simp
  have fo: "removeUnit t (removeSpaces a) = filter isDigit a"
    using a ns by (intro filter_digits_sep) auto
  have ro: "removeUnit t ?n = filter isDigit a @ s # f"
    using fo removeUnit_digits [OF f ns(4)] ns by (simp add: removeUnit_def)
  have nd: "s \<notin> set (filter isDigit a)" using ns by auto
  have both: "46 \<in> set ?n \<and> 44 \<in> set ?n" using so oa by auto
  show "normalizeAmount_v3 (a @ s # f) = filter isDigit a @ 46 # f"
    unfolding normalizeAmount_v3_def rs Let_def using so
  proof
    assume h: "s = 44 \<and> t = 46"
    then show "(if 46 \<in> set ?n \<and> 44 \<in> set ?n
          then if lastIndexOf ?n 46 < lastIndexOf ?n 44 then replaceFirst 44 46 (removeUnit 46 ?n) else removeUnit 44 ?n
          else if 44 \<in> set ?n then if length (splitOn 44 ?n) = 2 \<and> length (splitOn 44 ?n ! 1) = 2 then replaceFirst 44 46 ?n else removeUnit 44 ?n else ?n)
        = filter isDigit a @ 46 # f"
      using both li_s li_o ro nd by (simp add: replaceFirst_append)
  next
    assume h: "s = 46 \<and> t = 44"
    then show "(if 46 \<in> set ?n \<and> 44 \<in> set ?n
          then if lastIndexOf ?n 46 < lastIndexOf ?n 44 then replaceFirst 44 46 (removeUnit 46 ?n) else removeUnit 44 ?n
          else if 44 \<in> set ?n then if length (splitOn 44 ?n) = 2 \<and> length (splitOn 44 ?n ! 1) = 2 then replaceFirst 44 46 ?n else removeUnit 44 ?n else ?n)
        = filter isDigit a @ 46 # f"
      using both li_s li_o ro by simp
  qed
  show "normalizeAmount_v2 (a @ s # f) = filter isDigit a @ 46 # f"
    unfolding normalizeAmount_v2_def rs Let_def using so
  proof
    assume h: "s = 44 \<and> t = 46"
    then show "(if 46 \<in> set ?n \<and> 44 \<in> set ?n
          then if lastIndexOf ?n 46 < lastIndexOf ?n 44 then replaceFirst 44 46 (removeUnit 46 ?n) else removeUnit 44 ?n
          else if 44 \<in> set ?n then if length (last (splitOn 44 ?n)) = 2 then replaceFirst 44 46 ?n else removeUnit 44 ?n else ?n)
        = filter isDigit a @ 46 # f"
      using both li_s li_o ro nd by (simp add: replaceFirst_append)
  next
    assume h: "s = 46 \<and> t = 44"
    then show "(if 46 \<in> set ?n \<and> 44 \<in> set ?n
          then if lastIndexOf ?n 46 < lastIndexOf ?n 44 then replaceFirst 44 46 (removeUnit 46 ?n) else removeUnit 44 ?n
          else if 44 \<in> set ?n then if length (last (splitOn 44 ?n)) = 2 then replaceFirst 44 46 ?n else removeUnit 44 ?n else ?n)
        = filter isDigit a @ 46 # f"
      using both li_s li_o ro by simp
  qed
qed

lemma nth1_last: "length xs = 2 \<Longrightarrow> xs ! 1 = last xs"
  by (cases xs; cases "tl xs") auto

lemma normalize_comma_decimal:
  assumes f: "\<forall>c \<in> set f. isDigit c" "length f = 2"
    and a: "\<forall>c \<in> set a. isDigit c \<or> isSpace c"
  shows "normalizeAmount_v3 (a @ 44 # f) = filter isDigit a @ 46 # f"
    and "normalizeAmount_v2 (a @ 44 # f) = filter isDigit a @ 46 # f"
proof -
  let ?n = "filter isDigit a @ 44 # f"
  have rs: "removeSpaces (a @ 44 # f) = ?n"
    using f(1) a by (simp add: removeSpaces_token sep_facts removeSpaces_digits)
  have n46: "46 \<notin> set ?n" using f(1) sep_facts by auto
  have c1: "44 \<notin> set (filter isDigit a)" and c2: "44 \<notin> set f" using f(1) sep_facts by auto
  have parts: "splitOn 44 ?n = [filter isDigit a, f]"
    using c1 c2 by (simp add: splitOn_append splitOn_none)
  show "normalizeAmount_v3 (a @ 44 # f) = filter isDigit a @ 46 # f"
    unfolding normalizeAmount_v3_def rs Let_def parts using n46 c1 f(2)
    by (simp add: replaceFirst_append sep_facts)
  show "normalizeAmount_v2 (a @ 44 # f) = filter isDigit a @ 46 # f"
    unfolding normalizeAmount_v2_def rs Let_def parts using n46 c1 f(2)
    by (simp add: replaceFirst_append sep_facts)
qed

lemma normalize_comma_thousands:
  assumes f: "\<forall>c \<in> set f. isDigit c" "length f \<noteq> 2"
    and a: "\<forall>c \<in> set a. isDigit c \<or> c = 44 \<or> isSpace c"
  shows "normalizeAmount_v3 (a @ 44 # f) = filter isDigit a @ f"
    and "normalizeAmount_v2 (a @ 44 # f) = filter isDigit a @ f"
proof -
  let ?n = "removeSpaces a @ 44 # f"
  have rs: "removeSpaces (a @ 44 # f) = ?n" using f(1) by (simp add: removeSpaces_token sep_facts)
  have n46: "46 \<notin> set ?n" using f(1) a sep_facts by (auto simp: removeSpaces_def)
  have c2: "44 \<notin> set f" using f(1) sep_facts by auto
  have lst: "last (splitOn 44 ?n) = f" using c2 by (rule last_splitOn)
  have fa: "removeUnit 44 (removeSpaces a) = filter isDigit a"
    using a by (intro filter_digits_sep) (auto simp: sep_facts)
  have ru: "removeUnit 44 ?n = filter isDigit a @ f"
    using fa removeUnit_digits [OF f(1) sep_facts(1)] by (simp add: removeUnit_def)
  have no2: "\<not> (length (splitOn 44 ?n) = 2 \<and> length (splitOn 44 ?n ! 1) = 2)"
    using lst f(2) nth1_last [of "splitOn 44 ?n"] by auto
  show "normalizeAmount_v3 (a @ 44 # f) = filter isDigit a @ f"
    unfolding normalizeAmount_v3_def rs Let_def using n46 no2 ru by auto
  show "normalizeAmount_v2 (a @ 44 # f) = filter isDigit a @ f"
    unfolding normalizeAmount_v2_def rs Let_def using n46 lst f(2) ru by simp
qed

text \<open>
  Claim C5, as amended. For every captured token of digits and separators, white space
  removed first, with at least one digit after the last separator:
  when the token holds both \<open>.\<close> and \<open>,\<close> and the kind that occurs last occurs once, that
  separator is the decimal point and every occurrence of the other kind is stripped;
  when the token holds \<open>,\<close> only, a single comma followed by exactly two digits is the
  decimal point, and when the digits after the last comma are not exactly two every comma
  is stripped. Engines v3 and v2 agree on these tokens.
\<close>

theorem amount_normalisation:
  assumes f: "\<forall>c \<in> set f. isDigit c" "f \<noteq> []"
  shows
    "((\<forall>c \<in> set a. isDigit c \<or> c = 46 \<or> isSpace c) \<and> 46 \<in> set a \<longrightarrow>
        amountValue_v3 (a @ 44 # f) = Some (decimalOf (filter isDigit a) f) \<and>
        amountValue_v2 (a @ 44 # f) = Some (decimalOf (filter isDigit a) f))
     \<and> ((\<forall>c \<in> set a. isDigit c \<or> c = 44 \<or> isSpace c) \<and> 44 \<in> set a \<longrightarrow>
        amountValue_v3 (a @ 46 # f) = Some (decimalOf (filter isDigit a) f) \<and>
        amountValue_v2 (a @ 46 # f) = Some (decimalOf (filter isDigit a) f))
     \<and> ((\<forall>c \<in> set a. isDigit c \<or> isSpace c) \<and> length f = 2 \<longrightarrow>
        amountValue_v3 (a @ 44 # f) = Some (decimalOf (filter isDigit a) f) \<and>
        amountValue_v2 (a @ 44 # f) = Some (decimalOf (filter isDigit a) f))
     \<and> ((\<forall>c \<in> set a. isDigit c \<or> c = 44 \<or> isSpace c) \<and> length f \<noteq> 2 \<longrightarrow>
        amountValue_v3 (a @ 44 # f) = Some (of_nat (digitsVal (filter isDigit a @ f))) \<and>
        amountValue_v2 (a @ 44 # f) = Some (of_nat (digitsVal (filter isDigit a @ f))))"
proof -
  have d: "\<forall>c \<in> set (filter isDigit a). isDigit c" by simp
  have pf: "parseFloat (filter isDigit a @ 46 # f) = Some (decimalOf (filter isDigit a) f)"
    using d f by (rule parseFloat_decimal)
  have pi: "parseFloat (filter isDigit a @ f) = Some (of_nat (digitsVal (filter isDigit a @ f)))"
    using f by (intro parseFloat_integer) auto
  have european: "(\<forall>c \<in> set a. isDigit c \<or> c = 46 \<or> isSpace c) \<and> 46 \<in> set a \<longrightarrow>
        amountValue_v3 (a @ 44 # f) = Some (decimalOf (filter isDigit a) f) \<and>
        amountValue_v2 (a @ 44 # f) = Some (decimalOf (filter isDigit a) f)"
    using normalize_both_last [OF f(1), of a 46 44] pf
    by (simp add: amountValue_v3_def amountValue_v2_def)
  have us: "(\<forall>c \<in> set a. isDigit c \<or> c = 44 \<or> isSpace c) \<and> 44 \<in> set a \<longrightarrow>
        amountValue_v3 (a @ 46 # f) = Some (decimalOf (filter isDigit a) f) \<and>
        amountValue_v2 (a @ 46 # f) = Some (decimalOf (filter isDigit a) f)"
    using normalize_both_last [OF f(1), of a 44 46] pf
    by (simp add: amountValue_v3_def amountValue_v2_def)
  have comma2: "(\<forall>c \<in> set a. isDigit c \<or> isSpace c) \<and> length f = 2 \<longrightarrow>
        amountValue_v3 (a @ 44 # f) = Some (decimalOf (filter isDigit a) f) \<and>
        amountValue_v2 (a @ 44 # f) = Some (decimalOf (filter isDigit a) f)"
    using normalize_comma_decimal [OF f(1), of a] pf
    by (simp add: amountValue_v3_def amountValue_v2_def)
  have comma3: "(\<forall>c \<in> set a. isDigit c \<or> c = 44 \<or> isSpace c) \<and> length f \<noteq> 2 \<longrightarrow>
        amountValue_v3 (a @ 44 # f) = Some (of_nat (digitsVal (filter isDigit a @ f))) \<and>
        amountValue_v2 (a @ 44 # f) = Some (of_nat (digitsVal (filter isDigit a @ f)))"
    using normalize_comma_thousands [OF f(1), of a] pi
    by (simp add: amountValue_v3_def amountValue_v2_def)
  show ?thesis using european us comma2 comma3 by blast
qed

text \<open>The four tokens of the specification, each through the theorem.\<close>

theorem amount_normalisation_witness:
  "amountValue_v3 (js ''1.234,56'') = Some (123456 / 100)
   \<and> amountValue_v3 (js ''1,234.56'') = Some (123456 / 100)
   \<and> amountValue_v3 (js ''45,99'') = Some (4599 / 100)
   \<and> amountValue_v2 (js ''1,234'') = Some 1234"
  using amount_normalisation [where f = "js ''56''" and a = "js ''1.234''"]
    amount_normalisation [where f = "js ''56''" and a = "js ''1,234''"]
    amount_normalisation [where f = "js ''99''" and a = "js ''45''"]
    amount_normalisation [where f = "js ''234''" and a = "js ''1''"]
  by (simp add: js_def isDigit_def isSpace_def decimalOf_def digitsVal_def)

text \<open>
  The claim as stated fails on a token in which the kind that occurs last occurs twice:
  \<open>1,234.567,89\<close> holds both separators and its last separator is the comma before
  \<open>89\<close>, yet engine v3 removes the dot and turns the first comma into the decimal point,
  so the value is 1.234567 and not 1234567.89.
\<close>

theorem amount_normalisation_counterexample:
  "46 \<in> set (js ''1,234.567,89'') \<and> 44 \<in> set (js ''1,234.567,89'')
   \<and> lastIndexOf (js ''1,234.567,89'') 46 < lastIndexOf (js ''1,234.567,89'') 44
   \<and> normalizeAmount_v3 (js ''1,234.567,89'') = js ''1.234567,89''
   \<and> amountValue_v3 (js ''1,234.567,89'') = Some (1234567 / 1000000)
   \<and> amountValue_v3 (js ''1,234.567,89'') \<noteq> Some (decimalOf (js ''1234567'') (js ''89''))"
  by (simp add: amt_defs num_defs str_defs cls_defs)

section \<open>Total and subtotal\<close>

lemma swapTotals_ordered:
  "total (swapTotals r) = Some t \<Longrightarrow> subtotal (swapTotals r) = Some s \<Longrightarrow> s \<le> t"
  by (auto simp: swapTotals_def split: option.splits if_splits)

lemma swapTotals_swaps:
  "total r = Some t \<Longrightarrow> subtotal r = Some s \<Longrightarrow> t < s \<Longrightarrow>
   total (swapTotals r) = Some s \<and> subtotal (swapTotals r) = Some t \<and> tax (swapTotals r) = tax r"
  by (simp add: swapTotals_def)

text \<open>
  Engine v3 keeps the invariant of claim C1: whatever the text and the list of amounts, a
  total and a subtotal that are both present are in order, and a larger subtotal found by
  the keywords is exchanged with the total.
\<close>

lemma extractTotals_v3_ordered:
  "total (extractTotals_v3 text amounts) = Some t \<Longrightarrow>
   subtotal (extractTotals_v3 text amounts) = Some s \<Longrightarrow> s \<le> t"
  unfolding extractTotals_v3_def by (rule swapTotals_ordered)

lemma extractTotals_v3_swaps:
  "total (keywordTotals_v3 text amounts) = Some t \<Longrightarrow>
   subtotal (keywordTotals_v3 text amounts) = Some s \<Longrightarrow> t < s \<Longrightarrow>
   total (extractTotals_v3 text amounts) = Some s \<and>
   subtotal (extractTotals_v3 text amounts) = Some t"
  unfolding extractTotals_v3_def using swapTotals_swaps by blast

lemmas totals_defs = extractTotals_native_def totalsStep_native_def lineAmounts_native_def
  totalKeywords_def subtotalKeywords_def taxKeywords_def fallbackValue_native_def joinParts_def
  extractTotals_v3_def keywordTotals_v3_def totalsStep_v3_def swapTotals_def taxBound_def
  TOTAL_KEYWORDS_def SUBTOTAL_KEYWORDS_def TAX_KEYWORDS_def

text \<open>
  Claim C1 (total at least subtotal when both are returned; a larger subtotal is swapped
  with the total). The \<open>extractTotals\<close> of the native bridge has no such exchange: on the
  lines \<open>total 40.00\<close> and \<open>netto 50.00\<close> it returns total 40 and subtotal 50, where
  engine v3 returns total 50 and subtotal 40.
\<close>

theorem extractTotals_native_no_swap:
  "extractTotals_native \<lparr>regionText = js ''total 40.00'' @ [10] @ js ''netto 50.00'', regionConfidence = 90\<rparr>
     (js ''total 40.00'' @ [10] @ js ''netto 50.00'')
   = \<lparr>total = Some 40, subtotal = Some 50, tax = None\<rparr>
   \<and> extractTotals_v3 (js ''total 40.00'' @ [10] @ js ''netto 50.00'')
       (extractAllAmounts_v3 (js ''total 40.00'' @ [10] @ js ''netto 50.00''))
   = \<lparr>total = Some 50, subtotal = Some 40, tax = None\<rparr>"
  by (simp add: totals_defs amt_defs scan_defs num_defs str_defs rx_defs cls_defs)

section \<open>Dates\<close>

lemma validDate_window: "s \<in> set (validDate y m d) \<Longrightarrow> inWindow s"
  by (auto simp: validDate_def inWindow_def split: option.splits if_splits)

lemma numericDate_window: "s \<in> set (numericDate d m y) \<Longrightarrow> inWindow s"
  by (auto simp: numericDate_def Let_def dest: validDate_window split: if_splits)

lemma dateOfMatch_v3_window: "s \<in> set (dateOfMatch_v3 m) \<Longrightarrow> inWindow s"
  by (auto simp: dateOfMatch_v3_def dest: validDate_window numericDate_window split: if_splits option.splits)

lemma dateOfMatch_v2_window: "s \<in> set (dateOfMatch_v2 m) \<Longrightarrow> inWindow s"
  by (auto simp: dateOfMatch_v2_def dest: validDate_window split: if_splits)

lemma dateOfMatch_native_window: "s \<in> set (dateOfMatch_native k m) \<Longrightarrow> inWindow s"
  by (auto simp: dateOfMatch_native_def dest: validDate_window numericDate_window split: dateKind.splits option.splits)

lemma firstDate_native_window: "firstDate_native ps text = Some s \<Longrightarrow> inWindow s"
proof (induction ps)
  case Nil
  then show ?case by simp
next
  case (Cons p ps)
  show ?case
  proof (cases "execFirst (snd p) text")
    case None
    with Cons show ?thesis by simp
  next
    case (Some m)
    show ?thesis
    proof (cases "dateOfMatch_native (fst p) m")
      case Nil
      with Cons Some show ?thesis by simp
    next
      case (Cons d ds)
      with Cons.prems Some have "s = d" by simp
      then have "s \<in> set (dateOfMatch_native (fst p) m)" using Cons by simp
      then show ?thesis by (rule dateOfMatch_native_window)
    qed
  qed
qed

lemma dedupe_set: "set (dedupe xs) = set xs"
  by (simp add: dedupe_def)

lemmas date_defs = extractAllDates_v3_def extractAllDates_v2_def extractDate_native_def
  datePatterns_v3_def datePatterns_v2_def datePatterns_native_def dateOfMatch_v3_def
  dateOfMatch_v2_def dateOfMatch_native_def numericDate_def validDate_def monthMap_def
  isoDate_def padStart2_def natToString.simps
  extractBestDate_def

text \<open>
  Claim C7. For every text, every date returned by the date extraction (\<open>extractAllDates\<close>
  of engines v3 and v2, \<open>extractDate\<close> of the native bridge) is the ISO form of a date with
  month in 1..12, day in 1..31 (no month length, no leap year) and year in 2020..2030; a
  date outside the window is dropped: \<open>15/03/2035\<close> yields no date.
\<close>

theorem dates_in_window:
  "(\<forall>s \<in> set (extractAllDates_v3 text).
      \<exists>y m d. s = isoDate y m d \<and> 1 \<le> m \<and> m \<le> 12 \<and> 1 \<le> d \<and> d \<le> 31 \<and> 2020 \<le> y \<and> y \<le> 2030)
   \<and> (\<forall>s \<in> set (extractAllDates_v2 text).
      \<exists>y m d. s = isoDate y m d \<and> 1 \<le> m \<and> m \<le> 12 \<and> 1 \<le> d \<and> d \<le> 31 \<and> 2020 \<le> y \<and> y \<le> 2030)
   \<and> (\<forall>s. extractDate_native text = Some s \<longrightarrow>
      (\<exists>y m d. s = isoDate y m d \<and> 1 \<le> m \<and> m \<le> 12 \<and> 1 \<le> d \<and> d \<le> 31 \<and> 2020 \<le> y \<and> y \<le> 2030))
   \<and> extractAllDates_v3 (js ''15/03/2035'') = []
   \<and> extractAllDates_v2 (js ''15/03/2035'') = []
   \<and> extractDate_native (js ''15/03/2035'') = None"
proof -
  have v3: "\<forall>s \<in> set (extractAllDates_v3 text). inWindow s"
    by (auto simp: extractAllDates_v3_def dedupe_set dest: dateOfMatch_v3_window)
  have v2: "\<forall>s \<in> set (extractAllDates_v2 text). inWindow s"
    by (auto simp: extractAllDates_v2_def dedupe_set dest: dateOfMatch_v2_window)
  have nat: "\<forall>s. extractDate_native text = Some s \<longrightarrow> inWindow s"
    by (auto simp: extractDate_native_def dest: firstDate_native_window)
  have e3: "extractAllDates_v3 (js ''15/03/2035'') = []"
    by (simp add: date_defs scan_defs num_defs str_defs rx_defs cls_defs)
  have e2: "extractAllDates_v2 (js ''15/03/2035'') = []"
    by (simp add: date_defs scan_defs num_defs str_defs rx_defs cls_defs)
  have en: "extractDate_native (js ''15/03/2035'') = None"
    by (simp add: date_defs scan_defs num_defs str_defs rx_defs cls_defs)
  show ?thesis using v3 v2 nat e3 e2 en unfolding inWindow_def by blast
qed

lemma dates_example:
  "extractAllDates_v3 (js ''15/03/2025 and 03/15/25 and 2025-03-15 and Jan 5, 2024'')
     = [js ''2025-03-15'', js ''2024-01-05'']"
  "extractAllDates_v2 (js ''15/03/2025 and 03/15/25 and 2025-03-15 and Jan 5, 2024'')
     = [js ''2025-03-15'']"
  "extractDate_native (js ''15/03/2025 and 03/15/25 and 2025-03-15 and Jan 5, 2024'')
     = Some (js ''2025-03-15'')"
  by (simp_all add: date_defs scan_defs num_defs str_defs rx_defs cls_defs)

theorem dates_in_window_witness:
  "js ''2025-03-15'' \<in> set (extractAllDates_v3 (js ''15/03/2025 and 03/15/25 and 2025-03-15 and Jan 5, 2024''))
   \<and> inWindow (js ''2025-03-15'')
   \<and> js ''2024-01-05'' \<in> set (extractAllDates_v3 (js ''15/03/2025 and 03/15/25 and 2025-03-15 and Jan 5, 2024''))
   \<and> inWindow (js ''2024-01-05'')
   \<and> js ''2025-03-15'' \<in> set (extractAllDates_v2 (js ''15/03/2025 and 03/15/25 and 2025-03-15 and Jan 5, 2024''))
   \<and> extractDate_native (js ''15/03/2025 and 03/15/25 and 2025-03-15 and Jan 5, 2024'')
       = Some (js ''2025-03-15'')"
  using dates_in_window [of "js ''15/03/2025 and 03/15/25 and 2025-03-15 and Jan 5, 2024''"]
    dates_example
  by (auto simp: inWindow_def)


lemma suggestCategory_v3_returns:
  "getLearnedMerchants st = Arr ms \<Longrightarrow> \<exists>s. suggestCategory_v3 st txt mName = Inr s"
  by (simp add: suggestCategory_v3_def Let_def split: option.splits)

lemma suggestCategory_v2_returns:
  "getLearnedMerchants st = Arr ms \<Longrightarrow> \<exists>s. suggestCategory_v2 st txt mName = Inr s"
  by (simp add: suggestCategory_v2_def Let_def split: option.splits)

text \<open>The date of the two pipelines, when the store holds a list.\<close>

lemma processReceiptImage_v3_date:
  assumes "getLearnedMerchants st = Arr ms"
  shows "map_sum id date (processReceiptImage_v3 st recognized conf)
         = Inr (case extractAllDates_v3 recognized of [] \<Rightarrow> None | d # _ \<Rightarrow> Some d)"
proof -
  obtain s where "suggestCategory_v3 st recognized (extractMerchant_v3 recognized) = Inr s"
    using suggestCategory_v3_returns [OF assms] by blast
  then show ?thesis by (simp add: processReceiptImage_v3_def Let_def)
qed

lemma processReceiptImage_v2_date:
  assumes "getLearnedMerchants st = Arr ms"
  shows "map_sum id date (processReceiptImage_v2 st usedNative ocrResult)
         = Inr (extractDate_native (ocrText ocrResult))"
proof -
  obtain s where "suggestCategory_v2 st (rawText (scanReceipt usedNative ocrResult))
                    (merchantName (scanReceipt usedNative ocrResult)) = Inr s"
    using suggestCategory_v2_returns [OF assms] by blast
  then show ?thesis by (simp add: processReceiptImage_v2_def scanReceipt_def Let_def)
qed

lemma two_dates:
  "extractAllDates_v3 (js ''01.02.2021 05.06.2023'') = [js ''2021-02-01'', js ''2023-06-05'']"
  "extractDate_native (js ''01.02.2021 05.06.2023'') = Some (js ''2021-02-01'')"
  by (simp_all add: date_defs scan_defs num_defs str_defs rx_defs cls_defs)

text \<open>
  Claim C2 (when several valid dates are found, the date of the result is the most recent
  one that is not after today). On the text \<open>01.02.2021 05.06.2023\<close> the date of the
  result of engine v3 is \<open>allDates[0]\<close>, and engine v2 has the date of the native
  \<open>extractDate\<close>, which returns at its first valid match: both give 2021-02-01.
  \<open>extractBestDate\<close> of engine v1, on the same dates and with 2026-11-03 as today, gives
  2023-06-05.
\<close>

theorem date_is_first_found:
  "map_sum id date
     (processReceiptImage_v3
        \<lparr>item = None, getThrows = False, setThrows = False, removeThrows = False\<rparr>
        (js ''01.02.2021 05.06.2023'') 90)
   = Inr (Some (js ''2021-02-01''))
   \<and> map_sum id date
     (processReceiptImage_v2
        \<lparr>item = None, getThrows = False, setThrows = False, removeThrows = False\<rparr> False
        \<lparr>ocrText = js ''01.02.2021 05.06.2023'', ocrConfidence = 90,
         top = \<lparr>regionText = js ''01.02.2021'', regionConfidence = 90\<rparr>,
         middle = \<lparr>regionText = [], regionConfidence = 0\<rparr>,
         bottom = \<lparr>regionText = js ''05.06.2023'', regionConfidence = 90\<rparr>\<rparr>)
   = Inr (Some (js ''2021-02-01''))
   \<and> extractAllDates_v3 (js ''01.02.2021 05.06.2023'') = [js ''2021-02-01'', js ''2023-06-05'']
   \<and> extractBestDate (js ''2026-11-03'') (extractAllDates_v3 (js ''01.02.2021 05.06.2023''))
       = Some (js ''2023-06-05'')"
proof -
  have g: "getLearnedMerchants \<lparr>item = None, getThrows = False, setThrows = False, removeThrows = False\<rparr>
      = Arr []"
    by (simp add: getLearnedMerchants_def)
  have best: "extractBestDate (js ''2026-11-03'') [js ''2021-02-01'', js ''2023-06-05'']
      = Some (js ''2023-06-05'')"
    by (simp add: extractBestDate_def js_def)
  show ?thesis
    using processReceiptImage_v3_date [OF g] processReceiptImage_v2_date [OF g] two_dates best
    by simp
qed

section \<open>The learning store\<close>

lemma saveLearnedMerchant_returns: "\<exists>st'. saveLearnedMerchant st now nam cat = Inr st'"
  by (simp add: saveLearnedMerchant_def split: sum.splits)

lemma saveLearnedMerchant_noop:
  "setThrows st \<or> getLearnedMerchants st = NonArr \<Longrightarrow> saveLearnedMerchant st now nam cat = Inr st"
  by (auto simp: saveLearnedMerchant_def saveBody_def Let_def split: sum.splits parsed.splits)

lemma clearLearnedMerchants_v2_returns:
  "clearLearnedMerchants_v2 st = Inr (if removeThrows st then st else st\<lparr>item := None\<rparr>)"
  by (simp add: clearLearnedMerchants_v2_def)

text \<open>
  Claim C3 (record and clear never propagate an exception of the storage). With a storage
  whose every operation throws, \<open>clearLearnedMerchants\<close> of engine v3 ends in the
  exception of \<open>removeItem\<close>; the \<open>clearLearnedMerchants\<close> of engine v2 and
  \<open>saveLearnedMerchant\<close> return with the storage unchanged.
\<close>

theorem clearLearnedMerchants_v3_throws:
  "clearLearnedMerchants_v3 \<lparr>item = Some (Merchants []), getThrows = True, setThrows = True, removeThrows = True\<rparr>
     = Inl StorageError
   \<and> clearLearnedMerchants_v2 \<lparr>item = Some (Merchants []), getThrows = True, setThrows = True, removeThrows = True\<rparr>
     = Inr \<lparr>item = Some (Merchants []), getThrows = True, setThrows = True, removeThrows = True\<rparr>
   \<and> saveLearnedMerchant \<lparr>item = Some (Merchants []), getThrows = True, setThrows = True, removeThrows = True\<rparr>
       (js ''2026-11-03T10:00:00.000Z'') (js ''Joe'') (js ''Meals (Business)'')
     = Inr \<lparr>item = Some (Merchants []), getThrows = True, setThrows = True, removeThrows = True\<rparr>"
  by (simp add: clearLearnedMerchants_v3_def clearLearnedMerchants_v2_def saveLearnedMerchant_def
      saveBody_def getLearnedMerchants_def)

section \<open>Confidence gating\<close>

text \<open>
  Claim C9. In \<open>scanReceipt\<close>, when the confidence of the top region is below 60 the
  merchant name of the result is null; when it is at least 60 the merchant name is the
  candidate that \<open>extractMerchant\<close> found in the top region, unchanged.
\<close>

theorem merchant_gated_at_60:
  "(regionConfidence (top ocrResult) < 60 \<longrightarrow>
      merchantName (scanReceipt usedNative ocrResult) = None)
   \<and> (60 \<le> regionConfidence (top ocrResult) \<longrightarrow>
      merchantName (scanReceipt usedNative ocrResult) = extractMerchant_native (top ocrResult))"
  by (simp add: scanReceipt_def Let_def)

lemma merchant_example:
  "extractMerchant_native \<lparr>regionText = js ''RECEIPT #123'' @ [10] @ js ''04/01/2025'' @ [10] @ js ''Joe Diner'', regionConfidence = c\<rparr>
   = Some (js ''Joe Diner'')"
  by (simp add: extractMerchant_native_def skipPatterns_native_def scan_defs num_defs str_defs rx_defs cls_defs)

theorem merchant_gated_at_60_witness:
  "merchantName (scanReceipt False
      \<lparr>ocrText = js ''Joe Diner'', ocrConfidence = 80,
       top = \<lparr>regionText = js ''RECEIPT #123'' @ [10] @ js ''04/01/2025'' @ [10] @ js ''Joe Diner'', regionConfidence = 59\<rparr>,
       middle = \<lparr>regionText = [], regionConfidence = 0\<rparr>,
       bottom = \<lparr>regionText = [], regionConfidence = 0\<rparr>\<rparr>) = None
   \<and> merchantName (scanReceipt False
      \<lparr>ocrText = js ''Joe Diner'', ocrConfidence = 80,
       top = \<lparr>regionText = js ''RECEIPT #123'' @ [10] @ js ''04/01/2025'' @ [10] @ js ''Joe Diner'', regionConfidence = 60\<rparr>,
       middle = \<lparr>regionText = [], regionConfidence = 0\<rparr>,
       bottom = \<lparr>regionText = [], regionConfidence = 0\<rparr>\<rparr>) = Some (js ''Joe Diner'')"
  using merchant_gated_at_60 [of "\<lparr>ocrText = js ''Joe Diner'', ocrConfidence = 80,
       top = \<lparr>regionText = js ''RECEIPT #123'' @ [10] @ js ''04/01/2025'' @ [10] @ js ''Joe Diner'', regionConfidence = 59\<rparr>,
       middle = \<lparr>regionText = [], regionConfidence = 0\<rparr>,
       bottom = \<lparr>regionText = [], regionConfidence = 0\<rparr>\<rparr>" False]
    merchant_gated_at_60 [of "\<lparr>ocrText = js ''Joe Diner'', ocrConfidence = 80,
       top = \<lparr>regionText = js ''RECEIPT #123'' @ [10] @ js ''04/01/2025'' @ [10] @ js ''Joe Diner'', regionConfidence = 60\<rparr>,
       middle = \<lparr>regionText = [], regionConfidence = 0\<rparr>,
       bottom = \<lparr>regionText = [], regionConfidence = 0\<rparr>\<rparr>" False]
    merchant_example
  by simp

section \<open>Category suggestion\<close>

lemma jsIncludes_empty: "jsIncludes s []"
  by (induction s) auto

text \<open>
  Claim C10. In engine v3, when the merchant name is null or the empty string and the
  learned list is not empty, \<open>suggestCategory\<close> returns the category of the first learned
  entry at high confidence, whatever the text: every name includes the empty string.
\<close>

theorem empty_merchant_first_learned:
  assumes "getLearnedMerchants st = Arr (e # es)" and "mName = None \<or> mName = Some []"
  shows "suggestCategory_v3 st txt mName = Inr (Some (category e), high)"
proof -
  have "merchantLowerOf mName = []" using assms(2) by (auto simp: merchantLowerOf_def toLowerCase_Nil)
  then have "learnedMatch_v3 (toLowerCase txt) (merchantLowerOf mName) e"
    by (simp add: learnedMatch_v3_def jsIncludes_empty)
  then show ?thesis using assms(1) by (simp add: suggestCategory_v3_def Let_def)
qed

theorem empty_merchant_first_learned_witness:
  "suggestCategory_v3
     \<lparr>item = Some (Merchants [\<lparr>name = js ''shell'', category = js ''Travel'', timesUsed = 3, lastUsed = js ''2026-01-01''\<rparr>,
                              \<lparr>name = js ''lidl'', category = js ''Groceries'', timesUsed = 1, lastUsed = js ''2026-01-02''\<rparr>]),
      getThrows = False, setThrows = False, removeThrows = False\<rparr>
     (js ''LIDL 12.50'') None = Inr (Some (js ''Travel''), high)
   \<and> suggestCategory_v3
     \<lparr>item = Some (Merchants [\<lparr>name = js ''shell'', category = js ''Travel'', timesUsed = 3, lastUsed = js ''2026-01-01''\<rparr>,
                              \<lparr>name = js ''lidl'', category = js ''Groceries'', timesUsed = 1, lastUsed = js ''2026-01-02''\<rparr>]),
      getThrows = False, setThrows = False, removeThrows = False\<rparr>
     (js ''LIDL 12.50'') (Some []) = Inr (Some (js ''Travel''), high)"
  using empty_merchant_first_learned [of "\<lparr>item = Some (Merchants [\<lparr>name = js ''shell'', category = js ''Travel'', timesUsed = 3, lastUsed = js ''2026-01-01''\<rparr>,
                              \<lparr>name = js ''lidl'', category = js ''Groceries'', timesUsed = 1, lastUsed = js ''2026-01-02''\<rparr>]),
      getThrows = False, setThrows = False, removeThrows = False\<rparr>" _ _ None "js ''LIDL 12.50''"]
    empty_merchant_first_learned [of "\<lparr>item = Some (Merchants [\<lparr>name = js ''shell'', category = js ''Travel'', timesUsed = 3, lastUsed = js ''2026-01-01''\<rparr>,
                              \<lparr>name = js ''lidl'', category = js ''Groceries'', timesUsed = 1, lastUsed = js ''2026-01-02''\<rparr>]),
      getThrows = False, setThrows = False, removeThrows = False\<rparr>" _ _ "Some []" "js ''LIDL 12.50''"]
  by (simp add: getLearnedMerchants_def)

lemma find_first:
  "find P xs = Some x \<longleftrightarrow> (\<exists>i < length xs. xs ! i = x \<and> P x \<and> (\<forall>j < i. \<not> P (xs ! j)))"
  by (auto simp: find_Some_iff)

lemmas cat_defs = suggestCategory_v3_def suggestCategory_v2_def learnedMatch_v3_def learnedMatch_v2_def
  merchantLowerOf_def getLearnedMerchants_def builtInCategory_def

text \<open>
  In engine v3 the learned entries are tried in stored order, before any built-in merchant
  or category keyword, with the three tests of the specification: the first entry whose
  name occurs in the lower-cased merchant name, contains it, or occurs in the lower-cased
  text gives the category, at high confidence.
\<close>

lemma suggestCategory_v3_learned_first:
  assumes "getLearnedMerchants st = Arr learned" and "i < length learned"
    and "jsIncludes (merchantLowerOf mName) (name (learned ! i))
         \<or> jsIncludes (name (learned ! i)) (merchantLowerOf mName)
         \<or> jsIncludes (toLowerCase txt) (name (learned ! i))"
    and "\<forall>j < i. \<not> (jsIncludes (merchantLowerOf mName) (name (learned ! j))
         \<or> jsIncludes (name (learned ! j)) (merchantLowerOf mName)
         \<or> jsIncludes (toLowerCase txt) (name (learned ! j)))"
  shows "suggestCategory_v3 st txt mName = Inr (Some (category (learned ! i)), high)"
proof -
  have "find (learnedMatch_v3 (toLowerCase txt) (merchantLowerOf mName)) learned = Some (learned ! i)"
    unfolding find_first learnedMatch_v3_def using assms(2,3,4) by blast
  then show ?thesis using assms(1) by (simp add: suggestCategory_v3_def Let_def)
qed

text \<open>So in engine v3 a learned entry decides whenever one of them passes a test.\<close>

lemma suggestCategory_v3_learned_wins:
  assumes "getLearnedMerchants st = Arr learned" and "e \<in> set learned"
    and "jsIncludes (merchantLowerOf mName) (name e) \<or> jsIncludes (name e) (merchantLowerOf mName)
         \<or> jsIncludes (toLowerCase txt) (name e)"
  shows "\<exists>e' \<in> set learned.
           (jsIncludes (merchantLowerOf mName) (name e') \<or> jsIncludes (name e') (merchantLowerOf mName)
            \<or> jsIncludes (toLowerCase txt) (name e'))
           \<and> suggestCategory_v3 st txt mName = Inr (Some (category e'), high)"
proof -
  have "learnedMatch_v3 (toLowerCase txt) (merchantLowerOf mName) e"
    using assms(3) by (simp add: learnedMatch_v3_def)
  then obtain e' where f: "find (learnedMatch_v3 (toLowerCase txt) (merchantLowerOf mName)) learned = Some e'"
    using assms(2) by (cases "find (learnedMatch_v3 (toLowerCase txt) (merchantLowerOf mName)) learned")
      (auto simp: find_None_iff)
  then have "e' \<in> set learned \<and> learnedMatch_v3 (toLowerCase txt) (merchantLowerOf mName) e'"
    by (auto simp: find_Some_iff)
  then show ?thesis using f assms(1) by (auto simp: suggestCategory_v3_def learnedMatch_v3_def Let_def)
qed

text \<open>
  Engine v2 tries the learned entries in the same way, but with two of the three tests:
  the name occurs in the lower-cased merchant name, or in the lower-cased text.
\<close>

lemma suggestCategory_v2_learned_first:
  assumes "getLearnedMerchants st = Arr learned" and "i < length learned"
    and "jsIncludes (merchantLowerOf mName) (name (learned ! i))
         \<or> jsIncludes (toLowerCase txt) (name (learned ! i))"
    and "\<forall>j < i. \<not> (jsIncludes (merchantLowerOf mName) (name (learned ! j))
         \<or> jsIncludes (toLowerCase txt) (name (learned ! j)))"
  shows "suggestCategory_v2 st txt mName = Inr (Some (category (learned ! i)), high)"
proof -
  have "find (learnedMatch_v2 (toLowerCase txt) (merchantLowerOf mName)) learned = Some (learned ! i)"
    unfolding find_first learnedMatch_v2_def using assms(2,3,4) by blast
  then show ?thesis using assms(1) by (simp add: suggestCategory_v2_def Let_def)
qed

text \<open>
  The example of the specification, in both engines: with \<open>lidl\<close> and \<open>joe's diner\<close>
  learned, a text that mentions \<open>Joe's Diner\<close> gives \<open>Custom Food\<close> at high confidence.
\<close>

lemma learned_example:
  "suggestCategory_v3
     \<lparr>item = Some (Merchants [\<lparr>name = js ''lidl'', category = js ''Groceries'', timesUsed = 3, lastUsed = js ''2026-01-01''\<rparr>,
                              \<lparr>name = js ''joe'' @ [39] @ js ''s diner'', category = js ''Custom Food'', timesUsed = 1, lastUsed = js ''2026-01-02''\<rparr>]),
      getThrows = False, setThrows = False, removeThrows = False\<rparr>
     (js ''Joe'' @ [39] @ js ''s Diner 12.50'') (Some (js ''Joe'' @ [39] @ js ''s Diner'')) = Inr (Some (js ''Custom Food''), high)
   \<and> suggestCategory_v2
     \<lparr>item = Some (Merchants [\<lparr>name = js ''lidl'', category = js ''Groceries'', timesUsed = 3, lastUsed = js ''2026-01-01''\<rparr>,
                              \<lparr>name = js ''joe'' @ [39] @ js ''s diner'', category = js ''Custom Food'', timesUsed = 1, lastUsed = js ''2026-01-02''\<rparr>]),
      getThrows = False, setThrows = False, removeThrows = False\<rparr>
     (js ''Joe'' @ [39] @ js ''s Diner 12.50'') (Some (js ''Joe'' @ [39] @ js ''s Diner'')) = Inr (Some (js ''Custom Food''), high)"
  by (simp add: cat_defs str_defs cls_defs)


text \<open>The same with the merchant name as a receipt prints it, \<open>Joe's Diner\<close>.\<close>

lemma joes_diner_capitalised:
  "suggestCategory_v3
     \<lparr>item = Some (Merchants [\<lparr>name = js ''joe'' @ [39] @ js ''s diner downtown'',
                               category = js ''Custom Food'', timesUsed = 1,
                               lastUsed = js ''2026-01-02''\<rparr>]),
      getThrows = False, setThrows = False, removeThrows = False\<rparr>
     (js ''Table 4 12.50'') (Some (js ''Joe'' @ [39] @ js ''s Diner''))
   = Inr (Some (js ''Custom Food''), high)
   \<and> suggestCategory_v2
     \<lparr>item = Some (Merchants [\<lparr>name = js ''joe'' @ [39] @ js ''s diner downtown'',
                               category = js ''Custom Food'', timesUsed = 1,
                               lastUsed = js ''2026-01-02''\<rparr>]),
      getThrows = False, setThrows = False, removeThrows = False\<rparr>
     (js ''Table 4 12.50'') (Some (js ''Joe'' @ [39] @ js ''s Diner''))
   = Inr (None, low)"
  by (simp add: cat_defs str_defs cls_defs BUILT_IN_MERCHANTS_v2_def CATEGORY_KEYWORDS_v2_def)

section \<open>The capacity of the learning store\<close>

lemma sortByUse_sorted: "sorted_wrt (\<lambda>a b. timesUsed b \<le> timesUsed a) (sortByUse ms)"
proof -
  have "sorted (map (\<lambda>m. - timesUsed m) (sortByUse ms))"
    unfolding sortByUse_def by (rule sorted_sort_key)
  then show ?thesis by (simp add: sorted_wrt_map)
qed

lemma sortByUse_set: "set (sortByUse ms) = set ms"
  by (simp add: sortByUse_def)

lemma sortByUse_length: "length (sortByUse ms) = length ms"
  by (simp add: sortByUse_def)

lemma kept_sorted: "sorted_wrt (\<lambda>a b. timesUsed b \<le> timesUsed a) (take n (sortByUse ms))"
  using sortByUse_sorted by (rule sorted_wrt_take)

lemma evicted_lowest:
  assumes "k \<in> set (take n (sortByUse ms))" "e \<in> set (drop n (sortByUse ms))"
  shows "timesUsed e \<le> timesUsed k"
proof -
  have "sorted_wrt (\<lambda>a b. timesUsed b \<le> timesUsed a) (take n (sortByUse ms) @ drop n (sortByUse ms))"
    using sortByUse_sorted [of ms] by simp
  then show ?thesis using assms unfolding sorted_wrt_append by blast
qed

lemma saveLearnedMerchant_writes:
  assumes "\<not> setThrows st" "getLearnedMerchants st = Arr ms"
  shows "saveLearnedMerchant st now nam cat =
     Inr (st\<lparr>item := Some (Merchants (take 500 (sortByUse (recordMerchant (trim (toLowerCase nam)) cat now ms))))\<rparr>)"
  using assms by (simp add: saveLearnedMerchant_def saveBody_def Let_def)

lemma recordMerchant_new:
  assumes "\<forall>m \<in> set ms. toLowerCase (name m) \<noteq> n"
  shows "recordMerchant n cat now ms = ms @ [\<lparr>name = n, category = cat, timesUsed = 1, lastUsed = now\<rparr>]"
proof -
  have "find (\<lambda>m. toLowerCase (name m) = n) ms = None" using assms by (simp add: find_None_iff)
  then show ?thesis by (simp add: recordMerchant_def)
qed

lemma getLearnedMerchants_written:
  "\<not> getThrows st \<Longrightarrow> getLearnedMerchants (st\<lparr>item := Some (Merchants ms)\<rparr>) = Arr ms"
  by (simp add: getLearnedMerchants_def)

lemma saveAll_count:
  assumes "\<not> getThrows st" "\<not> setThrows st" "getLearnedMerchants st = Arr ms"
    and "length ms \<le> 500"
    and "\<forall>m \<in> set ms. toLowerCase (name m) = name m"
    and "distinct (map (\<lambda>c. trim (toLowerCase (fst (snd c)))) cs)"
    and "name ` set ms \<inter> (\<lambda>c. trim (toLowerCase (fst (snd c)))) ` set cs = {}"
  shows "\<exists>st' ms'. saveAll st cs = Inr st' \<and> \<not> getThrows st' \<and> getLearnedMerchants st' = Arr ms'
           \<and> length ms' = min (length ms + length cs) 500"
  using assms
proof (induction cs arbitrary: st ms)
  case Nil
  then show ?case by simp
next
  case (Cons c cs)
  let ?n = "trim (toLowerCase (fst (snd c)))"
  let ?new = "\<lparr>name = ?n, category = snd (snd c), timesUsed = 1, lastUsed = fst c\<rparr>"
  let ?kept = "take 500 (sortByUse (ms @ [?new]))"
  let ?st1 = "st\<lparr>item := Some (Merchants ?kept)\<rparr>"
  have notin: "?n \<notin> name ` set ms" using Cons.prems(7) by auto
  have fresh: "\<forall>m \<in> set ms. toLowerCase (name m) \<noteq> ?n"
  proof
    fix m assume m: "m \<in> set ms"
    then have "name m \<in> name ` set ms" by (rule imageI)
    with notin have "name m \<noteq> ?n" by metis
    then show "toLowerCase (name m) \<noteq> ?n" using Cons.prems(5) m by simp
  qed
  have step: "saveLearnedMerchant st (fst c) (fst (snd c)) (snd (snd c)) = Inr ?st1"
    using saveLearnedMerchant_writes [OF Cons.prems(2,3)] recordMerchant_new [OF fresh] by simp
  have g1: "getLearnedMerchants ?st1 = Arr ?kept"
    using Cons.prems(1) by (rule getLearnedMerchants_written)
  have sub: "set ?kept \<subseteq> insert ?new (set ms)"
    using set_take_subset [of 500 "sortByUse (ms @ [?new])"] by (auto simp: sortByUse_set)
  have low: "\<forall>m \<in> set ?kept. toLowerCase (name m) = name m"
    using sub Cons.prems(5) normalized_lower by auto
  have dis: "distinct (map (\<lambda>c. trim (toLowerCase (fst (snd c)))) cs)"
    using Cons.prems(6) by simp
  have names: "name ` set ?kept \<subseteq> insert ?n (name ` set ms)"
  proof
    fix x assume "x \<in> name ` set ?kept"
    then obtain m where m: "m \<in> set ?kept" "x = name m" by blast
    from m(1) sub have "m = ?new \<or> m \<in> set ms" by blast
    then show "x \<in> insert ?n (name ` set ms)" using m(2) by auto
  qed
  have n1: "?n \<notin> (\<lambda>c. trim (toLowerCase (fst (snd c)))) ` set cs"
    using Cons.prems(6) by simp
  have "(\<lambda>c. trim (toLowerCase (fst (snd c)))) ` set cs
          \<subseteq> (\<lambda>c. trim (toLowerCase (fst (snd c)))) ` set (c # cs)"
    by (rule image_mono) (simp add: subset_insertI)
  then have n2: "name ` set ms \<inter> (\<lambda>c. trim (toLowerCase (fst (snd c)))) ` set cs = {}"
    using Cons.prems(7) by blast
  have disj: "name ` set ?kept \<inter> (\<lambda>c. trim (toLowerCase (fst (snd c)))) ` set cs = {}"
  proof (rule ccontr)
    assume "name ` set ?kept \<inter> (\<lambda>c. trim (toLowerCase (fst (snd c)))) ` set cs \<noteq> {}"
    then obtain x where x: "x \<in> name ` set ?kept" "x \<in> (\<lambda>c. trim (toLowerCase (fst (snd c)))) ` set cs"
      by blast
    from x(1) names have "x = ?n \<or> x \<in> name ` set ms" by blast
    then show False using x(2) n1 n2 by blast
  qed
  have flags: "\<not> getThrows ?st1" "\<not> setThrows ?st1" using Cons.prems(1,2) by simp_all
  obtain st' ms' where r: "saveAll ?st1 cs = Inr st'" "\<not> getThrows st'"
      "getLearnedMerchants st' = Arr ms'" "length ms' = min (length ?kept + length cs) 500"
    using Cons.IH [OF flags g1 _ low dis disj] by auto
  have len: "length ?kept = min (length ms + 1) 500" by (simp add: sortByUse_length)
  have "saveAll st (c # cs) = Inr st'" using step r(1) by simp
  moreover have "length ms' = min (length ms + length (c # cs)) 500" using r(4) len by auto
  ultimately show ?case using r(2,3) by blast
qed

lemma written_item:
  assumes "getLearnedMerchants st = Arr ms" "ms \<noteq> []"
  shows "item st = Some (Merchants ms)"
  using assms by (auto simp: getLearnedMerchants_def split: if_splits option.splits stored.splits)


text \<open>
  Names that differ in case only are one entry, also beyond Basic Latin: the corrections
  \<open>U+017B a\<close>, \<open>U+017C a\<close>, \<open>U+0141 a\<close>, \<open>U+0142 a\<close> leave two entries, each used twice.
\<close>

lemma saveAll_merges_case:
  "saveAll \<lparr>item = None, getThrows = False, setThrows = False, removeThrows = False\<rparr>
     [(js ''2026-11-01'', [379, 97], js ''Groceries''), (js ''2026-11-02'', [380, 97], js ''Groceries''),
      (js ''2026-11-03'', [321, 97], js ''Travel''), (js ''2026-11-04'', [322, 97], js ''Travel'')]
   = Inr \<lparr>item = Some (Merchants
        [\<lparr>name = [380, 97], category = js ''Groceries'', timesUsed = 2, lastUsed = js ''2026-11-02''\<rparr>,
         \<lparr>name = [322, 97], category = js ''Travel'', timesUsed = 2, lastUsed = js ''2026-11-04''\<rparr>]),
      getThrows = False, setThrows = False, removeThrows = False\<rparr>"
  by (simp add: toLowerCase_def lowerPoint_some isHighSurrogate_def saveLearnedMerchant_def saveBody_def
      getLearnedMerchants_def recordMerchant_def bumpExisting_def sortByUse_def trim_def
      isSpace_def js_def Let_def)

text \<open>
  Claim C4. After every \<open>saveLearnedMerchant\<close>: either nothing is written (the storage
  refuses the write, or what it holds is no list) and the storage is unchanged, or the
  list written is the first 500 entries of the updated list sorted by descending
  \<open>timesUsed\<close>; so it has at most 500 entries, it is in descending order of \<open>timesUsed\<close>,
  every entry left out was used no more than every entry kept, and nothing else is lost.
  Recording 501 corrections with distinct normalised names, from an empty store that
  does not fail, leaves exactly 500 entries.
\<close>

theorem save_keeps_500_most_used:
  "(setThrows st \<or> getLearnedMerchants st = NonArr \<longrightarrow>
      saveLearnedMerchant st now nam cat = Inr st)
   \<and> (\<not> setThrows st \<and> getLearnedMerchants st = Arr ms \<longrightarrow>
      (let ranked = sortByUse (recordMerchant (trim (toLowerCase nam)) cat now ms)
       in saveLearnedMerchant st now nam cat = Inr (st\<lparr>item := Some (Merchants (take 500 ranked))\<rparr>)
          \<and> length (take 500 ranked) \<le> 500
          \<and> sorted_wrt (\<lambda>a b. timesUsed b \<le> timesUsed a) (take 500 ranked)
          \<and> (\<forall>k \<in> set (take 500 ranked). \<forall>e \<in> set (drop 500 ranked). timesUsed e \<le> timesUsed k)
          \<and> set (take 500 ranked) \<union> set (drop 500 ranked)
              = set (recordMerchant (trim (toLowerCase nam)) cat now ms)))
   \<and> (\<not> getThrows st \<and> \<not> setThrows st \<and> item st = None \<and> length cs = 501
        \<and> distinct (map (\<lambda>c. trim (toLowerCase (fst (snd c)))) cs) \<longrightarrow>
      (\<exists>st' kept. saveAll st cs = Inr st' \<and> item st' = Some (Merchants kept) \<and> length kept = 500))"
proof (intro conjI impI)
  assume "setThrows st \<or> getLearnedMerchants st = NonArr"
  then show "saveLearnedMerchant st now nam cat = Inr st" by (rule saveLearnedMerchant_noop)
next
  assume a: "\<not> setThrows st \<and> getLearnedMerchants st = Arr ms"
  let ?r = "sortByUse (recordMerchant (trim (toLowerCase nam)) cat now ms)"
  have w: "saveLearnedMerchant st now nam cat = Inr (st\<lparr>item := Some (Merchants (take 500 ?r))\<rparr>)"
    using a by (intro saveLearnedMerchant_writes) auto
  have u: "set (take 500 ?r) \<union> set (drop 500 ?r) = set (recordMerchant (trim (toLowerCase nam)) cat now ms)"
    using set_append [of "take 500 ?r" "drop 500 ?r"] by (simp add: sortByUse_set)
  show "let ranked = ?r
       in saveLearnedMerchant st now nam cat = Inr (st\<lparr>item := Some (Merchants (take 500 ranked))\<rparr>)
          \<and> length (take 500 ranked) \<le> 500
          \<and> sorted_wrt (\<lambda>a b. timesUsed b \<le> timesUsed a) (take 500 ranked)
          \<and> (\<forall>k \<in> set (take 500 ranked). \<forall>e \<in> set (drop 500 ranked). timesUsed e \<le> timesUsed k)
          \<and> set (take 500 ranked) \<union> set (drop 500 ranked)
              = set (recordMerchant (trim (toLowerCase nam)) cat now ms)"
    unfolding Let_def using w u kept_sorted evicted_lowest by auto
next
  assume a: "\<not> getThrows st \<and> \<not> setThrows st \<and> item st = None \<and> length cs = 501
        \<and> distinct (map (\<lambda>c. trim (toLowerCase (fst (snd c)))) cs)"
  then have g: "getLearnedMerchants st = Arr []" by (simp add: getLearnedMerchants_def)
  obtain st' ms' where r: "saveAll st cs = Inr st'" "getLearnedMerchants st' = Arr ms'"
      "length ms' = min (length ([] :: LearnedMerchant list) + length cs) 500"
    using saveAll_count [of st "[]" cs] a g by auto
  then have l: "length ms' = 500" using a by simp
  then have "ms' \<noteq> []" by auto
  then have "item st' = Some (Merchants ms')" using r(2) by (intro written_item)
  then show "\<exists>st' kept. saveAll st cs = Inr st' \<and> item st' = Some (Merchants kept) \<and> length kept = 500"
    using r(1) l by blast
qed

lemma names_501:
  "length (map (\<lambda>k. (js ''2026-11-03'', replicate (Suc k) 97, js ''Travel'')) [0..<501]) = 501"
  "distinct (map (\<lambda>c. trim (toLowerCase (fst (snd c))))
     (map (\<lambda>k. (js ''2026-11-03'', replicate (Suc k) 97, js ''Travel'')) [0..<501]))"
proof -
  show "length (map (\<lambda>k. (js ''2026-11-03'', replicate (Suc k) 97, js ''Travel'')) [0..<501]) = 501"
    by simp
  have ns: "\<not> isSpace 97" by (simp add: isSpace_def)
  have n: "\<And>k. trim (toLowerCase (97 # replicate k 97)) = 97 # replicate k 97"
  proof -
    fix k
    have "toLowerCase (97 # replicate k 97) = map asciiLower (97 # replicate k 97)"
      by (rule toLowerCase_ascii) (simp add: list_all_iff)
    then have "toLowerCase (97 # replicate k 97) = 97 # replicate k 97"
      by (simp add: asciiLower_def)
    moreover have "rev (97 # replicate k (97::nat)) = 97 # replicate k 97"
      using rev_replicate [of "Suc k" "97::nat"] by simp
    ultimately show "trim (toLowerCase (97 # replicate k 97)) = 97 # replicate k 97"
      using ns by (simp add: trim_def)
  qed
  have "inj_on (\<lambda>k. replicate (Suc k) (97::nat)) (set [0..<501])"
  proof (rule inj_onI)
    fix a b assume "replicate (Suc a) (97::nat) = replicate (Suc b) 97"
    then have "length (replicate (Suc a) (97::nat)) = length (replicate (Suc b) (97::nat))" by simp
    then show "a = b" by simp
  qed
  then have "distinct (map (\<lambda>k. replicate (Suc k) (97::nat)) [0..<501])"
    by (simp add: distinct_map)
  then show "distinct (map (\<lambda>c. trim (toLowerCase (fst (snd c))))
     (map (\<lambda>k. (js ''2026-11-03'', replicate (Suc k) 97, js ''Travel'')) [0..<501]))"
    by (simp add: o_def n)
qed

theorem save_keeps_500_most_used_witness:
  "saveLearnedMerchant \<lparr>item = None, getThrows = False, setThrows = True, removeThrows = False\<rparr>
      (js ''2026-11-03'') (js ''Lidl'') (js ''Groceries'')
     = Inr \<lparr>item = None, getThrows = False, setThrows = True, removeThrows = False\<rparr>
   \<and> saveLearnedMerchant
      \<lparr>item = Some (Merchants [\<lparr>name = js ''shell'', category = js ''Travel'', timesUsed = 2, lastUsed = js ''2026-01-01''\<rparr>,
                               \<lparr>name = js ''lidl'', category = js ''Food'', timesUsed = 2, lastUsed = js ''2026-01-02''\<rparr>]),
       getThrows = False, setThrows = False, removeThrows = False\<rparr>
      (js ''2026-11-03'') (js '' Lidl '') (js ''Groceries'')
     = Inr \<lparr>item = Some (Merchants [\<lparr>name = js ''lidl'', category = js ''Groceries'', timesUsed = 3, lastUsed = js ''2026-11-03''\<rparr>,
                                    \<lparr>name = js ''shell'', category = js ''Travel'', timesUsed = 2, lastUsed = js ''2026-01-01''\<rparr>]),
            getThrows = False, setThrows = False, removeThrows = False\<rparr>
   \<and> (\<exists>st' kept.
        saveAll \<lparr>item = None, getThrows = False, setThrows = False, removeThrows = False\<rparr>
          (map (\<lambda>k. (js ''2026-11-03'', replicate (Suc k) 97, js ''Travel'')) [0..<501]) = Inr st'
        \<and> item st' = Some (Merchants kept) \<and> length kept = 500)"
proof -
  let ?st1 = "\<lparr>item = None, getThrows = False, setThrows = True, removeThrows = False\<rparr>"
  let ?L = "[\<lparr>name = js ''shell'', category = js ''Travel'', timesUsed = 2, lastUsed = js ''2026-01-01''\<rparr>,
             \<lparr>name = js ''lidl'', category = js ''Food'', timesUsed = 2, lastUsed = js ''2026-01-02''\<rparr>]"
  let ?st2 = "\<lparr>item = Some (Merchants ?L), getThrows = False, setThrows = False, removeThrows = False\<rparr>"
  let ?st3 = "\<lparr>item = None, getThrows = False, setThrows = False, removeThrows = False\<rparr>"
  let ?cs = "map (\<lambda>k. (js ''2026-11-03'', replicate (Suc k) 97, js ''Travel'')) [0..<501]"
  have 1: "saveLearnedMerchant ?st1 (js ''2026-11-03'') (js ''Lidl'') (js ''Groceries'') = Inr ?st1"
    using save_keeps_500_most_used [of ?st1 "js ''2026-11-03''" "js ''Lidl''" "js ''Groceries''"]
    by simp
  have g: "\<not> setThrows ?st2 \<and> getLearnedMerchants ?st2 = Arr ?L"
    by (simp add: getLearnedMerchants_def)
  have r: "take 500 (sortByUse (recordMerchant (trim (toLowerCase (js '' Lidl ''))) (js ''Groceries'') (js ''2026-11-03'') ?L))
      = [\<lparr>name = js ''lidl'', category = js ''Groceries'', timesUsed = 3, lastUsed = js ''2026-11-03''\<rparr>,
         \<lparr>name = js ''shell'', category = js ''Travel'', timesUsed = 2, lastUsed = js ''2026-01-01''\<rparr>]"
    by (simp add: sortByUse_def recordMerchant_def str_defs cls_defs)
  have 2: "saveLearnedMerchant ?st2 (js ''2026-11-03'') (js '' Lidl '') (js ''Groceries'')
      = Inr (?st2\<lparr>item := Some (Merchants (take 500 (sortByUse (recordMerchant (trim (toLowerCase (js '' Lidl ''))) (js ''Groceries'') (js ''2026-11-03'') ?L))))\<rparr>)"
    using save_keeps_500_most_used [of ?st2 "js ''2026-11-03''" "js '' Lidl ''" "js ''Groceries''" ?L] g
    unfolding Let_def by blast
  have 3: "\<exists>st' kept. saveAll ?st3 ?cs = Inr st' \<and> item st' = Some (Merchants kept) \<and> length kept = 500"
    using save_keeps_500_most_used [of ?st3 _ _ _ _ ?cs] names_501 by simp
  show ?thesis using 1 2 3 unfolding r by simp
qed

end
